theory Spec2Isabelle
  imports Complex_Main
begin

section \<open>Tensors\<close>

text \<open>
  The entries of a tensor are floating-point values: a finite number, one of the two
  infinities, or NaN. The special values follow the floating-point standard: NaN is
  absorbing, the sum of the two infinities is NaN, and so is the product of an infinity
  and zero. On finite values the operations are those of the real numbers: rounding,
  overflow to infinity and the sign of zero are not modelled.
\<close>

datatype fl = Fin real | PInf | NInf | NaN

instantiation fl :: "{zero, one, plus, times, uminus, minus}"
begin

definition zero_fl :: fl where
  "zero_fl = Fin 0"

definition one_fl :: fl where
  "one_fl = Fin 1"

fun plus_fl :: "fl \<Rightarrow> fl \<Rightarrow> fl" where
  "plus_fl (Fin a) (Fin b) = Fin (a + b)"
| "plus_fl NaN _ = NaN"
| "plus_fl _ NaN = NaN"
| "plus_fl PInf NInf = NaN"
| "plus_fl NInf PInf = NaN"
| "plus_fl PInf _ = PInf"
| "plus_fl _ PInf = PInf"
| "plus_fl NInf _ = NInf"
| "plus_fl _ NInf = NInf"

fun times_fl :: "fl \<Rightarrow> fl \<Rightarrow> fl" where
  "times_fl (Fin a) (Fin b) = Fin (a * b)"
| "times_fl NaN _ = NaN"
| "times_fl _ NaN = NaN"
| "times_fl (Fin a) PInf = (if a = 0 then NaN else if 0 < a then PInf else NInf)"
| "times_fl (Fin a) NInf = (if a = 0 then NaN else if 0 < a then NInf else PInf)"
| "times_fl PInf (Fin b) = (if b = 0 then NaN else if 0 < b then PInf else NInf)"
| "times_fl NInf (Fin b) = (if b = 0 then NaN else if 0 < b then NInf else PInf)"
| "times_fl PInf PInf = PInf"
| "times_fl PInf NInf = NInf"
| "times_fl NInf PInf = NInf"
| "times_fl NInf NInf = PInf"

fun uminus_fl :: "fl \<Rightarrow> fl" where
  "uminus_fl (Fin a) = Fin (- a)"
| "uminus_fl PInf = NInf"
| "uminus_fl NInf = PInf"
| "uminus_fl NaN = NaN"

definition minus_fl :: "fl \<Rightarrow> fl \<Rightarrow> fl" where
  "minus_fl a b = a + (- b)"

instance ..

end

text \<open>A finite entry; a row, and a tensor, of finite entries.\<close>

fun is_finite :: "fl \<Rightarrow> bool" where
  "is_finite (Fin a) = True"
| "is_finite _ = False"

definition finite_row :: "fl list \<Rightarrow> bool" where
  "finite_row r = list_all is_finite r"

text \<open>
  Division, the larger of two values (NaN if either is), the exponential, the rectifier
  \<open>max(0, v)\<close> and the test \<open>v > 0\<close>.
\<close>

fun fl_div :: "fl \<Rightarrow> fl \<Rightarrow> fl" where
  "fl_div (Fin a) (Fin b) =
     (if b = 0 then (if a = 0 then NaN else if 0 < a then PInf else NInf) else Fin (a / b))"
| "fl_div NaN _ = NaN"
| "fl_div _ NaN = NaN"
| "fl_div (Fin a) _ = Fin 0"
| "fl_div PInf (Fin b) = (if 0 \<le> b then PInf else NInf)"
| "fl_div NInf (Fin b) = (if 0 \<le> b then NInf else PInf)"
| "fl_div _ _ = NaN"

fun fl_max :: "fl \<Rightarrow> fl \<Rightarrow> fl" where
  "fl_max (Fin a) (Fin b) = Fin (max a b)"
| "fl_max NaN _ = NaN"
| "fl_max _ NaN = NaN"
| "fl_max PInf _ = PInf"
| "fl_max _ PInf = PInf"
| "fl_max NInf b = b"
| "fl_max a NInf = a"

fun fl_exp :: "fl \<Rightarrow> fl" where
  "fl_exp (Fin a) = Fin (exp a)"
| "fl_exp PInf = PInf"
| "fl_exp NInf = Fin 0"
| "fl_exp NaN = NaN"

fun fl_relu :: "fl \<Rightarrow> fl" where
  "fl_relu (Fin a) = Fin (max 0 a)"
| "fl_relu PInf = PInf"
| "fl_relu NInf = Fin 0"
| "fl_relu NaN = NaN"

fun fl_sqrt :: "fl \<Rightarrow> fl" where
  "fl_sqrt (Fin a) = (if a < 0 then NaN else Fin (sqrt a))"
| "fl_sqrt PInf = PInf"
| "fl_sqrt _ = NaN"

fun fl_pos :: "fl \<Rightarrow> bool" where
  "fl_pos (Fin a) = (0 < a)"
| "fl_pos PInf = True"
| "fl_pos _ = False"

text \<open>
  A two-dimensional tensor of shape (n, d) is the list of its n rows, each a list of d
  entries. The elementwise operations are applied to tensors of equal shape, as
  everywhere in the source.
\<close>

type_synonym vec = "fl list"
type_synonym tensor = "vec list"

text \<open>An edge index of shape (2, E) is the list of its E columns (row 0, row 1).\<close>

type_synonym edge_index = "(nat \<times> nat) list"

datatype error = ValueError | NotImplementedError | AssertionError | UnboundLocalError | AttributeError

definition ncols :: "tensor \<Rightarrow> nat" where
  "ncols h = (case h of [] \<Rightarrow> 0 | r # _ \<Rightarrow> length r)"

definition vadd :: "vec \<Rightarrow> vec \<Rightarrow> vec" where
  "vadd a b = map2 (+) a b"

definition tadd :: "tensor \<Rightarrow> tensor \<Rightarrow> tensor" where
  "tadd a b = map2 vadd a b"

definition tmul :: "tensor \<Rightarrow> tensor \<Rightarrow> tensor" where
  "tmul a b = map2 (map2 (*)) a b"

definition smul :: "fl \<Rightarrow> tensor \<Rightarrow> tensor" where
  "smul c a = map (map (\<lambda>v. c * v)) a"

definition one_minus :: "tensor \<Rightarrow> tensor" where
  "one_minus m = map (map (\<lambda>v. 1 - v)) m"

definition zeros :: "nat \<Rightarrow> nat \<Rightarrow> tensor" where
  "zeros n d = replicate n (replicate d 0)"

definition ones :: "nat \<Rightarrow> nat \<Rightarrow> tensor" where
  "ones n d = replicate n (replicate d 1)"

definition relu :: "tensor \<Rightarrow> tensor" where
  "relu a = map (map fl_relu) a"

text \<open>\<open>x[index]\<close>: the rows of \<open>x\<close> selected by an index vector.\<close>

definition index_select :: "tensor \<Rightarrow> nat list \<Rightarrow> tensor" where
  "index_select x idx = map (\<lambda>j. x ! j) idx"

text \<open>
  Scatter with reduction "add": the rows of \<open>src\<close> are added, in order, into the rows
  of the accumulator named by \<open>index\<close>.
\<close>

fun scatter_add :: "nat list \<Rightarrow> tensor \<Rightarrow> tensor \<Rightarrow> tensor" where
  "scatter_add (i # idx) (m # src) acc = scatter_add idx src (acc[i := vadd (acc ! i) m])"
| "scatter_add _ _ acc = acc"

section \<open>GINConv\<close>

text \<open>
  The sublayers of a GINConv are modules of the tensor library: the feed-forward
  sublayer \<open>mlp\<close> (Linear, BatchNorm1d, ReLU, Linear) and the edge encoder are held as
  the functions they compute; \<open>eps\<close> is the learned scalar.
\<close>

record ginconv =
  mlp :: "tensor \<Rightarrow> tensor"
  eps :: fl
  edge_encoder :: "tensor \<Rightarrow> tensor"
  flow :: string

text \<open>
  The modules a constructor creates are supplied by the tensor library:
  the feed-forward stack, BondEncoder, Linear(7, emb\_dim) and Linear(2, emb\_dim).
\<close>

record gin_modules =
  new_mlp :: "tensor \<Rightarrow> tensor"
  new_BondEncoder :: "tensor \<Rightarrow> tensor"
  new_Linear7 :: "tensor \<Rightarrow> tensor"
  new_Linear2 :: "tensor \<Rightarrow> tensor"

definition GINConv_init :: "gin_modules \<Rightarrow> nat \<Rightarrow> string \<Rightarrow> string option \<Rightarrow> error + ginconv" where
  "GINConv_init lib emb_dim task fl =
     (let fl' = (case fl of None \<Rightarrow> ''source_to_target'' | Some f \<Rightarrow> f) in
      if task = ''mol'' then
        Inr \<lparr>mlp = new_mlp lib, eps = 0, edge_encoder = new_BondEncoder lib, flow = fl'\<rparr>
      else if task = ''ppo'' then
        Inr \<lparr>mlp = new_mlp lib, eps = 0, edge_encoder = new_Linear7 lib, flow = fl'\<rparr>
      else if task = ''code2'' then
        Inr \<lparr>mlp = new_mlp lib, eps = 0, edge_encoder = new_Linear2 lib, flow = fl'\<rparr>
      else Inl NotImplementedError)"

fun message :: "tensor \<Rightarrow> tensor option \<Rightarrow> tensor" where
  "message x_j (Some edge_attr) = relu (tadd x_j edge_attr)"
| "message x_j None = relu x_j"

text \<open>
  Message passing of the graph library with aggregation "add": under the flow
  source\_to\_target row 0 of the edge index holds the sources \<open>j\<close> and row 1 the targets
  \<open>i\<close> (the other flow swaps them); the messages of the edges are summed, in edge order,
  into a zero tensor with one row per node; \<open>update\<close> returns the aggregate as it is.
\<close>

definition MessagePassing_propagate :: "string \<Rightarrow> edge_index \<Rightarrow> tensor \<Rightarrow> tensor option \<Rightarrow> tensor" where
  "MessagePassing_propagate fl edge_index x edge_attr =
     (let j = (if fl = ''source_to_target'' then map fst edge_index else map snd edge_index);
          i = (if fl = ''source_to_target'' then map snd edge_index else map fst edge_index)
      in scatter_add i (message (index_select x j) edge_attr) (zeros (length x) (ncols x)))"

text \<open>
  \<open>GINConv.forward\<close> up to the assignment of \<open>out\<close>: the node vectors after the optional
  masking, and the output before the directional update.
\<close>

definition GINConv_out ::
  "ginconv \<Rightarrow> tensor \<Rightarrow> edge_index \<Rightarrow> tensor option \<Rightarrow> bool \<Rightarrow> tensor \<Rightarrow> tensor \<times> tensor" where
  "GINConv_out c x0 edge_index edge_attr masking expander_node_mask =
     (let edge_embedding = (case edge_attr of Some a \<Rightarrow> Some (edge_encoder c a) | None \<Rightarrow> None);
          x = (if masking then tmul x0 expander_node_mask else x0);
          out = mlp c (tadd (smul (1 + eps c) x)
                       (MessagePassing_propagate (flow c) edge_index x edge_embedding))
      in (x, out))"

definition GINConv_forward ::
  "ginconv \<Rightarrow> tensor \<Rightarrow> edge_index \<Rightarrow> tensor option \<Rightarrow> bool \<Rightarrow> tensor \<Rightarrow> string \<Rightarrow> tensor" where
  "GINConv_forward c x0 edge_index edge_attr masking expander_node_mask update_nodes =
     (let (x, out) = GINConv_out c x0 edge_index edge_attr masking expander_node_mask
      in if update_nodes = ''expander'' then
           tadd (tmul (one_minus expander_node_mask) out) (tmul expander_node_mask x)
         else if update_nodes = ''original'' then
           tadd (tmul expander_node_mask out) (tmul (one_minus expander_node_mask) x)
         else out)"

section \<open>Convolution layers of either kind\<close>

text \<open>
  The degree-normalised layer GCNConv lives in a file of its own; its constructor and its
  forward function are parameters here. SumConv, the summation layer, likewise.
\<close>

record gcnconv =
  gcn_forward :: "tensor \<Rightarrow> edge_index \<Rightarrow> tensor option \<Rightarrow> bool \<Rightarrow> tensor \<Rightarrow> string \<Rightarrow> tensor"

datatype conv = GIN ginconv | GCN gcnconv

fun conv_forward ::
  "conv \<Rightarrow> tensor \<Rightarrow> edge_index \<Rightarrow> tensor option \<Rightarrow> bool \<Rightarrow> tensor \<Rightarrow> string \<Rightarrow> tensor" where
  "conv_forward (GIN c) h ei ea masking msk upd = GINConv_forward c h ei ea masking msk upd"
| "conv_forward (GCN c) h ei ea masking msk upd = gcn_forward c h ei ea masking msk upd"

type_synonym sumconv = "tensor \<Rightarrow> edge_index \<Rightarrow> tensor"
type_synonym batchnorm = "tensor \<Rightarrow> tensor"
type_synonym encoder = "int list list \<Rightarrow> int list option \<Rightarrow> tensor"

text \<open>
  The modules the constructors of the engine create, by the list they go to and the
  layer: what the tensor library and the two absent layer files return.
\<close>

record lib =
  gin_lib :: "string \<Rightarrow> nat \<Rightarrow> gin_modules"
  GCNConv_init :: "string \<Rightarrow> nat \<Rightarrow> nat \<Rightarrow> string \<Rightarrow> string option \<Rightarrow> error + gcnconv"
  SumConv_init :: "nat \<Rightarrow> nat \<Rightarrow> bool \<Rightarrow> sumconv"
  BatchNorm1d :: "string \<Rightarrow> nat \<Rightarrow> batchnorm"
  AtomEncoder :: "nat \<Rightarrow> encoder"
  Embedding :: "nat \<Rightarrow> nat \<Rightarrow> encoder"

section \<open>Dropout\<close>

text \<open>
  \<open>F.dropout(h, p, training)\<close>: the input itself when \<open>p = 0\<close> or outside training,
  the input times zero when \<open>p = 1\<close>, and otherwise the input times a noise tensor that
  holds \<open>1 / (1 - p)\<close> where the entry is kept, with probability \<open>1 - p\<close>, and 0 where
  it is dropped. The random draw is the argument \<open>keep\<close>.
\<close>

definition dropout :: "real \<Rightarrow> bool \<Rightarrow> bool list list \<Rightarrow> tensor \<Rightarrow> tensor" where
  "dropout p training keep h =
     (if p = 0 \<or> \<not> training then h
      else if p = 1 then map (map (\<lambda>v. v * 0)) h
      else map2 (map2 (\<lambda>k v. v * (if k then Fin (1 / (1 - p)) else 0))) keep h)"

text \<open>The draws of one forward pass, by layer and by phase (0 main, 1 hub, 2 return).\<close>

type_synonym draws = "nat \<Rightarrow> nat \<Rightarrow> bool list list"

section \<open>Batched graphs\<close>

record batched_data =
  node_x :: "int list list"
  edge_index :: edge_index
  edge_attr :: "tensor option"
  node_depth :: "int list list"
  batch :: "int list"
  expander_edge_index :: edge_index
  expander_node_mask :: "fl list"
  num_nodes :: nat

text \<open>\<open>node_depth.view(-1, )\<close>: the entries in row-major order.\<close>

definition view_flat :: "int list list \<Rightarrow> int list" where
  "view_flat t = concat t"

section \<open>Jumping knowledge\<close>

text \<open>
  \<open>node_representation = 0\<close> followed by \<open>node_representation += h_list[layer]\<close> for
  \<open>layer\<close> in \<open>range(num_layer + 1)\<close>: the first round adds the scalar 0 to entry 0,
  the others add tensors. With another mode no branch binds the variable and the
  \<open>return\<close> raises.
\<close>

definition scalar_add :: "fl \<Rightarrow> tensor \<Rightarrow> tensor" where
  "scalar_add c t = map (map (\<lambda>v. c + v)) t"

definition jumping_knowledge :: "string \<Rightarrow> nat \<Rightarrow> tensor list \<Rightarrow> error + tensor" where
  "jumping_knowledge jk L h_list =
     (if jk = ''last'' then Inr (last h_list)
      else if jk = ''sum'' then
        Inr (fold (\<lambda>layer node_representation. tadd node_representation (h_list ! layer))
               [1..<L + 1] (scalar_add 0 (h_list ! 0)))
      else Inl UnboundLocalError)"

section \<open>GNN\_node: the engine without expander\<close>

record gnn_node =
  num_layer :: nat
  drop_ratio :: real
  JK :: string
  task :: string
  residual :: bool
  training :: bool
  node_encoder :: "encoder option"
  convs :: "conv list"
  batch_norms :: "batchnorm list"

text \<open>
  The encoder is an attribute only for the tasks mol, ppa and code2; reading it
  otherwise raises. For code2 it also takes the flattened node depth.
\<close>

definition encode :: "('a gnn_node_scheme) \<Rightarrow> batched_data \<Rightarrow> error + tensor" where
  "encode m d =
     (case node_encoder m of
        None \<Rightarrow> Inl AttributeError
      | Some enc \<Rightarrow>
          if task m = ''code2'' then Inr (enc (node_x d) (Some (view_flat (node_depth d))))
          else Inr (enc (node_x d) None))"

text \<open>One round of the loop of \<open>GNN_node.forward\<close>, from \<open>h_list[layer]\<close> to the new entry.\<close>

definition GNN_node_layer ::
  "gnn_node \<Rightarrow> batched_data \<Rightarrow> draws \<Rightarrow> tensor \<Rightarrow> nat \<Rightarrow> tensor \<Rightarrow> tensor" where
  "GNN_node_layer m d keep msk layer h_prev =
     (let h = conv_forward (convs m ! layer) h_prev (edge_index d) (edge_attr d) False msk ''original'';
          h = (batch_norms m ! layer) h;
          h = (if layer = num_layer m - 1
               then dropout (drop_ratio m) (training m) (keep layer 0) h
               else dropout (drop_ratio m) (training m) (keep layer 0) (relu h))
      in if residual m then tadd h h_prev else h)"

definition GNN_node_h_list :: "gnn_node \<Rightarrow> batched_data \<Rightarrow> draws \<Rightarrow> error + tensor list" where
  "GNN_node_h_list m d keep =
     (case encode m d of
        Inl e \<Rightarrow> Inl e
      | Inr h \<Rightarrow>
          let msk = ones (length (node_x d)) (ncols h)
          in Inr (fold (\<lambda>layer h_list. h_list @ [GNN_node_layer m d keep msk layer (h_list ! layer)])
                    [0..<num_layer m] [h]))"

definition GNN_node_forward :: "gnn_node \<Rightarrow> batched_data \<Rightarrow> draws \<Rightarrow> error + tensor" where
  "GNN_node_forward m d keep =
     (case GNN_node_h_list m d keep of
        Inl e \<Rightarrow> Inl e
      | Inr h_list \<Rightarrow> jumping_knowledge (JK m) (num_layer m) h_list)"

section \<open>GNN\_node\_expander: the engine with expander\<close>

record gnn_node_expander = gnn_node +
  expander_edge_handling :: string
  expander_left_convs :: "conv list"
  expander_left_batch_norms :: "batchnorm list"
  expander_right_convs :: "conv list"
  expander_right_batch_norms :: "batchnorm list"
  summation :: "sumconv list"

text \<open>\<open>GNN_node_expander.propagate\<close>: convolution, normalisation, activation, dropout, residual.\<close>

definition propagate ::
  "gnn_node_expander \<Rightarrow> conv \<Rightarrow> batchnorm \<Rightarrow> tensor \<Rightarrow> edge_index \<Rightarrow> tensor option \<Rightarrow> tensor \<Rightarrow>
   bool \<Rightarrow> bool \<Rightarrow> string \<Rightarrow> bool list list \<Rightarrow> tensor" where
  "propagate m cv bn h0 ei ea msk no_act masking update_nodes keep =
     (let h_residual = h0;
          h = conv_forward cv h0 ei ea masking msk update_nodes;
          h = bn h;
          h = (if no_act then dropout (drop_ratio m) (training m) keep h
               else dropout (drop_ratio m) (training m) keep (relu h))
      in if residual m then tadd h h_residual else h)"

text \<open>\<open>expander_node_mask.unsqueeze(dim=-1).expand(n, h.shape[1])\<close>.\<close>

definition expand_mask :: "fl list \<Rightarrow> nat \<Rightarrow> tensor" where
  "expand_mask node_mask d = map (\<lambda>b. replicate d b) node_mask"

text \<open>\<open>expander_edge_index[[1, 0]]\<close>: the two rows of the edge index swapped.\<close>

definition reverse_edges :: "edge_index \<Rightarrow> edge_index" where
  "reverse_edges ei = map (\<lambda>(s, t). (t, s)) ei"

text \<open>The three phases of one round of the loop of \<open>GNN_node_expander.forward\<close>.\<close>

definition main_phase ::
  "gnn_node_expander \<Rightarrow> batched_data \<Rightarrow> draws \<Rightarrow> tensor \<Rightarrow> nat \<Rightarrow> tensor \<Rightarrow> tensor" where
  "main_phase m d keep msk layer h_prev =
     (let no_act = (layer = num_layer m - 1)
      in propagate m (convs m ! layer) (batch_norms m ! layer) h_prev (edge_index d) (edge_attr d)
           msk no_act False ''original'' (keep layer 0))"

definition hub_phase ::
  "gnn_node_expander \<Rightarrow> batched_data \<Rightarrow> draws \<Rightarrow> tensor \<Rightarrow> nat \<Rightarrow> tensor \<Rightarrow> tensor" where
  "hub_phase m d keep msk layer h0 =
     (if expander_edge_handling m \<in> {''summation'', ''summation-mlp''} then
        (let h = tmul h0 msk;
             h_edge = (summation m ! layer) h (expander_edge_index d)
         in tadd h (tmul h_edge (one_minus msk)))
      else
        (let masking = (expander_edge_handling m = ''masking'')
         in propagate m (expander_left_convs m ! layer) (expander_left_batch_norms m ! layer)
              h0 (expander_edge_index d) None msk False masking ''expander'' (keep layer 1)))"

definition return_phase ::
  "gnn_node_expander \<Rightarrow> batched_data \<Rightarrow> draws \<Rightarrow> tensor \<Rightarrow> nat \<Rightarrow> tensor \<Rightarrow> tensor" where
  "return_phase m d keep msk layer h0 =
     (let reverse_expander_edge_index = reverse_edges (expander_edge_index d)
      in propagate m (expander_right_convs m ! layer) (expander_right_batch_norms m ! layer)
           h0 reverse_expander_edge_index None msk False False ''original'' (keep layer 2))"

definition expander_layer ::
  "gnn_node_expander \<Rightarrow> batched_data \<Rightarrow> draws \<Rightarrow> tensor \<Rightarrow> nat \<Rightarrow> tensor \<Rightarrow> tensor" where
  "expander_layer m d keep msk layer h_prev =
     (let h = main_phase m d keep msk layer h_prev
      in if layer \<noteq> num_layer m - 1
         then return_phase m d keep msk layer (hub_phase m d keep msk layer h)
         else h)"

text \<open>The mask in the shape of the embedding, and history entry 0.\<close>

definition expander_mask :: "batched_data \<Rightarrow> tensor \<Rightarrow> tensor" where
  "expander_mask d h = expand_mask (expander_node_mask d) (ncols h)"

definition expander_h0 :: "batched_data \<Rightarrow> tensor \<Rightarrow> tensor" where
  "expander_h0 d h = tmul h (expander_mask d h)"

definition GNN_node_expander_h_list ::
  "gnn_node_expander \<Rightarrow> batched_data \<Rightarrow> draws \<Rightarrow> error + tensor list" where
  "GNN_node_expander_h_list m d keep =
     (case encode m d of
        Inl e \<Rightarrow> Inl e
      | Inr h \<Rightarrow>
          let msk = expander_mask d h;
              h = expander_h0 d h
          in Inr (fold (\<lambda>layer h_list. h_list @ [expander_layer m d keep msk layer (h_list ! layer)])
                    [0..<num_layer m] [h]))"

definition GNN_node_expander_forward ::
  "gnn_node_expander \<Rightarrow> batched_data \<Rightarrow> draws \<Rightarrow> error + tensor" where
  "GNN_node_expander_forward m d keep =
     (case GNN_node_expander_h_list m d keep of
        Inl e \<Rightarrow> Inl e
      | Inr h_list \<Rightarrow> jumping_knowledge (JK m) (num_layer m) h_list)"

section \<open>Graph pooling\<close>

text \<open>
  The pooling operators of the graph library. The number of groups is the largest batch
  index plus one; a group without nodes pools to zero.
\<close>

definition pool_size :: "int list \<Rightarrow> nat" where
  "pool_size b = nat (Max (set b) + 1)"

definition global_add_pool :: "tensor \<Rightarrow> int list \<Rightarrow> tensor" where
  "global_add_pool h b = scatter_add (map nat b) h (zeros (pool_size b) (ncols h))"

text \<open>Mean: the sums divided by the group sizes, a size below one counted as one.\<close>

definition global_mean_pool :: "tensor \<Rightarrow> int list \<Rightarrow> tensor" where
  "global_mean_pool h b =
     (let total = scatter_add (map nat b) h (zeros (pool_size b) (ncols h));
          count = scatter_add (map nat b) (ones (length h) 1) (zeros (pool_size b) 1)
      in map2 (\<lambda>row c. map (\<lambda>v. fl_div v (fl_max 1 (hd c))) row) total count)"

fun scatter_max :: "nat list \<Rightarrow> tensor \<Rightarrow> vec option list \<Rightarrow> vec option list" where
  "scatter_max (i # idx) (m # src) acc =
     scatter_max idx src (acc[i := Some (case acc ! i of None \<Rightarrow> m | Some a \<Rightarrow> map2 fl_max a m)])"
| "scatter_max _ _ acc = acc"

definition global_max_pool :: "tensor \<Rightarrow> int list \<Rightarrow> tensor" where
  "global_max_pool h b =
     map (\<lambda>r. case r of None \<Rightarrow> replicate (ncols h) 0 | Some v \<Rightarrow> v)
       (scatter_max (map nat b) h (replicate (pool_size b) None))"

text \<open>
  The softmax of the graph library within the groups of an index: the exponentials of
  the entries less their group's maximum, over their group's sum plus \<open>1e-16\<close>.
\<close>

definition group_softmax :: "tensor \<Rightarrow> nat list \<Rightarrow> nat \<Rightarrow> tensor" where
  "group_softmax src idx n =
     (let src_max = map (\<lambda>r. case r of None \<Rightarrow> replicate (ncols src) 0 | Some v \<Rightarrow> v)
                      (scatter_max idx src (replicate n None));
          out = map2 (map2 (\<lambda>v mx. fl_exp (v - mx))) src (index_select src_max idx);
          out_sum = map (map (\<lambda>v. v + Fin (1 / 10 ^ 16))) (scatter_add idx out (zeros n (ncols src)))
      in map2 (map2 fl_div) out (index_select out_sum idx))"

text \<open>
  GlobalAttention: a gate per node from \<open>gate_nn\<close>, normalised within each graph, weighs
  the node's row in the sum of its graph.
\<close>

definition GlobalAttention :: "(tensor \<Rightarrow> tensor) \<Rightarrow> tensor \<Rightarrow> int list \<Rightarrow> tensor" where
  "GlobalAttention gate_nn h b =
     (let n = pool_size b;
          gate = gate_nn h;
          gate = group_softmax gate (map nat b) n
      in scatter_add (map nat b) (map2 (\<lambda>g row. map (\<lambda>v. hd g * v) row) gate h) (zeros n (ncols h)))"

text \<open>
  Set2Set: the recurrent cell maps, for each graph on its own, the row \<open>q_star\<close> and the
  state of the graph to the query \<open>q\<close> and the new state; the nodes of a graph are weighed
  by the softmax of their products with the query; \<open>q_star\<close> becomes query and readout
  side by side.
\<close>

type_synonym lstm = "vec \<Rightarrow> vec \<times> vec \<Rightarrow> vec \<times> (vec \<times> vec)"

definition Set2Set_step ::
  "lstm \<Rightarrow> tensor \<Rightarrow> nat list \<Rightarrow> nat \<Rightarrow> tensor \<times> (vec \<times> vec) list \<Rightarrow> tensor \<times> (vec \<times> vec) list" where
  "Set2Set_step cell h idx n st =
     (let qh = map2 cell (fst st) (snd st);
          q = map fst qh;
          e = map (\<lambda>row. [fold (\<lambda>v acc. acc + v) row 0]) (tmul h (index_select q idx));
          a = group_softmax e idx n;
          r = scatter_add idx (map2 (\<lambda>g row. map (\<lambda>v. hd g * v) row) a h) (zeros n (ncols h))
      in (map2 (@) q r, map snd qh))"

definition Set2Set :: "lstm \<Rightarrow> nat \<Rightarrow> tensor \<Rightarrow> int list \<Rightarrow> tensor" where
  "Set2Set cell processing_steps h b =
     (let batch_size = pool_size b;
          st0 = (zeros batch_size (2 * ncols h),
                 replicate batch_size (replicate (ncols h) 0, replicate (ncols h) 0))
      in fst (fold (\<lambda>i st. Set2Set_step cell h (map nat b) batch_size st) [0..<processing_steps] st0))"

datatype pool = Add_pool | Mean_pool | Max_pool | Attention_pool "tensor \<Rightarrow> tensor" | Set2Set_pool lstm

fun pool_apply :: "pool \<Rightarrow> tensor \<Rightarrow> int list \<Rightarrow> tensor" where
  "pool_apply Add_pool h b = global_add_pool h b"
| "pool_apply Mean_pool h b = global_mean_pool h b"
| "pool_apply Max_pool h b = global_max_pool h b"
| "pool_apply (Attention_pool gate_nn) h b = GlobalAttention gate_nn h b"
| "pool_apply (Set2Set_pool cell) h b = Set2Set cell 2 h b"

text \<open>
  The readout of \<open>GNN.forward\<close>. With expander, \<open>torch.where(mask > 0, batch, -1) + 1\<close>
  sends the hub nodes to group 0, and \<open>[1:, :]\<close> drops the row of that group.
\<close>

definition remap_batch :: "fl list \<Rightarrow> int list \<Rightarrow> int list" where
  "remap_batch node_mask b = map2 (\<lambda>m g. (if fl_pos m then g else - 1) + 1) node_mask b"

definition readout :: "pool \<Rightarrow> bool \<Rightarrow> tensor \<Rightarrow> batched_data \<Rightarrow> tensor" where
  "readout pl expander_on h_node d =
     (if expander_on then tl (pool_apply pl h_node (remap_batch (expander_node_mask d) (batch d)))
      else pool_apply pl h_node (batch d))"

section \<open>Constructors of the engines\<close>

text \<open>The node encoder chosen by the task; for code2 it has to be supplied.\<close>

definition choose_encoder :: "lib \<Rightarrow> nat \<Rightarrow> string \<Rightarrow> encoder option \<Rightarrow> error + encoder option" where
  "choose_encoder lb emb_dim' task' node_encoder' =
     (if task' = ''mol'' then Inr (Some (AtomEncoder lb emb_dim'))
      else if task' = ''ppa'' then Inr (Some (Embedding lb 1 emb_dim'))
      else if task' = ''code2'' then
        (case node_encoder' of None \<Rightarrow> Inl AssertionError | Some e \<Rightarrow> Inr (Some e))
      else Inr None)"

text \<open>One convolution layer of the kind \<open>gnn_type\<close> for a list of the engine.\<close>

definition new_conv ::
  "lib \<Rightarrow> string \<Rightarrow> nat \<Rightarrow> nat \<Rightarrow> string \<Rightarrow> string option \<Rightarrow> string \<Rightarrow> error + conv" where
  "new_conv lb lst layer emb_dim' task' fl gnn_type =
     (if gnn_type = ''gin'' then
        (case GINConv_init (gin_lib lb lst layer) emb_dim' task' fl of
           Inl e \<Rightarrow> Inl e | Inr c \<Rightarrow> Inr (GIN c))
      else if gnn_type = ''gcn'' then
        (case GCNConv_init lb lst layer emb_dim' task' fl of
           Inl e \<Rightarrow> Inl e | Inr c \<Rightarrow> Inr (GCN c))
      else Inl ValueError)"

text \<open>The loop over the layers of \<open>GNN_node.__init__\<close>, on the two module lists.\<close>

fun GNN_node_modules ::
  "lib \<Rightarrow> nat \<Rightarrow> string \<Rightarrow> string \<Rightarrow> nat list \<Rightarrow> conv list \<times> batchnorm list
   \<Rightarrow> error + conv list \<times> batchnorm list" where
  "GNN_node_modules lb emb_dim' task' gnn_type [] acc = Inr acc"
| "GNN_node_modules lb emb_dim' task' gnn_type (layer # ls) (cs, bs) =
     (case new_conv lb ''convs'' layer emb_dim' task' None gnn_type of
        Inl e \<Rightarrow> Inl e
      | Inr c \<Rightarrow>
          GNN_node_modules lb emb_dim' task' gnn_type ls
            (cs @ [c], bs @ [BatchNorm1d lb ''batch_norms'' layer]))"

definition GNN_node_init ::
  "lib \<Rightarrow> nat \<Rightarrow> nat \<Rightarrow> string \<Rightarrow> encoder option \<Rightarrow> real \<Rightarrow> string \<Rightarrow> bool \<Rightarrow> string
   \<Rightarrow> error + gnn_node" where
  "GNN_node_init lb num_layer' emb_dim' task' node_encoder' drop_ratio' JK' residual' gnn_type =
     (if num_layer' < 2 then Inl ValueError
      else
        (case choose_encoder lb emb_dim' task' node_encoder' of
           Inl e \<Rightarrow> Inl e
         | Inr enc \<Rightarrow>
             (case GNN_node_modules lb emb_dim' task' gnn_type [0..<num_layer'] ([], []) of
                Inl e \<Rightarrow> Inl e
              | Inr (cs, bs) \<Rightarrow>
                  Inr \<lparr>num_layer = num_layer', drop_ratio = drop_ratio', JK = JK', task = task',
                       residual = residual', training = True, node_encoder = enc,
                       convs = cs, batch_norms = bs\<rparr>)))"

text \<open>
  The convolutions one round of the loop of \<open>GNN_node_expander.__init__\<close> appends: the
  main one, and before the last layer the left one (unless the hub phase sums) and the
  right one.
\<close>

definition expander_convs ::
  "lib \<Rightarrow> nat \<Rightarrow> string \<Rightarrow> nat \<Rightarrow> gnn_node_expander \<Rightarrow> error + gnn_node_expander" where
  "expander_convs lb emb_dim' gnn_type layer m =
     (if gnn_type = ''gin'' \<or> gnn_type = ''gcn'' then
        (case new_conv lb ''convs'' layer emb_dim' (task m) None gnn_type of
           Inl e \<Rightarrow> Inl e
         | Inr c \<Rightarrow>
             let m1 = m\<lparr>convs := convs m @ [c]\<rparr>
             in if layer \<noteq> num_layer m - 1 then
                  (case (if expander_edge_handling m \<notin> {''summation'', ''summation-mlp''}
                         then (case new_conv lb ''expander_left_convs'' layer emb_dim' (task m)
                                      (Some ''source_to_target'') gnn_type of
                                 Inl e \<Rightarrow> Inl e
                               | Inr l \<Rightarrow> Inr (m1\<lparr>expander_left_convs := expander_left_convs m1 @ [l]\<rparr>))
                         else Inr m1) of
                     Inl e \<Rightarrow> Inl e
                   | Inr m2 \<Rightarrow>
                       (case new_conv lb ''expander_right_convs'' layer emb_dim' (task m)
                               (Some ''source_to_target'') gnn_type of
                          Inl e \<Rightarrow> Inl e
                        | Inr r \<Rightarrow> Inr (m2\<lparr>expander_right_convs := expander_right_convs m2 @ [r]\<rparr>)))
                else Inr m1)
      else Inl ValueError)"

definition expander_norms :: "lib \<Rightarrow> nat \<Rightarrow> nat \<Rightarrow> gnn_node_expander \<Rightarrow> gnn_node_expander" where
  "expander_norms lb emb_dim' layer m =
     (let m1 = m\<lparr>batch_norms := batch_norms m @ [BatchNorm1d lb ''batch_norms'' layer]\<rparr>
      in if layer \<noteq> num_layer m - 1 then
           (let m2 = (if expander_edge_handling m \<in> {''summation'', ''summation-mlp''}
                      then m1\<lparr>summation := summation m1 @
                                [SumConv_init lb layer emb_dim' (expander_edge_handling m = ''summation-mlp'')]\<rparr>
                      else m1)
            in m2\<lparr>expander_left_batch_norms :=
                     expander_left_batch_norms m2 @ [BatchNorm1d lb ''expander_left_batch_norms'' layer],
                   expander_right_batch_norms :=
                     expander_right_batch_norms m2 @ [BatchNorm1d lb ''expander_right_batch_norms'' layer]\<rparr>)
         else m1)"

fun GNN_node_expander_modules ::
  "lib \<Rightarrow> nat \<Rightarrow> string \<Rightarrow> nat list \<Rightarrow> gnn_node_expander \<Rightarrow> error + gnn_node_expander" where
  "GNN_node_expander_modules lb emb_dim' gnn_type [] m = Inr m"
| "GNN_node_expander_modules lb emb_dim' gnn_type (layer # ls) m =
     (case expander_convs lb emb_dim' gnn_type layer m of
        Inl e \<Rightarrow> Inl e
      | Inr m1 \<Rightarrow> GNN_node_expander_modules lb emb_dim' gnn_type ls (expander_norms lb emb_dim' layer m1))"

definition GNN_node_expander_init ::
  "lib \<Rightarrow> nat \<Rightarrow> nat \<Rightarrow> string \<Rightarrow> encoder option \<Rightarrow> real \<Rightarrow> string \<Rightarrow> bool \<Rightarrow> string \<Rightarrow> string
   \<Rightarrow> error + gnn_node_expander" where
  "GNN_node_expander_init lb num_layer' emb_dim' task' node_encoder' drop_ratio' JK' residual'
     gnn_type expander_edge_handling' =
     (if num_layer' < 2 then Inl ValueError
      else
        (case choose_encoder lb emb_dim' task' node_encoder' of
           Inl e \<Rightarrow> Inl e
         | Inr enc \<Rightarrow>
             GNN_node_expander_modules lb emb_dim' gnn_type [0..<num_layer']
               \<lparr>num_layer = num_layer', drop_ratio = drop_ratio', JK = JK', task = task',
                residual = residual', training = True, node_encoder = enc,
                convs = [], batch_norms = [],
                expander_edge_handling = expander_edge_handling',
                expander_left_convs = [], expander_left_batch_norms = [],
                expander_right_convs = [], expander_right_batch_norms = [],
                summation = []\<rparr>))"

section \<open>GNN: engine, readout and prediction head\<close>

datatype engine = Node gnn_node | Node_expander gnn_node_expander

fun engine_forward :: "engine \<Rightarrow> batched_data \<Rightarrow> draws \<Rightarrow> error + tensor" where
  "engine_forward (Node m) d keep = GNN_node_forward m d keep"
| "engine_forward (Node_expander m) d keep = GNN_node_expander_forward m d keep"

text \<open>The modules of the tensor and graph libraries that \<open>GNN.__init__\<close> creates.\<close>

record head_lib =
  Linear :: "string \<Rightarrow> nat \<Rightarrow> nat \<Rightarrow> nat \<Rightarrow> tensor \<Rightarrow> tensor"
  gate_BatchNorm1d :: "nat \<Rightarrow> batchnorm"
  LSTM :: "nat \<Rightarrow> lstm"

text \<open>The gate of the attention pooling: Linear, BatchNorm1d, ReLU, Linear in sequence.\<close>

definition Sequential_gate :: "(tensor \<Rightarrow> tensor) \<Rightarrow> batchnorm \<Rightarrow> (tensor \<Rightarrow> tensor) \<Rightarrow> tensor \<Rightarrow> tensor" where
  "Sequential_gate lin1 bn lin2 t = lin2 (relu (bn (lin1 t)))"

definition choose_pool :: "head_lib \<Rightarrow> nat \<Rightarrow> string \<Rightarrow> error + pool" where
  "choose_pool hl emb_dim' graph_pooling' =
     (if graph_pooling' = ''sum'' then Inr Add_pool
      else if graph_pooling' = ''mean'' then Inr Mean_pool
      else if graph_pooling' = ''max'' then Inr Max_pool
      else if graph_pooling' = ''attention'' then
        Inr (Attention_pool (Sequential_gate (Linear hl ''gate_nn'' 0 emb_dim' (2 * emb_dim'))
                               (gate_BatchNorm1d hl (2 * emb_dim'))
                               (Linear hl ''gate_nn'' 3 (2 * emb_dim') 1)))
      else if graph_pooling' = ''set2set'' then Inr (Set2Set_pool (LSTM hl emb_dim'))
      else Inl ValueError)"

record gnn =
  num_layer :: nat
  drop_ratio :: real
  JK :: string
  emb_dim :: nat
  num_class :: nat
  task :: string
  max_seq_len :: "nat option"
  graph_pooling :: string
  expander :: bool
  gnn_node :: engine
  pool :: pool
  graph_pred_linear :: "(tensor \<Rightarrow> tensor) option"
  graph_pred_linear_list :: "(tensor \<Rightarrow> tensor) list"

definition GNN_init ::
  "lib \<Rightarrow> head_lib \<Rightarrow> string \<Rightarrow> nat \<Rightarrow> nat option \<Rightarrow> encoder option \<Rightarrow> nat \<Rightarrow> nat \<Rightarrow> string \<Rightarrow> bool
   \<Rightarrow> real \<Rightarrow> string \<Rightarrow> string \<Rightarrow> bool \<Rightarrow> string \<Rightarrow> error + gnn" where
  "GNN_init lb hl task' num_class' max_seq_len' node_encoder' num_layer' emb_dim' gnn_type
     residual' drop_ratio' JK' graph_pooling' expander' expander_edge_handling' =
     (if task' = ''code2'' \<and> max_seq_len' = None then Inl AssertionError
      else if num_layer' < 2 then Inl ValueError
      else
        (case (if \<not> expander'
               then (case GNN_node_init lb num_layer' emb_dim' task' node_encoder' drop_ratio' JK'
                            residual' gnn_type of
                       Inl e \<Rightarrow> Inl e | Inr m \<Rightarrow> Inr (Node m))
               else (case GNN_node_expander_init lb num_layer' emb_dim' task' node_encoder'
                            drop_ratio' JK' residual' gnn_type expander_edge_handling' of
                       Inl e \<Rightarrow> Inl e | Inr m \<Rightarrow> Inr (Node_expander m))) of
           Inl e \<Rightarrow> Inl e
         | Inr eng \<Rightarrow>
             (case choose_pool hl emb_dim' graph_pooling' of
                Inl e \<Rightarrow> Inl e
              | Inr pl \<Rightarrow>
                  let width = (if graph_pooling' = ''set2set'' then 2 * emb_dim' else emb_dim')
                  in Inr \<lparr>num_layer = num_layer', drop_ratio = drop_ratio', JK = JK',
                          emb_dim = emb_dim', num_class = num_class', task = task',
                          max_seq_len = (if task' = ''code2'' then max_seq_len' else None),
                          graph_pooling = graph_pooling', expander = expander',
                          gnn_node = eng, pool = pl,
                          graph_pred_linear =
                            (if task' = ''code2'' then None
                             else Some (Linear hl ''graph_pred_linear'' 0 width num_class')),
                          graph_pred_linear_list =
                            (if task' = ''code2''
                             then map (\<lambda>i. Linear hl ''graph_pred_linear_list'' i width num_class')
                                    [0..<(case max_seq_len' of None \<Rightarrow> 0 | Some n \<Rightarrow> n)]
                             else [])\<rparr>)))"

text \<open>The output: one tensor, or for code2 the list of the tensors of the positions.\<close>

datatype prediction = Prediction tensor | Prediction_list "tensor list"

definition GNN_forward :: "gnn \<Rightarrow> batched_data \<Rightarrow> draws \<Rightarrow> error + prediction" where
  "GNN_forward g d keep =
     (case engine_forward (gnn_node g) d keep of
        Inl e \<Rightarrow> Inl e
      | Inr h_node \<Rightarrow>
          let h_graph = readout (pool g) (expander g) h_node d
          in if task g = ''code2'' then
               (case max_seq_len g of
                  None \<Rightarrow> Inl AttributeError
                | Some n \<Rightarrow> Inr (Prediction_list (map (\<lambda>i. (graph_pred_linear_list g ! i) h_graph) [0..<n])))
             else
               (case graph_pred_linear g of
                  None \<Rightarrow> Inl AttributeError
                | Some f \<Rightarrow> Inr (Prediction (f h_graph))))"

section \<open>Well-formed inputs\<close>

text \<open>A tensor of shape (n, d); a mask of zeros and ones; an edge index over n nodes.\<close>

definition is_tensor :: "nat \<Rightarrow> nat \<Rightarrow> tensor \<Rightarrow> bool" where
  "is_tensor n d t \<longleftrightarrow> length t = n \<and> (\<forall>r \<in> set t. length r = d)"

definition binary_mask :: "fl list \<Rightarrow> bool" where
  "binary_mask node_mask \<longleftrightarrow> (\<forall>b \<in> set node_mask. b = 0 \<or> b = 1)"

definition valid_edges :: "nat \<Rightarrow> edge_index \<Rightarrow> bool" where
  "valid_edges n ei \<longleftrightarrow> (\<forall>(s, t) \<in> set ei. s < n \<and> t < n)"

text \<open>A sublayer that maps tensors of shape (n, d) to tensors of shape (n, d).\<close>

definition keeps_shape :: "nat \<Rightarrow> nat \<Rightarrow> (tensor \<Rightarrow> tensor) \<Rightarrow> bool" where
  "keeps_shape n d f \<longleftrightarrow> (\<forall>t. is_tensor n d t \<longrightarrow> is_tensor n d (f t))"

text \<open>
  Two tensors of node rows that differ at most in the rows of the hub nodes, the nodes
  whose mask is not positive.
\<close>

definition same_original_rows :: "fl list \<Rightarrow> tensor \<Rightarrow> tensor \<Rightarrow> bool" where
  "same_original_rows node_mask h1 h2 \<longleftrightarrow>
     length h1 = length h2 \<and> (\<forall>k < length h1. fl_pos (node_mask ! k) \<longrightarrow> h1 ! k = h2 ! k)"

text \<open>
  Two lists of rows, one row per node, that are equal at every node whose group index is
  not 0; and two lists of rows, one row per group, that are equal at every group but
  group 0.
\<close>

definition agree_off_zero :: "nat list \<Rightarrow> 'a list \<Rightarrow> 'a list \<Rightarrow> bool" where
  "agree_off_zero idx a b \<longleftrightarrow>
     length a = length b \<and> (\<forall>k < length a. k < length idx \<longrightarrow> idx ! k \<noteq> 0 \<longrightarrow> a ! k = b ! k)"

definition same_tail :: "'a list \<Rightarrow> 'a list \<Rightarrow> bool" where
  "same_tail a b \<longleftrightarrow> length a = length b \<and> tl a = tl b"

text \<open>
  A gate network that acts on every row on its own and returns one value per row: on a
  tensor it returns, for each row, what it returns on that row alone.
\<close>

definition rowwise_gate :: "(tensor \<Rightarrow> tensor) \<Rightarrow> bool" where
  "rowwise_gate g \<longleftrightarrow>
     (\<forall>t. g t = map (\<lambda>r. hd (g [r])) t) \<and> (\<forall>r. length (hd (g [r])) = 1)"

section \<open>The operations as the specification words them\<close>

text \<open>
  The elementwise sum of the tensors of a history, all of shape (n, d): entry (i, j) is
  the sum of the entries (i, j) of the tensors, taken in the order of the history.
\<close>

definition elementwise_sum :: "tensor list \<Rightarrow> nat \<Rightarrow> nat \<Rightarrow> tensor" where
  "elementwise_sum hs n d =
     map (\<lambda>i. map (\<lambda>j. foldl (+) 0 (map (\<lambda>t. t ! i ! j) hs)) [0..<d]) [0..<n]"

text \<open>
  The additive convolution before the directional update. \<open>mask_rows\<close> is \<open>h\<close> with the
  rows of mask 0 zeroed; \<open>incoming_sum\<close> gives each target node, entry by entry, the sum
  over its incoming edges, in edge order, of the rectified sum of the source vector and
  the encoded edge vector, or of the rectified source vector when there are no edge
  features; the output is the feed-forward sublayer applied to \<open>(1 + eps) * h' + A\<close>.
\<close>

definition mask_rows :: "tensor \<Rightarrow> fl list \<Rightarrow> tensor" where
  "mask_rows h node_mask = map2 (\<lambda>r b. if b = 0 then map (\<lambda>v. 0) r else r) h node_mask"

definition incoming_sum :: "edge_index \<Rightarrow> tensor \<Rightarrow> tensor option \<Rightarrow> nat \<Rightarrow> nat \<Rightarrow> tensor" where
  "incoming_sum ei h' emb n d =
     map (\<lambda>i. map (\<lambda>j.
        foldl (+) 0
          (case emb of
             None \<Rightarrow> map (\<lambda>(s, t). fl_relu (h' ! s ! j)) (filter (\<lambda>(s, t). t = i) ei)
           | Some e \<Rightarrow> map (\<lambda>((s, t), er). fl_relu (h' ! s ! j + er ! j))
                        (filter (\<lambda>((s, t), er). t = i) (zip ei e))))
        [0..<d]) [0..<n]"

definition GINConv_spec ::
  "ginconv \<Rightarrow> tensor \<Rightarrow> edge_index \<Rightarrow> tensor option \<Rightarrow> bool \<Rightarrow> fl list \<Rightarrow> nat \<Rightarrow> nat \<Rightarrow> tensor" where
  "GINConv_spec c h ei ea masking node_mask n d =
     (let h' = (if masking then mask_rows h node_mask else h);
          emb = (case ea of None \<Rightarrow> None | Some a \<Rightarrow> Some (edge_encoder c a))
      in mlp c (tadd (smul (1 + eps c) h') (incoming_sum ei h' emb n d)))"

section \<open>Instances for the examples\<close>

text \<open>
  Sublayers as the tensor library can hold them: a feed-forward stack, an edge encoder
  and a normalisation that return their input, an encoder that gives every node the sum
  of its raw features in each of its \<open>emb_dim\<close> entries, and a summation layer that adds
  the source rows of the edges into their targets.
\<close>

definition ex_gin_modules :: gin_modules where
  "ex_gin_modules = \<lparr>new_mlp = (\<lambda>t. t), new_BondEncoder = (\<lambda>a. a),
                      new_Linear7 = (\<lambda>a. a), new_Linear2 = (\<lambda>a. a)\<rparr>"

definition ex_encoder :: "nat \<Rightarrow> encoder" where
  "ex_encoder e = (\<lambda>xs depth. map (\<lambda>r. replicate e (Fin (real_of_int (sum_list r)))) xs)"

definition ex_sumconv :: sumconv where
  "ex_sumconv = (\<lambda>h ei. scatter_add (map snd ei) (index_select h (map fst ei))
                          (zeros (length h) (ncols h)))"

definition ex_lib :: lib where
  "ex_lib = \<lparr>gin_lib = (\<lambda>lst layer. ex_gin_modules),
             GCNConv_init = (\<lambda>lst layer e t fl. Inl NotImplementedError),
             SumConv_init = (\<lambda>layer e with_mlp. ex_sumconv),
             BatchNorm1d = (\<lambda>lst layer t. t),
             AtomEncoder = ex_encoder,
             Embedding = (\<lambda>k. ex_encoder)\<rparr>"

definition ex_head_lib :: head_lib where
  "ex_head_lib = \<lparr>Linear = (\<lambda>name k n_in n_out t. t),
                  gate_BatchNorm1d = (\<lambda>k t. t),
                  LSTM = (\<lambda>k q st. (replicate k 0, st))\<rparr>"

text \<open>
  An additive convolution with these sublayers, \<open>eps = 0\<close>, and an expander engine of two
  layers over it, as the constructor builds it from \<open>ex_lib\<close>; the edge-handling strategy,
  the residual mode, the training mode and the normalisation of the hub phase are left
  open. The batch has an original node 0 and a hub node 1, no original edge and the
  expander edge from 0 to 1.
\<close>

definition ex_gin :: ginconv where
  "ex_gin = \<lparr>mlp = (\<lambda>t. t), eps = 0, edge_encoder = (\<lambda>a. a), flow = ''source_to_target''\<rparr>"

definition ex_conv :: conv where
  "ex_conv = GIN ex_gin"

definition ex_expander :: "string \<Rightarrow> bool \<Rightarrow> bool \<Rightarrow> batchnorm \<Rightarrow> gnn_node_expander" where
  "ex_expander handling res tr left_bn =
     \<lparr>gnn_node.num_layer = 2, drop_ratio = 1 / 2, JK = ''last'', task = ''mol'', residual = res,
      training = tr, node_encoder = Some (ex_encoder 1),
      convs = [ex_conv, ex_conv], batch_norms = [\<lambda>t. t, \<lambda>t. t],
      expander_edge_handling = handling,
      expander_left_convs = (if handling \<in> {''summation'', ''summation-mlp''} then [] else [ex_conv]),
      expander_left_batch_norms = [left_bn],
      expander_right_convs = [ex_conv], expander_right_batch_norms = [\<lambda>t. t],
      summation = (if handling \<in> {''summation'', ''summation-mlp''} then [ex_sumconv] else [])\<rparr>"

definition ex_data :: batched_data where
  "ex_data = \<lparr>node_x = [[1], [5]], edge_index = [], edge_attr = None, node_depth = [],
              batch = [0, 0], expander_edge_index = [(0, 1)], expander_node_mask = [1, 0],
              num_nodes = 2\<rparr>"

text \<open>
  A normalisation that adds 1 to every entry (BatchNorm1d with unit scale and bias 1 on
  standardised statistics), the draws of a pass without dropout, and the same batch
  with an empty expander edge set.
\<close>

definition bn_shift :: batchnorm where
  "bn_shift = map (map (\<lambda>v. v + 1))"

definition no_draws :: draws where
  "no_draws layer phase = []"

definition ex_data_no_expander_edges :: batched_data where
  "ex_data_no_expander_edges = ex_data\<lparr>expander_edge_index := []\<rparr>"

text \<open>
  An encoder that returns 1 for the first node and 9 for the second, and one that
  returns 1 and infinity.
\<close>

definition ex_encoder_2 :: encoder where
  "ex_encoder_2 xs depth = [[Fin 1], [Fin 9]]"

definition ex_encoder_inf :: encoder where
  "ex_encoder_inf xs depth = [[Fin 1], [PInf]]"

text \<open>
  An additive convolution whose feed-forward sublayer adds 1 to every entry, with
  \<open>eps = 1\<close>, and the expander engine with this convolution in the hub and in the return
  phase. A batch whose expander edges run from node 0 to node 1, back, and from node 0 to
  itself.
\<close>

definition ex_gin_shift :: ginconv where
  "ex_gin_shift = \<lparr>mlp = map (map (\<lambda>v. v + 1)), eps = 1, edge_encoder = (\<lambda>a. a),
                    flow = ''source_to_target''\<rparr>"

definition ex_expander_shift :: gnn_node_expander where
  "ex_expander_shift =
     (ex_expander ''learn-features'' False False (\<lambda>t. t))
       \<lparr>expander_left_convs := [GIN ex_gin_shift], expander_right_convs := [GIN ex_gin_shift]\<rparr>"

definition ex_data_loop :: batched_data where
  "ex_data_loop = ex_data\<lparr>expander_edge_index := [(0, 1), (1, 0), (0, 0)]\<rparr>"

text \<open>
  The engine without expander and the model of two layers over the same sublayers, as the
  constructors build them from \<open>ex_lib\<close> and \<open>ex_head_lib\<close> with sum pooling, the
  training mode left open; and the draws that keep, and that drop, every entry of a
  tensor of shape (2, 1).
\<close>

definition ex_node :: "bool \<Rightarrow> gnn_node" where
  "ex_node tr =
     \<lparr>gnn_node.num_layer = 2, drop_ratio = 1 / 2, JK = ''last'', task = ''mol'', residual = False,
      training = tr, node_encoder = Some (ex_encoder 1),
      convs = [ex_conv, ex_conv], batch_norms = [\<lambda>t. t, \<lambda>t. t]\<rparr>"

definition ex_gnn :: "bool \<Rightarrow> gnn" where
  "ex_gnn tr =
     \<lparr>num_layer = 2, drop_ratio = 1 / 2, JK = ''last'', emb_dim = 1, num_class = 1,
      task = ''mol'', max_seq_len = None, graph_pooling = ''sum'', expander = False,
      gnn_node = Node (ex_node tr), pool = Add_pool,
      graph_pred_linear = Some (\<lambda>t. t), graph_pred_linear_list = []\<rparr>"

definition keep_all :: draws where
  "keep_all layer phase = [[True], [True]]"

definition keep_none :: draws where
  "keep_none layer phase = [[False], [False]]"

text \<open>
  BatchNorm1d of the tensor library as freshly constructed (weight 1, bias 0,
  \<open>eps = 1e-5\<close>, running mean 0 and running variance 1). In training it standardises
  every column by the mean and the biased variance of the column over the rows of the
  batch; outside training by the running mean and the running variance.
\<close>

definition column_mean :: "vec \<Rightarrow> fl" where
  "column_mean c = fl_div (foldl (+) 0 c) (Fin (real (length c)))"

definition column_var :: "vec \<Rightarrow> fl" where
  "column_var c =
     (let m = column_mean c
      in fl_div (foldl (+) 0 (map (\<lambda>v. (v - m) * (v - m)) c)) (Fin (real (length c))))"

definition BatchNorm1d_training :: batchnorm where
  "BatchNorm1d_training t =
     map (\<lambda>r. map (\<lambda>j.
            let c = map (\<lambda>r'. r' ! j) t
            in fl_div (r ! j - column_mean c) (fl_sqrt (column_var c + Fin (1 / 10 ^ 5))) * 1 + 0)
          [0..<length r]) t"

definition BatchNorm1d_eval :: batchnorm where
  "BatchNorm1d_eval t =
     map (map (\<lambda>v. fl_div (v - 0) (fl_sqrt (1 + Fin (1 / 10 ^ 5))) * 1 + 0)) t"

text \<open>
  The gate network of the attention pooling for \<open>emb_dim = 1\<close>: a first linear layer with
  the weights 1 and 1, the normalisation, the rectifier, and a second linear layer with
  the weights 1 and 0; both without bias.
\<close>

definition gate_lin1 :: "tensor \<Rightarrow> tensor" where
  "gate_lin1 = map (\<lambda>r. [hd r, hd r])"

definition gate_lin2 :: "tensor \<Rightarrow> tensor" where
  "gate_lin2 = map (\<lambda>r. [hd r])"

definition ex_gate :: "bool \<Rightarrow> tensor \<Rightarrow> tensor" where
  "ex_gate tr =
     Sequential_gate gate_lin1 (if tr then BatchNorm1d_training else BatchNorm1d_eval) gate_lin2"

text \<open>
  The modules of the head with these layers for the gate network, the normalisation in
  training (the mode of a freshly constructed module) or outside training.
\<close>

definition ex_head_lib_gate :: "bool \<Rightarrow> head_lib" where
  "ex_head_lib_gate tr =
     \<lparr>Linear = (\<lambda>name k n_in n_out.
                  if name = ''gate_nn'' \<and> k = 0 then gate_lin1
                  else if name = ''gate_nn'' then gate_lin2 else (\<lambda>t. t)),
      gate_BatchNorm1d = (\<lambda>k. if tr then BatchNorm1d_training else BatchNorm1d_eval),
      LSTM = (\<lambda>k q st. (replicate k 0, st))\<rparr>"

text \<open>
  A batch of one graph with two original nodes and one hub node.
\<close>

definition ex_data_hub :: batched_data where
  "ex_data_hub = \<lparr>node_x = [[1], [2], [0]], edge_index = [], edge_attr = None, node_depth = [],
                  batch = [0, 0, 0], expander_edge_index = [(0, 2), (1, 2)],
                  expander_node_mask = [1, 1, 0], num_nodes = 3\<rparr>"

section \<open>Construction of a GINConv\<close>

text \<open>
  Claim C7. A GINConv is to be constructed for each of the task keys mol, ppa and code2,
  and every other key is to be refused at construction. The constructor compares the
  key with \<open>ppo\<close> where the engines compare it with \<open>ppa\<close>: the key ppa is refused with
  NotImplementedError, whatever the modules, the width and the flow, and the key ppo,
  which is none of the three, is accepted.
\<close>

theorem GINConv_init_ppa:
  "GINConv_init lb emb_dim' ''ppa'' fl = Inl NotImplementedError
   \<and> (\<exists>c. GINConv_init lb emb_dim' ''ppo'' fl = Inr c)"
  by (simp add: GINConv_init_def Let_def)

section \<open>An unknown jumping-knowledge mode\<close>

lemma GINConv_init_mol: "\<exists>c. GINConv_init gl e ''mol'' fl = Inr c"
  by (simp add: GINConv_init_def Let_def)

lemma new_conv_gin_mol: "\<exists>c. new_conv lb lst layer e ''mol'' fl ''gin'' = Inr c"
  using GINConv_init_mol[of "gin_lib lb lst layer" e fl]
  by (auto simp: new_conv_def)

lemma GNN_node_modules_gin_mol:
  "\<exists>cs bs. GNN_node_modules lb e ''mol'' ''gin'' ls acc = Inr (cs, bs)"
proof (induction ls arbitrary: acc)
  case Nil
  then show ?case by (cases acc) simp
next
  case (Cons l ls)
  obtain cs bs where acc: "acc = (cs, bs)" by (cases acc)
  obtain c where c: "new_conv lb ''convs'' l e ''mol'' None ''gin'' = Inr c"
    using new_conv_gin_mol by blast
  show ?case using Cons.IH[of "(cs @ [c], bs @ [BatchNorm1d lb ''batch_norms'' l])"]
    by (simp add: acc c)
qed

lemma GNN_node_init_gin_mol:
  assumes "2 \<le> n"
  shows "\<exists>m. GNN_node_init lb n e ''mol'' ne p jk r ''gin'' = Inr m \<and> gnn_node.JK m = jk
     \<and> gnn_node.task m = ''mol'' \<and> node_encoder m \<noteq> None"
proof -
  obtain cs bs where "GNN_node_modules lb e ''mol'' ''gin'' [0..<n] ([], []) = Inr (cs, bs)"
    using GNN_node_modules_gin_mol by blast
  then show ?thesis using assms
    by (simp add: GNN_node_init_def choose_encoder_def)
qed

text \<open>The configuration of the expander engine that the loop of its constructor keeps.\<close>

lemma expander_convs_gin_mol:
  assumes "gnn_node.task m = ''mol''"
  shows "\<exists>m'. expander_convs lb e ''gin'' layer m = Inr m' \<and> gnn_node.JK m' = gnn_node.JK m
     \<and> gnn_node.task m' = gnn_node.task m \<and> node_encoder m' = node_encoder m"
proof -
  obtain c where c: "new_conv lb ''convs'' layer e ''mol'' None ''gin'' = Inr c"
    using new_conv_gin_mol by blast
  obtain l where l: "new_conv lb ''expander_left_convs'' layer e ''mol''
      (Some ''source_to_target'') ''gin'' = Inr l"
    using new_conv_gin_mol by blast
  obtain r where r: "new_conv lb ''expander_right_convs'' layer e ''mol''
      (Some ''source_to_target'') ''gin'' = Inr r"
    using new_conv_gin_mol by blast
  show ?thesis using assms
    by (simp add: expander_convs_def c l r Let_def)
qed

lemma expander_norms_config:
  "gnn_node.JK (expander_norms lb e layer m) = gnn_node.JK m
   \<and> gnn_node.task (expander_norms lb e layer m) = gnn_node.task m
   \<and> node_encoder (expander_norms lb e layer m) = node_encoder m"
  by (simp add: expander_norms_def Let_def)

lemma GNN_node_expander_modules_gin_mol:
  "gnn_node.task m = ''mol'' \<Longrightarrow>
   \<exists>m'. GNN_node_expander_modules lb e ''gin'' ls m = Inr m' \<and> gnn_node.JK m' = gnn_node.JK m
     \<and> gnn_node.task m' = gnn_node.task m \<and> node_encoder m' = node_encoder m"
proof (induction ls arbitrary: m)
  case Nil
  then show ?case by simp
next
  case (Cons l ls)
  obtain m1 where m1: "expander_convs lb e ''gin'' l m = Inr m1" "gnn_node.JK m1 = gnn_node.JK m"
      "gnn_node.task m1 = gnn_node.task m" "node_encoder m1 = node_encoder m"
    using expander_convs_gin_mol[OF Cons.prems] by blast
  let ?m2 = "expander_norms lb e l m1"
  have c2: "gnn_node.JK ?m2 = gnn_node.JK m" "gnn_node.task ?m2 = gnn_node.task m"
      "node_encoder ?m2 = node_encoder m"
    using m1 expander_norms_config[of lb e l m1] by simp_all
  then have "gnn_node.task ?m2 = ''mol''" using Cons.prems by simp
  from Cons.IH[OF this] obtain m' where
    "GNN_node_expander_modules lb e ''gin'' ls ?m2 = Inr m'" "gnn_node.JK m' = gnn_node.JK ?m2"
    "gnn_node.task m' = gnn_node.task ?m2" "node_encoder m' = node_encoder ?m2" by blast
  then show ?case using m1(1) c2 by simp
qed

lemma GNN_node_expander_init_gin_mol:
  assumes "2 \<le> n"
  shows "\<exists>m. GNN_node_expander_init lb n e ''mol'' ne p jk r ''gin'' eh = Inr m
     \<and> gnn_node.JK m = jk \<and> gnn_node.task m = ''mol'' \<and> node_encoder m \<noteq> None"
proof -
  let ?m0 = "\<lparr>gnn_node.num_layer = n, drop_ratio = p, JK = jk, task = ''mol'',
                residual = r, training = True, node_encoder = Some (AtomEncoder lb e),
                convs = [], batch_norms = [],
                expander_edge_handling = eh,
                expander_left_convs = [], expander_left_batch_norms = [],
                expander_right_convs = [], expander_right_batch_norms = [],
                summation = []\<rparr>"
  have "gnn_node.task ?m0 = ''mol''" by simp
  from GNN_node_expander_modules_gin_mol[OF this, of lb e "[0..<n]"]
  obtain m' where "GNN_node_expander_modules lb e ''gin'' [0..<n] ?m0 = Inr m'"
    "gnn_node.JK m' = gnn_node.JK ?m0" "gnn_node.task m' = gnn_node.task ?m0"
    "node_encoder m' = node_encoder ?m0"
    by blast
  then show ?thesis using assms
    by (simp add: GNN_node_expander_init_def choose_encoder_def)
qed

lemma jumping_knowledge_unbound:
  "jk \<noteq> ''last'' \<Longrightarrow> jk \<noteq> ''sum'' \<Longrightarrow> jumping_knowledge jk L hl = Inl UnboundLocalError"
  by (simp add: jumping_knowledge_def)

lemma GNN_node_forward_unbound:
  assumes "gnn_node.JK m \<noteq> ''last''" "gnn_node.JK m \<noteq> ''sum''" "node_encoder m \<noteq> None"
  shows "GNN_node_forward m d keep = Inl UnboundLocalError"
  using assms
  by (auto simp: GNN_node_forward_def GNN_node_h_list_def encode_def Let_def
      jumping_knowledge_unbound split: option.splits sum.splits)

lemma GNN_node_expander_forward_unbound:
  assumes "gnn_node.JK m \<noteq> ''last''" "gnn_node.JK m \<noteq> ''sum''" "node_encoder m \<noteq> None"
  shows "GNN_node_expander_forward m d keep = Inl UnboundLocalError"
  using assms
  by (auto simp: GNN_node_expander_forward_def GNN_node_expander_h_list_def encode_def Let_def
      jumping_knowledge_unbound split: option.splits sum.splits)

lemma engine_init_gin_mol:
  assumes "2 \<le> n" "jk \<noteq> ''last''" "jk \<noteq> ''sum''"
  shows "\<exists>eng. (if \<not> ex
               then (case GNN_node_init lb n e ''mol'' ne p jk r ''gin'' of
                       Inl err \<Rightarrow> Inl err | Inr m \<Rightarrow> Inr (Node m))
               else (case GNN_node_expander_init lb n e ''mol'' ne p jk r ''gin'' eh of
                       Inl err \<Rightarrow> Inl err | Inr m \<Rightarrow> Inr (Node_expander m))) = Inr eng
          \<and> (\<forall>d keep. engine_forward eng d keep = Inl UnboundLocalError)"
proof (cases ex)
  case False
  obtain m where "GNN_node_init lb n e ''mol'' ne p jk r ''gin'' = Inr m" "gnn_node.JK m = jk"
      "node_encoder m \<noteq> None"
    using GNN_node_init_gin_mol[OF assms(1)] by blast
  then show ?thesis using False assms(2,3) GNN_node_forward_unbound[of m] by simp
next
  case True
  obtain m where "GNN_node_expander_init lb n e ''mol'' ne p jk r ''gin'' eh = Inr m"
      "gnn_node.JK m = jk" "node_encoder m \<noteq> None"
    using GNN_node_expander_init_gin_mol[OF assms(1)] by blast
  then show ?thesis using True assms(2,3) GNN_node_expander_forward_unbound[of m] by simp
qed

lemma choose_pool_known:
  "gp \<in> {''sum'', ''mean'', ''max'', ''attention'', ''set2set''} \<Longrightarrow> \<exists>pl. choose_pool hl e gp = Inr pl"
  by (auto simp: choose_pool_def)

text \<open>
  Claim C6. A jumping-knowledge mode other than last and sum is to be refused when the
  model is constructed, so that no forward pass fails because of it. The constructors
  do not look at the mode: for the task mol, the additive convolution, at least two
  layers and any known pooling, with or without expander, the model is constructed, and
  every forward pass of it ends in UnboundLocalError, the unbound
  \<open>node_representation\<close>.
\<close>

theorem GNN_unknown_JK_constructs_and_fails:
  assumes "JK' \<noteq> ''last''" and "JK' \<noteq> ''sum''" and "2 \<le> num_layer'"
    and "graph_pooling' \<in> {''sum'', ''mean'', ''max'', ''attention'', ''set2set''}"
  shows "\<exists>g. GNN_init lb hl ''mol'' num_class' max_seq_len' node_encoder' num_layer' emb_dim'
                ''gin'' residual' drop_ratio' JK' graph_pooling' expander' handling = Inr g
              \<and> (\<forall>d keep. GNN_forward g d keep = Inl UnboundLocalError)"
proof -
  obtain eng where eng:
    "(if \<not> expander'
      then (case GNN_node_init lb num_layer' emb_dim' ''mol'' node_encoder' drop_ratio' JK'
                   residual' ''gin'' of
              Inl err \<Rightarrow> Inl err | Inr m \<Rightarrow> Inr (Node m))
      else (case GNN_node_expander_init lb num_layer' emb_dim' ''mol'' node_encoder' drop_ratio'
                   JK' residual' ''gin'' handling of
              Inl err \<Rightarrow> Inl err | Inr m \<Rightarrow> Inr (Node_expander m))) = Inr eng"
    "\<forall>d keep. engine_forward eng d keep = Inl UnboundLocalError"
    using engine_init_gin_mol[OF assms(3) assms(1) assms(2)] by blast
  obtain pl where pl: "choose_pool hl emb_dim' graph_pooling' = Inr pl"
    using choose_pool_known[OF assms(4)] by blast
  have "\<not> num_layer' < 2" using assms(3) by simp
  then show ?thesis
    unfolding GNN_init_def using eng(2)
    by (simp only: eng(1) pl) (simp add: GNN_forward_def Let_def)
qed

theorem GNN_unknown_JK_witness:
  "''concat'' \<noteq> ''last'' \<and> ''concat'' \<noteq> ''sum'' \<and> (2::nat) \<le> 2
   \<and> ''mean'' \<in> {''sum'', ''mean'', ''max'', ''attention'', ''set2set''}
   \<and> (\<exists>g. GNN_init ex_lib ex_head_lib ''mol'' 1 None None 2 1 ''gin'' False (1 / 2) ''concat''
             ''mean'' False ''learn-features'' = Inr g
           \<and> (\<forall>d keep. GNN_forward g d keep = Inl UnboundLocalError))"
  using GNN_unknown_JK_constructs_and_fails[of "''concat''" 2 "''mean''" ex_lib ex_head_lib 1 None
      None 1 False "1 / 2" False "''learn-features''"]
  by simp

section \<open>Floating-point values\<close>

lemma fl_add_0 [simp]: "v + 0 = v" "0 + v = (v::fl)"
  by (cases v; simp add: zero_fl_def)+

lemma fl_mult_1 [simp]: "v * 1 = v" "1 * v = (v::fl)"
  by (cases v; simp add: one_fl_def)+

lemma fl_mult_0_finite: "is_finite v \<Longrightarrow> v * 0 = 0" "is_finite v \<Longrightarrow> 0 * v = 0"
  by (cases v; simp add: zero_fl_def)+

lemma fl_one_minus [simp]: "1 - (1::fl) = 0" "1 - (0::fl) = 1"
  by (simp_all add: minus_fl_def one_fl_def zero_fl_def)

lemma finite_row_nth: "finite_row r \<Longrightarrow> j < length r \<Longrightarrow> is_finite (r ! j)"
  by (simp add: finite_row_def list_all_length)

lemma finite_row_replicate_0 [simp]: "finite_row (replicate d 0)"
  by (simp add: finite_row_def list_all_length zero_fl_def)

section \<open>Rows of masked tensors\<close>

lemma is_tensorD:
  "is_tensor n d t \<Longrightarrow> length t = n"
  "is_tensor n d t \<Longrightarrow> i < n \<Longrightarrow> length (t ! i) = d"
  by (auto simp: is_tensor_def)

lemma map2_mul_replicate_1: "length r = d \<Longrightarrow> map2 (*) r (replicate d (1::fl)) = r"
  by (induction r arbitrary: d) auto

lemma map2_mul_replicate_1': "length r = d \<Longrightarrow> map2 (*) (replicate d (1::fl)) r = r"
  by (induction r arbitrary: d) auto

lemma map2_mul_replicate_0:
  "length r = d \<Longrightarrow> finite_row r \<Longrightarrow> map2 (*) r (replicate d (0::fl)) = replicate d 0"
  by (induction r arbitrary: d) (auto simp: finite_row_def fl_mult_0_finite)

lemma map2_mul_replicate_0':
  "length r = d \<Longrightarrow> finite_row r \<Longrightarrow> map2 (*) (replicate d (0::fl)) r = replicate d 0"
  by (induction r arbitrary: d) (auto simp: finite_row_def fl_mult_0_finite)

lemma vadd_zero_right: "length r = d \<Longrightarrow> vadd r (replicate d 0) = r"
  unfolding vadd_def by (induction r arbitrary: d) auto

lemma vadd_zero_left: "length r = d \<Longrightarrow> vadd (replicate d 0) r = r"
  unfolding vadd_def by (induction r arbitrary: d) auto

lemma tadd_nth: "i < length a \<Longrightarrow> i < length b \<Longrightarrow> tadd a b ! i = vadd (a ! i) (b ! i)"
  by (simp add: tadd_def)

lemma tmul_nth: "i < length a \<Longrightarrow> i < length b \<Longrightarrow> tmul a b ! i = map2 (*) (a ! i) (b ! i)"
  by (simp add: tmul_def)

lemma one_minus_nth: "i < length a \<Longrightarrow> one_minus a ! i = map (\<lambda>v. 1 - v) (a ! i)"
  by (simp add: one_minus_def)

lemma expand_mask_nth: "i < length nm \<Longrightarrow> expand_mask nm d ! i = replicate d (nm ! i)"
  by (simp add: expand_mask_def)

lemma length_expand_mask: "length (expand_mask nm d) = length nm"
  by (simp add: expand_mask_def)

lemma length_tadd: "length (tadd a b) = min (length a) (length b)"
  by (simp add: tadd_def)

lemma length_tmul: "length (tmul a b) = min (length a) (length b)"
  by (simp add: tmul_def)

lemma length_one_minus: "length (one_minus a) = length a"
  by (simp add: one_minus_def)

text \<open>
  The rows of \<open>a * mask + b * (1 - mask)\<close>, in the three orders the source writes it:
  row \<open>i\<close> is the row of \<open>a\<close> where the mask is 1 and the row of \<open>b\<close> is finite, and the
  row of \<open>b\<close> where the mask is 0 and the row of \<open>a\<close> is finite.
\<close>

lemma blend_row:
  assumes "is_tensor n d a" "is_tensor n d b" "length nm = n" "i < n"
  shows "nm ! i = 1 \<Longrightarrow> finite_row (b ! i) \<Longrightarrow>
      tadd (tmul a (expand_mask nm d)) (tmul b (one_minus (expand_mask nm d))) ! i = a ! i"
    and "nm ! i = 0 \<Longrightarrow> finite_row (a ! i) \<Longrightarrow>
      tadd (tmul a (expand_mask nm d)) (tmul b (one_minus (expand_mask nm d))) ! i = b ! i"
    and "nm ! i = 1 \<Longrightarrow> finite_row (b ! i) \<Longrightarrow>
      tadd (tmul (expand_mask nm d) a) (tmul (one_minus (expand_mask nm d)) b) ! i = a ! i"
    and "nm ! i = 0 \<Longrightarrow> finite_row (a ! i) \<Longrightarrow>
      tadd (tmul (expand_mask nm d) a) (tmul (one_minus (expand_mask nm d)) b) ! i = b ! i"
    and "nm ! i = 1 \<Longrightarrow> finite_row (b ! i) \<Longrightarrow>
      tadd (tmul (one_minus (expand_mask nm d)) b) (tmul (expand_mask nm d) a) ! i = a ! i"
    and "nm ! i = 0 \<Longrightarrow> finite_row (a ! i) \<Longrightarrow>
      tadd (tmul (one_minus (expand_mask nm d)) b) (tmul (expand_mask nm d) a) ! i = b ! i"
  using assms
  by (simp_all add: tadd_nth tmul_nth one_minus_nth expand_mask_nth length_tmul length_expand_mask
      length_one_minus is_tensorD map2_mul_replicate_1 map2_mul_replicate_0 map2_mul_replicate_1'
      map2_mul_replicate_0' vadd_zero_right vadd_zero_left)

section \<open>Shapes\<close>

lemma ncols_is_tensor: "is_tensor n d t \<Longrightarrow> 0 < n \<Longrightarrow> ncols t = d"
  by (cases t) (auto simp: is_tensor_def ncols_def)

lemma is_tensor_zeros: "is_tensor n d (zeros n d)"
  by (simp add: is_tensor_def zeros_def)

lemma zeros_ncols: "is_tensor n d t \<Longrightarrow> zeros n (ncols t) = zeros n d"
  by (cases "n = 0") (simp_all add: ncols_is_tensor zeros_def)

lemma is_tensor_smul: "is_tensor n d t \<Longrightarrow> is_tensor n d (smul c t)"
  by (auto simp: is_tensor_def smul_def)

lemma is_tensor_relu: "is_tensor n d t \<Longrightarrow> is_tensor n d (relu t)"
  by (auto simp: is_tensor_def relu_def)

lemma is_tensor_tadd: "is_tensor n d a \<Longrightarrow> is_tensor n d b \<Longrightarrow> is_tensor n d (tadd a b)"
  by (auto simp: is_tensor_def tadd_def vadd_def set_zip)

lemma is_tensor_tmul: "is_tensor n d a \<Longrightarrow> is_tensor n d b \<Longrightarrow> is_tensor n d (tmul a b)"
  by (auto simp: is_tensor_def tmul_def set_zip)

lemma is_tensor_expand_mask: "length nm = n \<Longrightarrow> is_tensor n d (expand_mask nm d)"
  by (auto simp: is_tensor_def expand_mask_def)

lemma is_tensor_index_select:
  "is_tensor n d t \<Longrightarrow> \<forall>j \<in> set idx. j < n \<Longrightarrow> is_tensor (length idx) d (index_select t idx)"
  by (auto simp: is_tensor_def index_select_def)

lemma is_tensor_scatter_add:
  "is_tensor n d acc \<Longrightarrow> \<forall>r \<in> set src. length r = d \<Longrightarrow> is_tensor n d (scatter_add idx src acc)"
proof (induction idx src acc rule: scatter_add.induct)
  case (1 i idx m src acc)
  have "is_tensor n d (acc[i := vadd (acc ! i) m])"
  proof (cases "i < n")
    case True
    then have "length (vadd (acc ! i) m) = d"
      using 1(2,3) by (simp add: vadd_def is_tensor_def)
    then show ?thesis using 1(2) True
      by (auto simp: is_tensor_def dest!: set_update_subset_insert[THEN subsetD])
  next
    case False
    then have "acc[i := vadd (acc ! i) m] = acc"
      using 1(2) by (intro list_update_beyond) (simp add: is_tensor_def)
    then show ?thesis using 1(2) by simp
  qed
  then show ?case using 1 by simp
qed simp_all

lemma is_tensor_message:
  "is_tensor k d xj \<Longrightarrow> (case emb of None \<Rightarrow> True | Some e \<Rightarrow> is_tensor k d e)
   \<Longrightarrow> is_tensor k d (message xj emb)"
  by (cases emb) (simp_all add: is_tensor_relu is_tensor_tadd)

lemma is_tensor_propagate:
  assumes "is_tensor n d t" "valid_edges n ei"
    "(case emb of None \<Rightarrow> True | Some e \<Rightarrow> is_tensor (length ei) d e)"
  shows "is_tensor n d (MessagePassing_propagate fl ei t emb)"
proof -
  have v: "\<forall>j \<in> set (map fst ei). j < n" "\<forall>j \<in> set (map snd ei). j < n"
    using assms(2) by (auto simp: valid_edges_def)
  have "is_tensor (length ei) d (message (index_select t (map fst ei)) emb)"
       "is_tensor (length ei) d (message (index_select t (map snd ei)) emb)"
    using is_tensor_index_select[OF assms(1) v(1)] is_tensor_index_select[OF assms(1) v(2)] assms(3)
    by (simp_all add: is_tensor_message)
  then have "\<forall>r \<in> set (message (index_select t (map fst ei)) emb). length r = d"
       "\<forall>r \<in> set (message (index_select t (map snd ei)) emb). length r = d"
    by (simp_all add: is_tensor_def)
  then show ?thesis
    using is_tensor_scatter_add[of n d "zeros n d"] is_tensor_zeros[of n d] zeros_ncols[OF assms(1)]
      is_tensorD(1)[OF assms(1)]
    by (simp add: MessagePassing_propagate_def Let_def)
qed

lemma GINConv_out_shape:
  assumes "is_tensor n d h" "length nm = n" "valid_edges n ei" "keeps_shape n d (mlp c)"
    "(case ea of None \<Rightarrow> True | Some a \<Rightarrow> is_tensor (length ei) d (edge_encoder c a))"
  shows "is_tensor n d (fst (GINConv_out c h ei ea masking (expand_mask nm d)))"
    and "is_tensor n d (snd (GINConv_out c h ei ea masking (expand_mask nm d)))"
proof -
  let ?x = "if masking then tmul h (expand_mask nm d) else h"
  have x: "is_tensor n d ?x"
    using assms(1,2) by (simp add: is_tensor_tmul is_tensor_expand_mask)
  then show "is_tensor n d (fst (GINConv_out c h ei ea masking (expand_mask nm d)))"
    by (simp add: GINConv_out_def Let_def)
  let ?emb = "case ea of Some a \<Rightarrow> Some (edge_encoder c a) | None \<Rightarrow> None"
  have "case ?emb of None \<Rightarrow> True | Some e \<Rightarrow> is_tensor (length ei) d e"
    using assms(5) by (cases ea) simp_all
  from is_tensor_propagate[OF x assms(3) this]
  have "is_tensor n d (tadd (smul (1 + eps c) ?x) (MessagePassing_propagate (flow c) ei ?x ?emb))"
    using x by (simp add: is_tensor_tadd is_tensor_smul)
  then show "is_tensor n d (snd (GINConv_out c h ei ea masking (expand_mask nm d)))"
    using assms(4) by (simp add: GINConv_out_def Let_def keeps_shape_def)
qed

text \<open>
  The rows of the directional update of \<open>GINConv.forward\<close>: the frozen row is the row of
  \<open>x\<close> where the fresh output is finite, the updated row the row of the fresh output
  where \<open>x\<close> is finite.
\<close>

lemma GINConv_forward_rows:
  assumes "is_tensor n d h" "length nm = n" "valid_edges n ei" "keeps_shape n d (mlp c)"
    "(case ea of None \<Rightarrow> True | Some a \<Rightarrow> is_tensor (length ei) d (edge_encoder c a))" "i < n"
  shows "nm ! i = 1 \<Longrightarrow> finite_row (snd (GINConv_out c h ei ea masking (expand_mask nm d)) ! i) \<Longrightarrow>
          GINConv_forward c h ei ea masking (expand_mask nm d) ''expander'' ! i
            = fst (GINConv_out c h ei ea masking (expand_mask nm d)) ! i"
    and "nm ! i = 0 \<Longrightarrow> finite_row (fst (GINConv_out c h ei ea masking (expand_mask nm d)) ! i) \<Longrightarrow>
          GINConv_forward c h ei ea masking (expand_mask nm d) ''expander'' ! i
            = snd (GINConv_out c h ei ea masking (expand_mask nm d)) ! i"
    and "nm ! i = 0 \<Longrightarrow> finite_row (snd (GINConv_out c h ei ea masking (expand_mask nm d)) ! i) \<Longrightarrow>
          GINConv_forward c h ei ea masking (expand_mask nm d) ''original'' ! i
            = fst (GINConv_out c h ei ea masking (expand_mask nm d)) ! i"
    and "nm ! i = 1 \<Longrightarrow> finite_row (fst (GINConv_out c h ei ea masking (expand_mask nm d)) ! i) \<Longrightarrow>
          GINConv_forward c h ei ea masking (expand_mask nm d) ''original'' ! i
            = snd (GINConv_out c h ei ea masking (expand_mask nm d)) ! i"
  using blend_row[OF GINConv_out_shape(1)[OF assms(1-5)] GINConv_out_shape(2)[OF assms(1-5)] assms(2,6), of masking masking]
        blend_row[OF GINConv_out_shape(2)[OF assms(1-5)] GINConv_out_shape(1)[OF assms(1-5)] assms(2,6), of masking masking]
  by (simp_all add: GINConv_forward_def split_beta)

lemma GINConv_out_fst_row:
  assumes "is_tensor n d h" "length nm = n" "i < n" "nm ! i = 1 \<or> \<not> masking"
  shows "fst (GINConv_out c h ei ea masking (expand_mask nm d)) ! i = h ! i"
  using assms
  by (auto simp: GINConv_out_def Let_def tmul_nth length_expand_mask expand_mask_nth is_tensorD
      map2_mul_replicate_1)

lemma valid_edges_reverse: "valid_edges n ei \<Longrightarrow> valid_edges n (reverse_edges ei)"
  by (auto simp: valid_edges_def reverse_edges_def)

lemma valid_edges_Nil: "valid_edges n []"
  by (simp add: valid_edges_def)

lemma tadd_zeros: "is_tensor n d t \<Longrightarrow> tadd t (zeros n d) = t"
proof (rule nth_equalityI)
  assume t: "is_tensor n d t"
  show "length (tadd t (zeros n d)) = length t"
    using t by (simp add: length_tadd zeros_def is_tensor_def)
  fix i assume "i < length (tadd t (zeros n d))"
  then have i: "i < n" using t by (simp add: length_tadd zeros_def is_tensor_def)
  then show "tadd t (zeros n d) ! i = t ! i"
    using t by (simp add: tadd_nth zeros_def is_tensorD vadd_zero_right)
qed

lemma propagate_no_edges: "MessagePassing_propagate fl [] t None = zeros (length t) (ncols t)"
  by (simp add: MessagePassing_propagate_def index_select_def relu_def)

lemma GINConv_out_no_edges:
  assumes "is_tensor n d h" "length nm = n"
  shows "snd (GINConv_out c h [] None masking (expand_mask nm d))
       = mlp c (smul (1 + eps c) (if masking then tmul h (expand_mask nm d) else h))"
proof -
  let ?x = "if masking then tmul h (expand_mask nm d) else h"
  have x: "is_tensor n d ?x"
    using assms by (simp add: is_tensor_tmul is_tensor_expand_mask)
  then have "tadd (smul (1 + eps c) ?x) (zeros (length ?x) (ncols ?x)) = smul (1 + eps c) ?x"
    using tadd_zeros[OF is_tensor_smul[OF x]] zeros_ncols[OF x] is_tensorD(1)[OF x] by simp
  then show ?thesis
    by (simp add: GINConv_out_def Let_def propagate_no_edges)
qed

lemma upt_0_2: "[0..<2] = [0, Suc 0]"
  by (simp add: numeral_2_eq_2)

lemma ex_expander_constructed:
  "GNN_node_expander_init ex_lib 2 1 ''mol'' None (1 / 2) ''last'' res ''gin'' handling
     = Inr (ex_expander handling res True (\<lambda>t. t))"
  by (simp add: GNN_node_expander_init_def choose_encoder_def ex_lib_def ex_expander_def upt_0_2
      expander_convs_def expander_norms_def new_conv_def GINConv_init_def ex_gin_modules_def
      ex_conv_def ex_gin_def Let_def)

lemmas fl_simps = zero_fl_def one_fl_def minus_fl_def finite_row_def

lemmas ex_simps = ex_expander_def ex_expander_shift_def ex_data_def ex_data_loop_def
  ex_data_no_expander_edges_def ex_conv_def ex_gin_def ex_gin_shift_def ex_sumconv_def
  ex_encoder_def ex_encoder_2_def ex_encoder_inf_def bn_shift_def no_draws_def
  is_tensor_def expand_mask_def tmul_def tadd_def vadd_def one_minus_def zeros_def ones_def
  ncols_def index_select_def smul_def relu_def fl_simps

lemmas run_simps = ex_simps main_phase_def hub_phase_def return_phase_def propagate_def
  GINConv_forward_def GINConv_out_def MessagePassing_propagate_def dropout_def reverse_edges_def
  expander_mask_def expander_h0_def encode_def view_flat_def Let_def

lemma ex_num_layer [simp]:
  "gnn_node.num_layer (ex_expander handling res tr bn) = 2"
  "gnn_node.num_layer ex_expander_shift = 2"
  by (simp_all add: ex_expander_def ex_expander_shift_def)

section \<open>The hub phase of the summation strategies\<close>

text \<open>
  Claim C8, as amended. Under the strategies summation and summation-mlp the hub phase
  leaves the row of an original node (mask 1) as it was provided the row the summation
  layer returned for that node is finite, and sets the row of a hub node (mask 0) to the
  row the summation layer returned for it provided the row the node had before the phase
  is finite, whatever tensor of the shape of \<open>h\<close> the summation layer returns.
\<close>

theorem hub_phase_summation:
  assumes "expander_edge_handling m \<in> {''summation'', ''summation-mlp''}"
    and "is_tensor n dd h"
    and "length (expander_node_mask d) = n"
    and "msk = expand_mask (expander_node_mask d) dd"
    and "is_tensor n dd ((summation m ! layer) (tmul h msk) (expander_edge_index d))"
    and "i < n"
  shows "(expander_node_mask d ! i = 1
            \<and> finite_row ((summation m ! layer) (tmul h msk) (expander_edge_index d) ! i)
          \<longrightarrow> hub_phase m d keep msk layer h ! i = h ! i)
       \<and> (expander_node_mask d ! i = 0 \<and> finite_row (h ! i)
          \<longrightarrow> hub_phase m d keep msk layer h ! i
              = (summation m ! layer) (tmul h msk) (expander_edge_index d) ! i)"
proof -
  let ?e = "(summation m ! layer) (tmul h msk) (expander_edge_index d)"
  have eq: "hub_phase m d keep msk layer h = tadd (tmul h msk) (tmul ?e (one_minus msk))"
    using assms(1) by (auto simp: hub_phase_def Let_def)
  show ?thesis
    unfolding eq using blend_row(1,2)[OF assms(2) assms(5) assms(3) assms(6)]
    by (simp add: assms(4))
qed

text \<open>
  Claim C8, as stated, fails on values that are not finite, which the mask multiplies
  by zero. The hub node enters the phase with infinity: its masked row is NaN, which an
  expander edge carries into the original node. The summation layer returns NaN for the
  original node and 3 for the hub node; after the phase the original node holds NaN, not
  its 3, and the hub node NaN, not the 3 returned for it.
\<close>

theorem hub_phase_summation_counterexample:
  "expander_edge_handling (ex_expander ''summation'' False False id) = ''summation''
   \<and> expander_node_mask ex_data_loop = [1, 0]
   \<and> (summation (ex_expander ''summation'' False False id) ! 0)
        (tmul [[Fin 3], [PInf]] [[1], [0]]) (expander_edge_index ex_data_loop) = [[NaN], [Fin 3]]
   \<and> hub_phase (ex_expander ''summation'' False False id) ex_data_loop no_draws
        [[1], [0]] 0 [[Fin 3], [PInf]] = [[NaN], [NaN]]"
  by (simp add: run_simps)

text \<open>
  The amended claim on finite values: the summation layer returns 3 for both nodes, the
  original node keeps its 3, and the hub node, which held 7, takes the 3.
\<close>

theorem hub_phase_summation_witness:
  "expander_edge_handling (ex_expander ''summation'' False False id)
     \<in> {''summation'', ''summation-mlp''}
   \<and> is_tensor 2 1 [[Fin 3], [Fin 7]]
   \<and> length (expander_node_mask ex_data_loop) = 2
   \<and> (summation (ex_expander ''summation'' False False id) ! 0)
          (tmul [[Fin 3], [Fin 7]] (expand_mask (expander_node_mask ex_data_loop) 1))
          (expander_edge_index ex_data_loop) = [[Fin 3], [Fin 3]]
   \<and> expander_node_mask ex_data_loop ! 0 = 1 \<and> expander_node_mask ex_data_loop ! 1 = 0
   \<and> hub_phase (ex_expander ''summation'' False False id) ex_data_loop no_draws
        (expand_mask (expander_node_mask ex_data_loop) 1) 0 [[Fin 3], [Fin 7]] ! 0 = [Fin 3]
   \<and> hub_phase (ex_expander ''summation'' False False id) ex_data_loop no_draws
        (expand_mask (expander_node_mask ex_data_loop) 1) 0 [[Fin 3], [Fin 7]] ! 1 = [Fin 3]"
proof -
  let ?m = "ex_expander ''summation'' False False id"
  let ?msk = "expand_mask (expander_node_mask ex_data_loop) 1"
  let ?h = "[[Fin 3], [Fin 7]]"
  have h1: "expander_edge_handling ?m \<in> {''summation'', ''summation-mlp''}"
    by (simp add: ex_expander_def)
  have h2: "is_tensor 2 1 ?h" by (simp add: is_tensor_def)
  have h3: "length (expander_node_mask ex_data_loop) = 2" by (simp add: ex_data_def ex_data_loop_def)
  have e: "(summation ?m ! 0) (tmul ?h ?msk) (expander_edge_index ex_data_loop) = [[Fin 3], [Fin 3]]"
    by (simp add: ex_simps)
  have h5: "is_tensor 2 1 ((summation ?m ! 0) (tmul ?h ?msk) (expander_edge_index ex_data_loop))"
    unfolding e by (simp add: is_tensor_def)
  have m0: "expander_node_mask ex_data_loop ! 0 = 1" and m1: "expander_node_mask ex_data_loop ! 1 = 0"
    by (simp_all add: ex_data_def ex_data_loop_def)
  have a: "hub_phase ?m ex_data_loop no_draws ?msk 0 ?h ! 0 = [Fin 3]"
    using hub_phase_summation[OF h1 h2 h3 refl h5, of 0 no_draws] m0 e by (simp add: finite_row_def)
  have b: "hub_phase ?m ex_data_loop no_draws ?msk 0 ?h ! 1 = [Fin 3]"
    using hub_phase_summation[OF h1 h2 h3 refl h5, of 1 no_draws] m1 e by (simp add: finite_row_def)
  show ?thesis using h1 h2 h3 e m0 m1 a b by blast
qed

section \<open>The directional update\<close>

text \<open>
  Claim C1, as amended. At every layer before the last: under the summation strategies
  the hub phase leaves the row of every original node (mask 1) as it was, provided the
  row the summation layer returned for the node is finite. Under the strategies masking
  and learn-features it is the additive convolution of the hub phase, not the phase,
  that returns for every original node the row the node had before the hub phase; and
  the additive convolution of the return phase returns for every hub node (mask 0) the
  row the node had before the return phase, that is, after the hub phase; both provided
  the fresh output of the feed-forward sublayer for the node is finite. Normalisation,
  activation, dropout and residual follow in \<open>propagate\<close> on all rows.
\<close>

theorem directional_update:
  assumes "is_tensor n dd h" and "is_tensor n dd h2"
    and "length (expander_node_mask d) = n"
    and "valid_edges n (expander_edge_index d)"
    and "msk = expand_mask (expander_node_mask d) dd"
    and "i < n"
  shows "(expander_edge_handling m \<in> {''summation'', ''summation-mlp''}
            \<and> is_tensor n dd ((summation m ! layer) (tmul h msk) (expander_edge_index d))
            \<and> expander_node_mask d ! i = 1
            \<and> finite_row ((summation m ! layer) (tmul h msk) (expander_edge_index d) ! i)
          \<longrightarrow> hub_phase m d keep msk layer h ! i = h ! i)
       \<and> (expander_left_convs m ! layer = GIN cl \<and> keeps_shape n dd (mlp cl)
            \<and> expander_node_mask d ! i = 1
            \<and> finite_row (snd (GINConv_out cl h (expander_edge_index d) None
                  (expander_edge_handling m = ''masking'') msk) ! i)
          \<longrightarrow> conv_forward (expander_left_convs m ! layer) h (expander_edge_index d) None
                (expander_edge_handling m = ''masking'') msk ''expander'' ! i = h ! i)
       \<and> (expander_right_convs m ! layer = GIN cr \<and> keeps_shape n dd (mlp cr)
            \<and> expander_node_mask d ! i = 0
            \<and> finite_row (snd (GINConv_out cr h2 (reverse_edges (expander_edge_index d)) None
                  False msk) ! i)
          \<longrightarrow> conv_forward (expander_right_convs m ! layer) h2
                (reverse_edges (expander_edge_index d)) None False msk ''original'' ! i = h2 ! i)"
proof (intro conjI impI)
  let ?e = "(summation m ! layer) (tmul h msk) (expander_edge_index d)"
  assume a: "expander_edge_handling m \<in> {''summation'', ''summation-mlp''}
      \<and> is_tensor n dd ?e \<and> expander_node_mask d ! i = 1 \<and> finite_row (?e ! i)"
  then have eq: "hub_phase m d keep msk layer h = tadd (tmul h msk) (tmul ?e (one_minus msk))"
    by (auto simp: hub_phase_def Let_def)
  from a have e: "is_tensor n dd ?e" by simp
  show "hub_phase m d keep msk layer h ! i = h ! i"
    unfolding eq using blend_row(1)[OF assms(1) e assms(3) assms(6)] a
    by (simp add: assms(5))
next
  have ea: "case None of None \<Rightarrow> True | Some a \<Rightarrow> is_tensor k dd (f a)" for k and f :: "tensor \<Rightarrow> tensor"
    by simp
  assume a: "expander_left_convs m ! layer = GIN cl \<and> keeps_shape n dd (mlp cl)
      \<and> expander_node_mask d ! i = 1
      \<and> finite_row (snd (GINConv_out cl h (expander_edge_index d) None
            (expander_edge_handling m = ''masking'') msk) ! i)"
  then have k: "keeps_shape n dd (mlp cl)" by simp
  have "GINConv_forward cl h (expander_edge_index d) None (expander_edge_handling m = ''masking'')
        (expand_mask (expander_node_mask d) dd) ''expander'' ! i = h ! i"
    using GINConv_forward_rows(1)[OF assms(1,3,4) k ea assms(6)]
      GINConv_out_fst_row[OF assms(1,3,6)] a
    by (simp add: assms(5))
  then show "conv_forward (expander_left_convs m ! layer) h (expander_edge_index d) None
      (expander_edge_handling m = ''masking'') msk ''expander'' ! i = h ! i"
    using a by (simp add: assms(5))
next
  have ea: "case None of None \<Rightarrow> True | Some a \<Rightarrow> is_tensor k dd (f a)" for k and f :: "tensor \<Rightarrow> tensor"
    by simp
  assume a: "expander_right_convs m ! layer = GIN cr \<and> keeps_shape n dd (mlp cr)
      \<and> expander_node_mask d ! i = 0
      \<and> finite_row (snd (GINConv_out cr h2 (reverse_edges (expander_edge_index d)) None
            False msk) ! i)"
  then have k: "keeps_shape n dd (mlp cr)" by simp
  have "GINConv_forward cr h2 (reverse_edges (expander_edge_index d)) None False
        (expand_mask (expander_node_mask d) dd) ''original'' ! i = h2 ! i"
    using GINConv_forward_rows(3)[OF assms(2,3) valid_edges_reverse[OF assms(4)] k ea assms(6)]
      GINConv_out_fst_row[OF assms(2,3,6), of False] a
    by (simp add: assms(5))
  then show "conv_forward (expander_right_convs m ! layer) h2
      (reverse_edges (expander_edge_index d)) None False msk ''original'' ! i = h2 ! i"
    using a by (simp add: assms(5))
qed

text \<open>
  Claim C1, as stated, fails. In the two-node batch, after the main phase of layer 0 the
  original node holds 1 and the hub node 0. The hub phase, whose normalisation adds 1,
  leaves the original node at 2; and after the return phase the hub node holds 2, not
  the 0 it held before the hub phase. Both are values of the history of a forward pass.
\<close>

theorem directional_update_counterexample:
  "expander_node_mask ex_data = [1, 0]
   \<and> expander_mask ex_data [[Fin 1], [Fin 5]] = [[1], [0]]
   \<and> main_phase (ex_expander ''learn-features'' False False bn_shift) ex_data no_draws
        [[1], [0]] 0 [[Fin 1], [Fin 0]] = [[Fin 1], [Fin 0]]
   \<and> hub_phase (ex_expander ''learn-features'' False False bn_shift) ex_data no_draws
        [[1], [0]] 0 [[Fin 1], [Fin 0]] = [[Fin 2], [Fin 2]]
   \<and> return_phase (ex_expander ''learn-features'' False False bn_shift) ex_data no_draws
        [[1], [0]] 0 [[Fin 2], [Fin 2]] = [[Fin 4], [Fin 2]]
   \<and> GNN_node_expander_h_list (ex_expander ''learn-features'' False False bn_shift) ex_data no_draws
        = Inr [[[Fin 1], [Fin 0]], [[Fin 4], [Fin 2]], [[Fin 4], [Fin 2]]]"
proof -
  let ?m = "ex_expander ''learn-features'' False False bn_shift"
  have a: "expander_node_mask ex_data = [1, 0]" by (simp add: ex_data_def)
  have enc: "encode ?m ex_data = Inr [[Fin 1], [Fin 5]]" by (simp add: run_simps)
  have b: "expander_mask ex_data [[Fin 1], [Fin 5]] = [[1], [0]]" by (simp add: run_simps)
  have h0: "expander_h0 ex_data [[Fin 1], [Fin 5]] = [[Fin 1], [Fin 0]]" by (simp add: run_simps)
  have c: "main_phase ?m ex_data no_draws [[1], [0]] 0 [[Fin 1], [Fin 0]] = [[Fin 1], [Fin 0]]"
    by (simp add: run_simps)
  have d: "hub_phase ?m ex_data no_draws [[1], [0]] 0 [[Fin 1], [Fin 0]] = [[Fin 2], [Fin 2]]"
    by (simp add: run_simps)
  have e: "return_phase ?m ex_data no_draws [[1], [0]] 0 [[Fin 2], [Fin 2]] = [[Fin 4], [Fin 2]]"
    by (simp add: run_simps)
  have l0: "expander_layer ?m ex_data no_draws [[1], [0]] 0 [[Fin 1], [Fin 0]] = [[Fin 4], [Fin 2]]"
    by (simp add: expander_layer_def c d e)
  have l1: "expander_layer ?m ex_data no_draws [[1], [0]] (Suc 0) [[Fin 4], [Fin 2]] = [[Fin 4], [Fin 2]]"
    by (simp add: expander_layer_def) (simp add: run_simps)
  have f: "GNN_node_expander_h_list ?m ex_data no_draws
      = Inr [[[Fin 1], [Fin 0]], [[Fin 4], [Fin 2]], [[Fin 4], [Fin 2]]]"
    by (simp add: GNN_node_expander_h_list_def enc b h0 upt_0_2 l0 l1)
  show ?thesis using a b c d e f by blast
qed

lemma ex_keeps_shape: "keeps_shape n d (mlp ex_gin)" "keeps_shape n d (mlp ex_gin_shift)"
  by (auto simp: keeps_shape_def ex_gin_def ex_gin_shift_def is_tensor_def)

text \<open>
  The amended claim where the fresh output differs from the input on the frozen rows:
  the summation layer returns 3 for the original node, which keeps its 3; the hub
  convolution computes 3 for the original node, which keeps its 1; the return
  convolution computes 5 for the hub node, which keeps its 2.
\<close>

theorem directional_update_witness:
  "is_tensor 2 1 [[Fin 1], [Fin 0]] \<and> is_tensor 2 1 [[Fin 1], [Fin 2]]
   \<and> is_tensor 2 1 [[Fin 3], [Fin 7]]
   \<and> length (expander_node_mask ex_data) = 2 \<and> valid_edges 2 (expander_edge_index ex_data)
   \<and> length (expander_node_mask ex_data_loop) = 2 \<and> valid_edges 2 (expander_edge_index ex_data_loop)
   \<and> expander_node_mask ex_data ! 0 = 1 \<and> expander_node_mask ex_data ! 1 = 0
   \<and> expander_node_mask ex_data_loop ! 0 = 1
   \<and> (summation (ex_expander ''summation'' False False id) ! 0)
        (tmul [[Fin 3], [Fin 7]] (expand_mask (expander_node_mask ex_data_loop) 1))
        (expander_edge_index ex_data_loop) = [[Fin 3], [Fin 3]]
   \<and> hub_phase (ex_expander ''summation'' False False id) ex_data_loop no_draws
        (expand_mask (expander_node_mask ex_data_loop) 1) 0 [[Fin 3], [Fin 7]] ! 0 = [Fin 3]
   \<and> expander_left_convs ex_expander_shift ! 0 = GIN ex_gin_shift
   \<and> expander_right_convs ex_expander_shift ! 0 = GIN ex_gin_shift
   \<and> keeps_shape 2 1 (mlp ex_gin_shift)
   \<and> snd (GINConv_out ex_gin_shift [[Fin 1], [Fin 0]] (expander_edge_index ex_data) None
        (expander_edge_handling ex_expander_shift = ''masking'')
        (expand_mask (expander_node_mask ex_data) 1)) = [[Fin 3], [Fin 2]]
   \<and> conv_forward (expander_left_convs ex_expander_shift ! 0) [[Fin 1], [Fin 0]]
        (expander_edge_index ex_data) None (expander_edge_handling ex_expander_shift = ''masking'')
        (expand_mask (expander_node_mask ex_data) 1) ''expander'' ! 0 = [Fin 1]
   \<and> snd (GINConv_out ex_gin_shift [[Fin 1], [Fin 2]] (reverse_edges (expander_edge_index ex_data))
        None False (expand_mask (expander_node_mask ex_data) 1)) = [[Fin 5], [Fin 5]]
   \<and> conv_forward (expander_right_convs ex_expander_shift ! 0) [[Fin 1], [Fin 2]]
        (reverse_edges (expander_edge_index ex_data)) None False
        (expand_mask (expander_node_mask ex_data) 1) ''original'' ! 1 = [Fin 2]"
proof -
  let ?ms = "ex_expander ''summation'' False False id"
  let ?m = ex_expander_shift
  let ?h = "[[Fin 1], [Fin 0]]" and ?h2 = "[[Fin 1], [Fin 2]]" and ?h3 = "[[Fin 3], [Fin 7]]"
  have t1: "is_tensor 2 1 ?h" and t2: "is_tensor 2 1 ?h2" and t3: "is_tensor 2 1 ?h3"
    by (simp_all add: is_tensor_def)
  have l: "length (expander_node_mask ex_data) = 2" "length (expander_node_mask ex_data_loop) = 2"
    by (simp_all add: ex_data_def ex_data_loop_def)
  have v: "valid_edges 2 (expander_edge_index ex_data)"
      "valid_edges 2 (expander_edge_index ex_data_loop)"
    by (simp_all add: ex_data_def ex_data_loop_def valid_edges_def)
  have m0: "expander_node_mask ex_data ! 0 = 1" and m1: "expander_node_mask ex_data ! 1 = 0"
    and ml: "expander_node_mask ex_data_loop ! 0 = 1"
    by (simp_all add: ex_data_def ex_data_loop_def)
  have e: "(summation ?ms ! 0) (tmul ?h3 (expand_mask (expander_node_mask ex_data_loop) 1))
        (expander_edge_index ex_data_loop) = [[Fin 3], [Fin 3]]"
    by (simp add: ex_simps)
  have hs: "expander_edge_handling ?ms \<in> {''summation'', ''summation-mlp''}"
    by (simp add: ex_expander_def)
  have a: "hub_phase ?ms ex_data_loop no_draws (expand_mask (expander_node_mask ex_data_loop) 1) 0
      ?h3 ! 0 = [Fin 3]"
    using directional_update[OF t3 t3 l(2) v(2) refl, of 0 ?ms 0 no_draws] hs ml e
    by (simp add: finite_row_def is_tensor_def)
  have cl: "expander_left_convs ?m ! 0 = GIN ex_gin_shift"
    and cr: "expander_right_convs ?m ! 0 = GIN ex_gin_shift"
    by (simp_all add: ex_expander_shift_def ex_expander_def)
  have k: "keeps_shape 2 1 (mlp ex_gin_shift)" by (rule ex_keeps_shape)
  have ol: "snd (GINConv_out ex_gin_shift ?h (expander_edge_index ex_data) None
        (expander_edge_handling ?m = ''masking'') (expand_mask (expander_node_mask ex_data) 1))
      = [[Fin 3], [Fin 2]]"
    by (simp add: run_simps)
  have or: "snd (GINConv_out ex_gin_shift ?h2 (reverse_edges (expander_edge_index ex_data))
        None False (expand_mask (expander_node_mask ex_data) 1)) = [[Fin 5], [Fin 5]]"
    by (simp add: run_simps)
  have b: "conv_forward (expander_left_convs ?m ! 0) ?h (expander_edge_index ex_data) None
        (expander_edge_handling ?m = ''masking'')
        (expand_mask (expander_node_mask ex_data) 1) ''expander'' ! 0 = [Fin 1]"
    using directional_update[OF t1 t2 l(1) v(1) refl, of 0 ?m 0 no_draws ex_gin_shift ex_gin_shift]
      cl k m0 ol by (simp add: finite_row_def)
  have c: "conv_forward (expander_right_convs ?m ! 0) ?h2
        (reverse_edges (expander_edge_index ex_data)) None False
        (expand_mask (expander_node_mask ex_data) 1) ''original'' ! 1 = [Fin 2]"
    using directional_update[OF t1 t2 l(1) v(1) refl, of 1 ?m 0 no_draws ex_gin_shift ex_gin_shift]
      cr k m1 or by (simp add: finite_row_def)
  show ?thesis using t1 t2 t3 l v m0 m1 ml e a cl cr k ol b or c by blast
qed

section \<open>An empty expander edge set\<close>

text \<open>
  Claim C5, as amended. On an empty expander edge set the aggregated messages of the
  additive convolutions of the hub phase and of the return phase are the zero tensor.
  The hub convolution then returns the row of an original node as it was and, for a hub
  node, the row of the feed-forward sublayer applied to \<open>(1 + eps) * h'\<close>, where \<open>h'\<close> is
  \<open>h\<close>, times the mask under the strategy masking; the return convolution returns the
  row of a hub node as it was and, for an original node, the row of the sublayer applied
  to \<open>(1 + eps) * h\<close>; in each case provided the row that the mask multiplies by zero
  is finite.
\<close>

theorem empty_expander_edge_set:
  assumes "expander_edge_index d = []"
    and "expander_left_convs m ! layer = GIN cl" and "expander_right_convs m ! layer = GIN cr"
    and "keeps_shape n dd (mlp cl)" and "keeps_shape n dd (mlp cr)"
    and "is_tensor n dd h" and "is_tensor n dd h2"
    and "length (expander_node_mask d) = n"
    and "msk = expand_mask (expander_node_mask d) dd"
    and "h' = (if expander_edge_handling m = ''masking'' then tmul h msk else h)"
    and "i < n"
  shows "MessagePassing_propagate (flow cl) (expander_edge_index d) h' None = zeros n dd
       \<and> MessagePassing_propagate (flow cr) (reverse_edges (expander_edge_index d)) h2 None = zeros n dd
       \<and> (expander_node_mask d ! i = 1 \<and> finite_row (mlp cl (smul (1 + eps cl) h') ! i) \<longrightarrow>
           conv_forward (expander_left_convs m ! layer) h (expander_edge_index d) None
             (expander_edge_handling m = ''masking'') msk ''expander'' ! i = h ! i)
       \<and> (expander_node_mask d ! i = 0 \<and> finite_row (h' ! i) \<longrightarrow>
           conv_forward (expander_left_convs m ! layer) h (expander_edge_index d) None
             (expander_edge_handling m = ''masking'') msk ''expander'' ! i
           = mlp cl (smul (1 + eps cl) h') ! i)
       \<and> (expander_node_mask d ! i = 0 \<and> finite_row (mlp cr (smul (1 + eps cr) h2) ! i) \<longrightarrow>
           conv_forward (expander_right_convs m ! layer) h2 (reverse_edges (expander_edge_index d))
             None False msk ''original'' ! i = h2 ! i)
       \<and> (expander_node_mask d ! i = 1 \<and> finite_row (h2 ! i) \<longrightarrow>
           conv_forward (expander_right_convs m ! layer) h2 (reverse_edges (expander_edge_index d))
             None False msk ''original'' ! i = mlp cr (smul (1 + eps cr) h2) ! i)"
proof -
  let ?mk = "expander_edge_handling m = ''masking''"
  let ?M = "expand_mask (expander_node_mask d) dd"
  have ea: "case None of None \<Rightarrow> True | Some a \<Rightarrow> is_tensor k dd (f a)" for k and f :: "tensor \<Rightarrow> tensor"
    by simp
  have rev: "reverse_edges [] = []" by (simp add: reverse_edges_def)
  have h': "is_tensor n dd h'"
    using assms(6,8) by (simp add: assms(9,10) is_tensor_tmul is_tensor_expand_mask)
  have z: "MessagePassing_propagate (flow cl) (expander_edge_index d) h' None = zeros n dd"
      "MessagePassing_propagate (flow cr) (reverse_edges (expander_edge_index d)) h2 None = zeros n dd"
    using zeros_ncols[OF h'] zeros_ncols[OF assms(7)] is_tensorD(1)[OF h'] is_tensorD(1)[OF assms(7)]
    by (simp_all add: rev assms(1) propagate_no_edges)
  have fl: "fst (GINConv_out cl h [] None ?mk ?M) = h'"
    by (simp add: GINConv_out_def Let_def assms(9,10))
  have sl: "snd (GINConv_out cl h [] None ?mk ?M) = mlp cl (smul (1 + eps cl) h')"
    using GINConv_out_no_edges[OF assms(6,8), of cl ?mk] by (simp add: assms(9,10))
  have fr: "fst (GINConv_out cr h2 [] None False ?M) = h2"
    by (simp add: GINConv_out_def Let_def)
  have sr: "snd (GINConv_out cr h2 [] None False ?M) = mlp cr (smul (1 + eps cr) h2)"
    using GINConv_out_no_edges[OF assms(7,8), of cr False] by simp
  note L = GINConv_forward_rows[OF assms(6,8) valid_edges_Nil assms(4) ea assms(11), of ?mk,
      unfolded fl sl]
  note R = GINConv_forward_rows[OF assms(7,8) valid_edges_Nil assms(5) ea assms(11), of False,
      unfolded fr sr]
  have l1: "expander_node_mask d ! i = 1 \<Longrightarrow> finite_row (mlp cl (smul (1 + eps cl) h') ! i) \<Longrightarrow>
      GINConv_forward cl h [] None ?mk ?M ''expander'' ! i = h ! i"
    using L(1) GINConv_out_fst_row[OF assms(6,8,11), of ?mk cl "[]" None] fl by simp
  have l0: "expander_node_mask d ! i = 0 \<Longrightarrow> finite_row (h' ! i) \<Longrightarrow>
      GINConv_forward cl h [] None ?mk ?M ''expander'' ! i = mlp cl (smul (1 + eps cl) h') ! i"
    using L(2) by simp
  have r0: "expander_node_mask d ! i = 0 \<Longrightarrow> finite_row (mlp cr (smul (1 + eps cr) h2) ! i) \<Longrightarrow>
      GINConv_forward cr h2 [] None False ?M ''original'' ! i = h2 ! i"
    using R(3) by simp
  have r1: "expander_node_mask d ! i = 1 \<Longrightarrow> finite_row (h2 ! i) \<Longrightarrow>
      GINConv_forward cr h2 [] None False ?M ''original'' ! i = mlp cr (smul (1 + eps cr) h2) ! i"
    using R(4) by simp
  show ?thesis
    using z l1 l0 r0 r1 by (simp add: assms(1,2,3,9) rev)
qed

text \<open>
  Claim C5, as stated, fails. With no expander edge, the main phase of layer 0 leaves the
  rows 1 and 0; the hub phase, whose normalisation adds 1, and the return phase leave the
  rows 2 and 1.
\<close>

theorem empty_edge_set_counterexample:
  "expander_edge_index ex_data_no_expander_edges = []
   \<and> main_phase (ex_expander ''learn-features'' False False bn_shift) ex_data_no_expander_edges
        no_draws [[1], [0]] 0 [[Fin 1], [Fin 0]] = [[Fin 1], [Fin 0]]
   \<and> hub_phase (ex_expander ''learn-features'' False False bn_shift) ex_data_no_expander_edges
        no_draws [[1], [0]] 0 [[Fin 1], [Fin 0]] = [[Fin 2], [Fin 1]]
   \<and> return_phase (ex_expander ''learn-features'' False False bn_shift) ex_data_no_expander_edges
        no_draws [[1], [0]] 0 [[Fin 2], [Fin 1]] = [[Fin 2], [Fin 1]]
   \<and> GNN_node_expander_h_list (ex_expander ''learn-features'' False False bn_shift)
        ex_data_no_expander_edges no_draws
      = Inr [[[Fin 1], [Fin 0]], [[Fin 2], [Fin 1]], [[Fin 2], [Fin 1]]]"
proof -
  let ?m = "ex_expander ''learn-features'' False False bn_shift"
  let ?d = ex_data_no_expander_edges
  have a: "expander_edge_index ?d = []" by (simp add: ex_data_no_expander_edges_def)
  have enc: "encode ?m ?d = Inr [[Fin 1], [Fin 5]]" by (simp add: run_simps)
  have b: "expander_mask ?d [[Fin 1], [Fin 5]] = [[1], [0]]" by (simp add: run_simps)
  have h0: "expander_h0 ?d [[Fin 1], [Fin 5]] = [[Fin 1], [Fin 0]]" by (simp add: run_simps)
  have c: "main_phase ?m ?d no_draws [[1], [0]] 0 [[Fin 1], [Fin 0]] = [[Fin 1], [Fin 0]]"
    by (simp add: run_simps)
  have d: "hub_phase ?m ?d no_draws [[1], [0]] 0 [[Fin 1], [Fin 0]] = [[Fin 2], [Fin 1]]"
    by (simp add: run_simps)
  have e: "return_phase ?m ?d no_draws [[1], [0]] 0 [[Fin 2], [Fin 1]] = [[Fin 2], [Fin 1]]"
    by (simp add: run_simps)
  have l0: "expander_layer ?m ?d no_draws [[1], [0]] 0 [[Fin 1], [Fin 0]] = [[Fin 2], [Fin 1]]"
    by (simp add: expander_layer_def c d e)
  have l1: "expander_layer ?m ?d no_draws [[1], [0]] (Suc 0) [[Fin 2], [Fin 1]] = [[Fin 2], [Fin 1]]"
    by (simp add: expander_layer_def) (simp add: run_simps)
  have f: "GNN_node_expander_h_list ?m ?d no_draws
      = Inr [[[Fin 1], [Fin 0]], [[Fin 2], [Fin 1]], [[Fin 2], [Fin 1]]]"
    by (simp add: GNN_node_expander_h_list_def enc b h0 upt_0_2 l0 l1)
  show ?thesis using a c d e f by blast
qed

text \<open>
  The amended claim with a sublayer that adds 1 and \<open>eps = 1\<close>: the hub convolution
  keeps the 1 of the original node and gives the hub node 1, the return convolution
  gives the original node 3 and keeps the 1 of the hub node.
\<close>

theorem empty_expander_edge_set_witness:
  "expander_edge_index ex_data_no_expander_edges = []
   \<and> expander_left_convs ex_expander_shift ! 0 = GIN ex_gin_shift
   \<and> expander_right_convs ex_expander_shift ! 0 = GIN ex_gin_shift
   \<and> keeps_shape 2 1 (mlp ex_gin_shift)
   \<and> is_tensor 2 1 [[Fin 1], [Fin 0]] \<and> is_tensor 2 1 [[Fin 1], [Fin 1]]
   \<and> length (expander_node_mask ex_data_no_expander_edges) = 2
   \<and> expander_node_mask ex_data_no_expander_edges ! 0 = 1
   \<and> expander_node_mask ex_data_no_expander_edges ! 1 = 0
   \<and> mlp ex_gin_shift (smul (1 + eps ex_gin_shift) [[Fin 1], [Fin 0]]) = [[Fin 3], [Fin 1]]
   \<and> mlp ex_gin_shift (smul (1 + eps ex_gin_shift) [[Fin 1], [Fin 1]]) = [[Fin 3], [Fin 3]]
   \<and> MessagePassing_propagate (flow ex_gin_shift) (expander_edge_index ex_data_no_expander_edges)
        [[Fin 1], [Fin 0]] None = zeros 2 1
   \<and> conv_forward (expander_left_convs ex_expander_shift ! 0) [[Fin 1], [Fin 0]]
        (expander_edge_index ex_data_no_expander_edges) None
        (expander_edge_handling ex_expander_shift = ''masking'')
        (expand_mask (expander_node_mask ex_data_no_expander_edges) 1) ''expander'' ! 0 = [Fin 1]
   \<and> conv_forward (expander_left_convs ex_expander_shift ! 0) [[Fin 1], [Fin 0]]
        (expander_edge_index ex_data_no_expander_edges) None
        (expander_edge_handling ex_expander_shift = ''masking'')
        (expand_mask (expander_node_mask ex_data_no_expander_edges) 1) ''expander'' ! 1 = [Fin 1]
   \<and> conv_forward (expander_right_convs ex_expander_shift ! 0) [[Fin 1], [Fin 1]]
        (reverse_edges (expander_edge_index ex_data_no_expander_edges)) None False
        (expand_mask (expander_node_mask ex_data_no_expander_edges) 1) ''original'' ! 0 = [Fin 3]
   \<and> conv_forward (expander_right_convs ex_expander_shift ! 0) [[Fin 1], [Fin 1]]
        (reverse_edges (expander_edge_index ex_data_no_expander_edges)) None False
        (expand_mask (expander_node_mask ex_data_no_expander_edges) 1) ''original'' ! 1 = [Fin 1]"
proof -
  let ?m = ex_expander_shift
  let ?d = ex_data_no_expander_edges
  let ?h = "[[Fin 1], [Fin 0]]" and ?h2 = "[[Fin 1], [Fin 1]]"
  let ?M = "expand_mask (expander_node_mask ?d) 1"
  have h0: "expander_edge_index ?d = []" by (simp add: ex_data_no_expander_edges_def)
  have cl: "expander_left_convs ?m ! 0 = GIN ex_gin_shift"
    and cr: "expander_right_convs ?m ! 0 = GIN ex_gin_shift"
    by (simp_all add: ex_expander_shift_def ex_expander_def)
  have k: "keeps_shape 2 1 (mlp ex_gin_shift)" by (rule ex_keeps_shape)
  have t1: "is_tensor 2 1 ?h" and t2: "is_tensor 2 1 ?h2" by (simp_all add: is_tensor_def)
  have l: "length (expander_node_mask ?d) = 2"
    by (simp add: ex_data_def ex_data_no_expander_edges_def)
  have m0: "expander_node_mask ?d ! 0 = 1" and m1: "expander_node_mask ?d ! 1 = 0"
    by (simp_all add: ex_data_def ex_data_no_expander_edges_def)
  have mk: "(expander_edge_handling ?m = ''masking'') = False"
    by (simp add: ex_expander_shift_def ex_expander_def)
  have h': "?h = (if expander_edge_handling ?m = ''masking'' then tmul ?h ?M else ?h)"
    by (simp add: mk)
  have o1: "mlp ex_gin_shift (smul (1 + eps ex_gin_shift) ?h) = [[Fin 3], [Fin 1]]"
    and o2: "mlp ex_gin_shift (smul (1 + eps ex_gin_shift) ?h2) = [[Fin 3], [Fin 3]]"
    by (simp_all add: ex_simps)
  note T = empty_expander_edge_set[OF h0 cl cr k k t1 t2 l refl h']
  have z: "MessagePassing_propagate (flow ex_gin_shift) (expander_edge_index ?d) ?h None = zeros 2 1"
    using T[of 0] by simp
  have a0: "conv_forward (expander_left_convs ?m ! 0) ?h (expander_edge_index ?d) None
        (expander_edge_handling ?m = ''masking'') ?M ''expander'' ! 0 = [Fin 1]"
    using T[of 0] m0 o1 by (simp add: finite_row_def)
  have a1: "conv_forward (expander_left_convs ?m ! 0) ?h (expander_edge_index ?d) None
        (expander_edge_handling ?m = ''masking'') ?M ''expander'' ! 1 = [Fin 1]"
    using T[of 1] m1 o1 by (simp add: finite_row_def)
  have b0: "conv_forward (expander_right_convs ?m ! 0) ?h2 (reverse_edges (expander_edge_index ?d))
        None False ?M ''original'' ! 0 = [Fin 3]"
    using T[of 0] m0 o2 by (simp add: finite_row_def)
  have b1: "conv_forward (expander_right_convs ?m ! 0) ?h2 (reverse_edges (expander_edge_index ?d))
        None False ?M ''original'' ! 1 = [Fin 1]"
    using T[of 1] m1 o2 by (simp add: finite_row_def)
  show ?thesis using h0 cl cr k t1 t2 l m0 m1 o1 o2 z a0 a1 b0 b1 by blast
qed

section \<open>History entry 0 of the expander engine\<close>

lemma expander_mask_eq:
  assumes "is_tensor n dd h" "is_tensor n dd h'"
  shows "length nm = n \<Longrightarrow> expand_mask nm (ncols h) = expand_mask nm (ncols h')"
  using assms by (cases "n = 0") (auto simp: ncols_is_tensor expand_mask_def)

lemma expander_mask_dd:
  assumes "is_tensor n dd h" "length nm = n"
  shows "expand_mask nm (ncols h) = expand_mask nm dd"
  using assms by (cases "n = 0") (auto simp: ncols_is_tensor expand_mask_def)

lemma expander_h0_row:
  assumes "is_tensor n dd h" "length (expander_node_mask d) = n" "i < n"
  shows "expander_h0 d h ! i = map (\<lambda>v. v * (expander_node_mask d ! i)) (h ! i)"
proof -
  have "expander_h0 d h = tmul h (expand_mask (expander_node_mask d) dd)"
    using expander_mask_dd[OF assms(1,2)] by (simp add: expander_h0_def expander_mask_def)
  moreover have "map2 (*) r (replicate (length r) b) = map (\<lambda>v. v * b) r" for r :: "fl list" and b
    by (induction r) auto
  from this[of "h ! i"] have "map2 (*) (h ! i) (replicate dd (expander_node_mask d ! i))
      = map (\<lambda>v. v * (expander_node_mask d ! i)) (h ! i)"
    using is_tensorD(2)[OF assms(1,3)] by simp
  ultimately show ?thesis using assms
    by (simp add: tmul_nth length_expand_mask expand_mask_nth is_tensorD)
qed

lemma map_times_0_finite: "finite_row r \<Longrightarrow> map (\<lambda>v. v * 0) r = replicate (length r) 0"
  by (induction r) (auto simp: finite_row_def fl_mult_0_finite)

lemma length_expander_h0:
  assumes "is_tensor n dd h" "length (expander_node_mask d) = n"
  shows "length (expander_h0 d h) = n"
  using assms by (simp add: expander_h0_def expander_mask_def length_tmul length_expand_mask is_tensorD)

lemma fold_append_nth0:
  "xs \<noteq> [] \<Longrightarrow> fold (\<lambda>l hl. hl @ [f l hl]) ls xs ! 0 = xs ! 0"
  by (induction ls arbitrary: xs) (auto simp: nth_append)

lemma expander_layer_encoder:
  "expander_layer (m\<lparr>node_encoder := e\<rparr>) = expander_layer m"
  by (intro ext) (simp add: expander_layer_def main_phase_def hub_phase_def return_phase_def
      propagate_def Let_def)

text \<open>
  Claim C10, as amended. With expander, history entry 0 is the encoder output times the
  mask: the row of every hub node (mask 0) whose encoder output is finite is the zero
  vector before the first layer runs, and finite encoder outputs for hub nodes have no
  influence: an encoder that differs from the given one on hub nodes only, both finite
  there, yields the same history and the same node representation.
\<close>

theorem hub_encoder_output_discarded:
  assumes "encode m d = Inr h" and "is_tensor n dd h"
    and "length (expander_node_mask d) = n"
    and "encode (m\<lparr>node_encoder := enc'\<rparr>) d = Inr h'" and "is_tensor n dd h'"
    and "\<forall>i<n. expander_node_mask d ! i \<noteq> 0 \<longrightarrow> h' ! i = h ! i"
    and "\<forall>i<n. expander_node_mask d ! i = 0 \<longrightarrow> finite_row (h ! i) \<and> finite_row (h' ! i)"
  shows "\<exists>hl. GNN_node_expander_h_list m d keep = Inr hl
           \<and> (\<forall>i<n. expander_node_mask d ! i = 0 \<longrightarrow> hl ! 0 ! i = replicate dd 0)
           \<and> GNN_node_expander_h_list (m\<lparr>node_encoder := enc'\<rparr>) d keep = Inr hl
           \<and> GNN_node_expander_forward (m\<lparr>node_encoder := enc'\<rparr>) d keep
               = GNN_node_expander_forward m d keep"
proof -
  let ?m' = "m\<lparr>node_encoder := enc'\<rparr>"
  let ?step = "\<lambda>h0 layer h_list. h_list @ [expander_layer m d keep (expander_mask d h0) layer (h_list ! layer)]"
  let ?hl = "fold (?step h) [0..<gnn_node.num_layer m] [expander_h0 d h]"
  have hl: "GNN_node_expander_h_list m d keep = Inr ?hl"
    by (simp add: GNN_node_expander_h_list_def assms(1) Let_def)
  have msk: "expander_mask d h' = expander_mask d h"
    using expander_mask_eq[OF assms(5,2) assms(3)] by (simp add: expander_mask_def)
  have zrow: "expander_h0 d t ! i = replicate dd 0"
    if "is_tensor n dd t" "i < n" "expander_node_mask d ! i = 0" "finite_row (t ! i)" for t i
    using expander_h0_row[OF that(1) assms(3) that(2)] that(3,4) is_tensorD(2)[OF that(1,2)]
    by (simp add: map_times_0_finite)
  have h0: "expander_h0 d h' = expander_h0 d h"
  proof (rule nth_equalityI)
    show "length (expander_h0 d h') = length (expander_h0 d h)"
      using length_expander_h0[OF assms(2,3)] length_expander_h0[OF assms(5,3)] by simp
  next
    fix i assume "i < length (expander_h0 d h')"
    then have i: "i < n" using length_expander_h0[OF assms(5,3)] by simp
    show "expander_h0 d h' ! i = expander_h0 d h ! i"
    proof (cases "expander_node_mask d ! i = 0")
      case True
      then show ?thesis
        using zrow[OF assms(2) i True] zrow[OF assms(5) i True] assms(7) i by simp
    next
      case False
      then show ?thesis
        using expander_h0_row[OF assms(2,3) i] expander_h0_row[OF assms(5,3) i] assms(6) i
        by simp
    qed
  qed
  have hl': "GNN_node_expander_h_list ?m' d keep = Inr ?hl"
    by (simp add: GNN_node_expander_h_list_def assms(4) Let_def msk h0 expander_layer_encoder)
  have zero: "\<forall>i<n. expander_node_mask d ! i = 0 \<longrightarrow> ?hl ! 0 ! i = replicate dd 0"
  proof (intro allI impI)
    fix i assume i: "i < n" and z: "expander_node_mask d ! i = 0"
    have "?hl ! 0 = expander_h0 d h" by (simp add: fold_append_nth0)
    then show "?hl ! 0 ! i = replicate dd 0"
      using zrow[OF assms(2) i z] assms(7) i z by simp
  qed
  have fw: "GNN_node_expander_forward ?m' d keep = GNN_node_expander_forward m d keep"
    by (simp add: GNN_node_expander_forward_def hl hl')
  show ?thesis using hl hl' zero fw by blast
qed

lemma ex_layers:
  "expander_layer (ex_expander ''learn-features'' False False id) ex_data no_draws [[1], [0]] 0
     [[Fin 1], [Fin 0]] = [[Fin 2], [Fin 1]]"
  "expander_layer (ex_expander ''learn-features'' False False id) ex_data no_draws [[1], [0]]
     (Suc 0) [[Fin 2], [Fin 1]] = [[Fin 2], [Fin 1]]"
  "expander_layer (ex_expander ''learn-features'' False False id) ex_data no_draws [[1], [0]] 0
     [[Fin 1], [NaN]] = [[NaN], [NaN]]"
  "expander_layer (ex_expander ''learn-features'' False False id) ex_data no_draws [[1], [0]]
     (Suc 0) [[NaN], [NaN]] = [[NaN], [NaN]]"
  by (simp_all add: expander_layer_def) (simp_all add: run_simps)

text \<open>
  Claim C10, as stated, fails on an encoder output that is not finite. With infinity for
  the hub node, entry 0 holds NaN in the row of the hub node, and the node representation
  of the original node, for which both encoders return 1, is NaN instead of 2.
\<close>

theorem hub_encoder_output_counterexample:
  "expander_node_mask ex_data = [1, 0]
   \<and> encode (ex_expander ''learn-features'' False False id) ex_data = Inr [[Fin 1], [Fin 5]]
   \<and> encode ((ex_expander ''learn-features'' False False id)\<lparr>node_encoder := Some ex_encoder_inf\<rparr>)
        ex_data = Inr [[Fin 1], [PInf]]
   \<and> GNN_node_expander_h_list
        ((ex_expander ''learn-features'' False False id)\<lparr>node_encoder := Some ex_encoder_inf\<rparr>)
        ex_data no_draws = Inr [[[Fin 1], [NaN]], [[NaN], [NaN]], [[NaN], [NaN]]]
   \<and> GNN_node_expander_forward (ex_expander ''learn-features'' False False id) ex_data no_draws
        = Inr [[Fin 2], [Fin 1]]
   \<and> GNN_node_expander_forward
        ((ex_expander ''learn-features'' False False id)\<lparr>node_encoder := Some ex_encoder_inf\<rparr>)
        ex_data no_draws = Inr [[NaN], [NaN]]"
proof -
  let ?m = "ex_expander ''learn-features'' False False id"
  let ?mi = "?m\<lparr>node_encoder := Some ex_encoder_inf\<rparr>"
  have a: "expander_node_mask ex_data = [1, 0]" by (simp add: ex_data_def)
  have e1: "encode ?m ex_data = Inr [[Fin 1], [Fin 5]]" by (simp add: run_simps)
  have e2: "encode ?mi ex_data = Inr [[Fin 1], [PInf]]"
    by (simp add: encode_def ex_expander_def ex_encoder_inf_def)
  have k1: "expander_mask ex_data [[Fin 1], [Fin 5]] = [[1], [0]]"
    and k2: "expander_mask ex_data [[Fin 1], [PInf]] = [[1], [0]]"
    by (simp_all add: run_simps)
  have z1: "expander_h0 ex_data [[Fin 1], [Fin 5]] = [[Fin 1], [Fin 0]]"
    and z2: "expander_h0 ex_data [[Fin 1], [PInf]] = [[Fin 1], [NaN]]"
    by (simp_all add: run_simps)
  have n: "gnn_node.num_layer ?mi = 2" "gnn_node.JK ?mi = ''last''" "gnn_node.JK ?m = ''last''"
    by (simp_all add: ex_expander_def)
  have hl1: "GNN_node_expander_h_list ?m ex_data no_draws
      = Inr [[[Fin 1], [Fin 0]], [[Fin 2], [Fin 1]], [[Fin 2], [Fin 1]]]"
    by (simp add: GNN_node_expander_h_list_def e1 k1 z1 upt_0_2 ex_layers)
  have hl2: "GNN_node_expander_h_list ?mi ex_data no_draws
      = Inr [[[Fin 1], [NaN]], [[NaN], [NaN]], [[NaN], [NaN]]]"
    by (simp add: GNN_node_expander_h_list_def e2 k2 z2 upt_0_2 n expander_layer_encoder ex_layers)
  have f1: "GNN_node_expander_forward ?m ex_data no_draws = Inr [[Fin 2], [Fin 1]]"
    by (simp add: GNN_node_expander_forward_def hl1 jumping_knowledge_def n)
  have f2: "GNN_node_expander_forward ?mi ex_data no_draws = Inr [[NaN], [NaN]]"
    by (simp add: GNN_node_expander_forward_def hl2 jumping_knowledge_def n)
  show ?thesis using a e1 e2 hl2 f1 f2 by blast
qed

text \<open>The two-node batch with the encoder outputs 5 and 9 for the hub node.\<close>

theorem hub_encoder_output_discarded_witness:
  "encode (ex_expander ''learn-features'' False False bn_shift) ex_data = Inr [[Fin 1], [Fin 5]]
   \<and> is_tensor 2 1 [[Fin 1], [Fin 5]]
   \<and> length (expander_node_mask ex_data) = 2
   \<and> encode ((ex_expander ''learn-features'' False False bn_shift)\<lparr>node_encoder := Some ex_encoder_2\<rparr>)
        ex_data = Inr [[Fin 1], [Fin 9]]
   \<and> is_tensor 2 1 [[Fin 1], [Fin 9]]
   \<and> expander_node_mask ex_data ! 0 = 1 \<and> expander_node_mask ex_data ! 1 = 0
   \<and> finite_row [Fin 5] \<and> finite_row [Fin 9]
   \<and> (\<exists>hl. GNN_node_expander_h_list (ex_expander ''learn-features'' False False bn_shift) ex_data
               no_draws = Inr hl
          \<and> hl ! 0 ! 1 = replicate 1 0
          \<and> GNN_node_expander_h_list
               ((ex_expander ''learn-features'' False False bn_shift)\<lparr>node_encoder := Some ex_encoder_2\<rparr>)
               ex_data no_draws = Inr hl
          \<and> GNN_node_expander_forward
               ((ex_expander ''learn-features'' False False bn_shift)\<lparr>node_encoder := Some ex_encoder_2\<rparr>)
               ex_data no_draws
             = GNN_node_expander_forward (ex_expander ''learn-features'' False False bn_shift)
                 ex_data no_draws)"
proof -
  let ?m = "ex_expander ''learn-features'' False False bn_shift"
  have h1: "encode ?m ex_data = Inr [[Fin 1], [Fin 5]]" by (simp add: run_simps)
  have h2: "is_tensor 2 1 [[Fin 1], [Fin 5]]" by (simp add: is_tensor_def)
  have h3: "length (expander_node_mask ex_data) = 2" by (simp add: ex_data_def)
  have h4: "encode (?m\<lparr>node_encoder := Some ex_encoder_2\<rparr>) ex_data = Inr [[Fin 1], [Fin 9]]"
    by (simp add: encode_def ex_expander_def ex_encoder_2_def)
  have h5: "is_tensor 2 1 [[Fin 1], [Fin 9]]" by (simp add: is_tensor_def)
  have h6: "\<forall>i<2. expander_node_mask ex_data ! i \<noteq> 0 \<longrightarrow> [[Fin 1], [Fin 9]] ! i = [[Fin 1], [Fin 5]] ! i"
    by (simp add: ex_data_def less_2_cases_iff)
  have h7: "\<forall>i<2. expander_node_mask ex_data ! i = 0 \<longrightarrow>
      finite_row ([[Fin 1], [Fin 5]] ! i) \<and> finite_row ([[Fin 1], [Fin 9]] ! i)"
    by (simp add: ex_data_def less_2_cases_iff finite_row_def)
  have m0: "expander_node_mask ex_data ! 0 = 1" and m1: "expander_node_mask ex_data ! 1 = 0"
    by (simp_all add: ex_data_def)
  have f: "finite_row [Fin 5]" "finite_row [Fin 9]" by (simp_all add: finite_row_def)
  obtain hl where hl: "GNN_node_expander_h_list ?m ex_data no_draws = Inr hl"
      "\<forall>i<2. expander_node_mask ex_data ! i = 0 \<longrightarrow> hl ! 0 ! i = replicate 1 0"
      "GNN_node_expander_h_list (?m\<lparr>node_encoder := Some ex_encoder_2\<rparr>) ex_data no_draws = Inr hl"
      "GNN_node_expander_forward (?m\<lparr>node_encoder := Some ex_encoder_2\<rparr>) ex_data no_draws
         = GNN_node_expander_forward ?m ex_data no_draws"
    using hub_encoder_output_discarded[OF h1 h2 h3 h4 h5 h6 h7, of no_draws] by blast
  have "hl ! 0 ! 1 = replicate 1 0" using hl(2) m1 by simp
  then show ?thesis using h1 h2 h3 h4 h5 m0 m1 f hl(1,3,4) by blast
qed

section \<open>Determinism of the forward pass\<close>








lemmas gnn_run_simps = GNN_forward_def GNN_node_forward_def GNN_node_h_list_def GNN_node_layer_def
  jumping_knowledge_def readout_def global_add_pool_def pool_size_def encode_def view_flat_def
  GINConv_forward_def GINConv_out_def MessagePassing_propagate_def dropout_def ex_gnn_def
  ex_node_def keep_all_def keep_none_def upt_0_2 Let_def



section \<open>History and jumping knowledge\<close>

lemma length_fold_append:
  "length (fold (\<lambda>l hl. hl @ [f l hl]) ls xs) = length xs + length ls"
  by (induction ls arbitrary: xs) auto

lemma elementwise_sum_snoc:
  assumes "is_tensor n d t"
  shows "tadd (elementwise_sum hs n d) t = elementwise_sum (hs @ [t]) n d"
proof (rule nth_equalityI)
  show "length (tadd (elementwise_sum hs n d) t) = length (elementwise_sum (hs @ [t]) n d)"
    using assms by (simp add: length_tadd elementwise_sum_def is_tensor_def)
next
  fix i assume "i < length (tadd (elementwise_sum hs n d) t)"
  then have i: "i < n" using assms by (simp add: length_tadd elementwise_sum_def is_tensor_def)
  have l: "length (t ! i) = d" using is_tensorD(2)[OF assms i] .
  have "map2 (+) (map f [0..<d]) (t ! i) = map (\<lambda>j. f j + t ! i ! j) [0..<d]" for f :: "nat \<Rightarrow> fl"
    using l by (intro nth_equalityI) simp_all
  then show "tadd (elementwise_sum hs n d) t ! i = elementwise_sum (hs @ [t]) n d ! i"
    using i assms by (simp add: tadd_nth elementwise_sum_def vadd_def is_tensor_def)
qed

lemma elementwise_sum_single:
  assumes "is_tensor n d t"
  shows "scalar_add 0 t = elementwise_sum [t] n d"
proof (rule nth_equalityI)
  show "length (scalar_add 0 t) = length (elementwise_sum [t] n d)"
    using assms by (simp add: scalar_add_def elementwise_sum_def is_tensor_def)
next
  fix i assume "i < length (scalar_add 0 t)"
  then have i: "i < n" using assms by (simp add: scalar_add_def is_tensor_def)
  have l: "length (t ! i) = d" using is_tensorD(2)[OF assms i] .
  have "map (\<lambda>v. 0 + v) (t ! i) = map (\<lambda>j. 0 + t ! i ! j) [0..<d]"
    using l by (intro nth_equalityI) simp_all
  then show "scalar_add 0 t ! i = elementwise_sum [t] n d ! i"
    using i assms by (simp add: scalar_add_def elementwise_sum_def is_tensor_def)
qed

lemma jk_sum_fold:
  assumes "\<forall>t \<in> set hl. is_tensor n d t" "k < length hl"
  shows "fold (\<lambda>layer nr. tadd nr (hl ! layer)) [1..<k + 1] (scalar_add 0 (hl ! 0))
       = elementwise_sum (take (k + 1) hl) n d"
  using assms(2)
proof (induction k)
  case 0
  then have "take 1 hl = [hl ! 0]" by (cases hl) simp_all
  moreover have "is_tensor n d (hl ! 0)" using assms(1) 0 by simp
  ultimately show ?case by (simp add: elementwise_sum_single)
next
  case (Suc k)
  have t: "is_tensor n d (hl ! Suc k)" using assms(1) Suc.prems by simp
  have tk: "take (Suc k + 1) hl = take (k + 1) hl @ [hl ! Suc k]"
    using Suc.prems by (simp add: take_Suc_conv_app_nth)
  have "[1..<Suc k + 1] = [1..<k + 1] @ [Suc k]" by simp
  then show ?case using Suc elementwise_sum_snoc[OF t] tk by (simp del: upt_Suc)
qed

lemma jumping_knowledge_sum:
  assumes "\<forall>t \<in> set hl. is_tensor n d t" "length hl = L + 1"
  shows "jumping_knowledge ''sum'' L hl = Inr (elementwise_sum hl n d)"
  using jk_sum_fold[OF assms(1), of L] assms(2) by (simp add: jumping_knowledge_def)

lemma jumping_knowledge_last:
  assumes "length hl = L + 1"
  shows "jumping_knowledge ''last'' L hl = Inr (hl ! L)"
proof -
  have "hl \<noteq> []" using assms by auto
  then have "last hl = hl ! L" using assms by (simp add: last_conv_nth)
  then show ?thesis by (simp add: jumping_knowledge_def)
qed

text \<open>
  Claim C4, as amended. A forward pass whose encoder returns has a history of
  \<open>num_layer + 1\<close> entries; entry 0 is the encoder output in the engine without
  expander and the encoder output times the mask in the engine with expander; with the
  mode last the node representation is the final entry, and with the mode sum it is the
  elementwise sum of all entries.
\<close>

theorem history_and_jumping_knowledge:
  "(encode m d = Inr h \<longrightarrow>
      (\<exists>hl. GNN_node_h_list m d keep = Inr hl \<and> length hl = gnn_node.num_layer m + 1
         \<and> hl ! 0 = h
         \<and> (gnn_node.JK m = ''last'' \<longrightarrow> GNN_node_forward m d keep = Inr (hl ! gnn_node.num_layer m))
         \<and> (gnn_node.JK m = ''sum'' \<and> (\<forall>t \<in> set hl. is_tensor n dd t) \<longrightarrow>
              GNN_node_forward m d keep = Inr (elementwise_sum hl n dd))))
   \<and> (encode mx d = Inr hx \<longrightarrow>
      (\<exists>hl. GNN_node_expander_h_list mx d keep = Inr hl \<and> length hl = gnn_node.num_layer mx + 1
         \<and> hl ! 0 = tmul hx (expand_mask (expander_node_mask d) (ncols hx))
         \<and> (gnn_node.JK mx = ''last'' \<longrightarrow>
              GNN_node_expander_forward mx d keep = Inr (hl ! gnn_node.num_layer mx))
         \<and> (gnn_node.JK mx = ''sum'' \<and> (\<forall>t \<in> set hl. is_tensor n dd t) \<longrightarrow>
              GNN_node_expander_forward mx d keep = Inr (elementwise_sum hl n dd))))"
proof (intro conjI impI)
  assume e: "encode m d = Inr h"
  let ?hl = "fold (\<lambda>layer h_list. h_list @ [GNN_node_layer m d keep
      (ones (length (node_x d)) (ncols h)) layer (h_list ! layer)]) [0..<gnn_node.num_layer m] [h]"
  have hl: "GNN_node_h_list m d keep = Inr ?hl"
    by (simp add: GNN_node_h_list_def e Let_def)
  have len: "length ?hl = gnn_node.num_layer m + 1" by (simp add: length_fold_append)
  have z: "?hl ! 0 = h" by (simp add: fold_append_nth0)
  have fw: "GNN_node_forward m d keep = jumping_knowledge (gnn_node.JK m) (gnn_node.num_layer m) ?hl"
    by (simp add: GNN_node_forward_def hl)
  have l: "gnn_node.JK m = ''last'' \<longrightarrow> GNN_node_forward m d keep = Inr (?hl ! gnn_node.num_layer m)"
    using jumping_knowledge_last[OF len] fw by simp
  have s: "gnn_node.JK m = ''sum'' \<and> (\<forall>t \<in> set ?hl. is_tensor n dd t) \<longrightarrow>
      GNN_node_forward m d keep = Inr (elementwise_sum ?hl n dd)"
    using jumping_knowledge_sum[OF _ len] fw by simp
  show "\<exists>hl. GNN_node_h_list m d keep = Inr hl \<and> length hl = gnn_node.num_layer m + 1
         \<and> hl ! 0 = h
         \<and> (gnn_node.JK m = ''last'' \<longrightarrow> GNN_node_forward m d keep = Inr (hl ! gnn_node.num_layer m))
         \<and> (gnn_node.JK m = ''sum'' \<and> (\<forall>t \<in> set hl. is_tensor n dd t) \<longrightarrow>
              GNN_node_forward m d keep = Inr (elementwise_sum hl n dd))"
    using hl len z l s by blast
next
  assume e: "encode mx d = Inr hx"
  let ?hl = "fold (\<lambda>layer h_list. h_list @ [expander_layer mx d keep (expander_mask d hx) layer
      (h_list ! layer)]) [0..<gnn_node.num_layer mx] [expander_h0 d hx]"
  have hl: "GNN_node_expander_h_list mx d keep = Inr ?hl"
    by (simp add: GNN_node_expander_h_list_def e Let_def)
  have len: "length ?hl = gnn_node.num_layer mx + 1" by (simp add: length_fold_append)
  have z: "?hl ! 0 = tmul hx (expand_mask (expander_node_mask d) (ncols hx))"
    by (simp add: fold_append_nth0 expander_h0_def expander_mask_def)
  have fw: "GNN_node_expander_forward mx d keep
      = jumping_knowledge (gnn_node.JK mx) (gnn_node.num_layer mx) ?hl"
    by (simp add: GNN_node_expander_forward_def hl)
  have l: "gnn_node.JK mx = ''last'' \<longrightarrow>
      GNN_node_expander_forward mx d keep = Inr (?hl ! gnn_node.num_layer mx)"
    using jumping_knowledge_last[OF len] fw by simp
  have s: "gnn_node.JK mx = ''sum'' \<and> (\<forall>t \<in> set ?hl. is_tensor n dd t) \<longrightarrow>
      GNN_node_expander_forward mx d keep = Inr (elementwise_sum ?hl n dd)"
    using jumping_knowledge_sum[OF _ len] fw by simp
  show "\<exists>hl. GNN_node_expander_h_list mx d keep = Inr hl \<and> length hl = gnn_node.num_layer mx + 1
         \<and> hl ! 0 = tmul hx (expand_mask (expander_node_mask d) (ncols hx))
         \<and> (gnn_node.JK mx = ''last'' \<longrightarrow>
              GNN_node_expander_forward mx d keep = Inr (hl ! gnn_node.num_layer mx))
         \<and> (gnn_node.JK mx = ''sum'' \<and> (\<forall>t \<in> set hl. is_tensor n dd t) \<longrightarrow>
              GNN_node_expander_forward mx d keep = Inr (elementwise_sum hl n dd))"
    using hl len z l s by blast
qed

lemma expander_layer_JK:
  "expander_layer (m\<lparr>gnn_node.JK := jk\<rparr>) = expander_layer m"
  by (intro ext) (simp add: expander_layer_def main_phase_def hub_phase_def return_phase_def
      propagate_def Let_def)

text \<open>
  Claim C4, as stated, fails in the engine with expander: the encoder returns 1 and 5,
  and entry 0 of the history holds 1 and 0.
\<close>

theorem history_entry_0_counterexample:
  "encode (ex_expander ''learn-features'' False False id) ex_data = Inr [[Fin 1], [Fin 5]]
   \<and> GNN_node_expander_h_list (ex_expander ''learn-features'' False False id) ex_data no_draws
        = Inr [[[Fin 1], [Fin 0]], [[Fin 2], [Fin 1]], [[Fin 2], [Fin 1]]]"
proof -
  let ?m = "ex_expander ''learn-features'' False False id"
  have e1: "encode ?m ex_data = Inr [[Fin 1], [Fin 5]]" by (simp add: run_simps)
  have k1: "expander_mask ex_data [[Fin 1], [Fin 5]] = [[1], [0]]" by (simp add: run_simps)
  have z1: "expander_h0 ex_data [[Fin 1], [Fin 5]] = [[Fin 1], [Fin 0]]" by (simp add: run_simps)
  have "GNN_node_expander_h_list ?m ex_data no_draws
      = Inr [[[Fin 1], [Fin 0]], [[Fin 2], [Fin 1]], [[Fin 2], [Fin 1]]]"
    by (simp add: GNN_node_expander_h_list_def e1 k1 z1 upt_0_2 ex_layers)
  then show ?thesis using e1 by blast
qed

text \<open>
  The engine without expander in training with the mode last: the representation is the
  last of three distinct entries. The engine with expander with the mode sum: the
  representation is the sum 5 and 2 of the three entries.
\<close>

theorem history_and_jumping_knowledge_witness:
  "encode (ex_node True) ex_data = Inr [[Fin 1], [Fin 5]]
   \<and> gnn_node.JK (ex_node True) = ''last''
   \<and> GNN_node_h_list (ex_node True) ex_data keep_all
        = Inr [[[Fin 1], [Fin 5]], [[Fin 2], [Fin 10]], [[Fin 4], [Fin 20]]]
   \<and> GNN_node_forward (ex_node True) ex_data keep_all = Inr [[Fin 4], [Fin 20]]
   \<and> encode ((ex_expander ''learn-features'' False False id)\<lparr>gnn_node.JK := ''sum''\<rparr>) ex_data
        = Inr [[Fin 1], [Fin 5]]
   \<and> gnn_node.JK ((ex_expander ''learn-features'' False False id)\<lparr>gnn_node.JK := ''sum''\<rparr>) = ''sum''
   \<and> GNN_node_expander_h_list ((ex_expander ''learn-features'' False False id)\<lparr>gnn_node.JK := ''sum''\<rparr>)
        ex_data no_draws = Inr [[[Fin 1], [Fin 0]], [[Fin 2], [Fin 1]], [[Fin 2], [Fin 1]]]
   \<and> is_tensor 2 1 [[Fin 1], [Fin 0]] \<and> is_tensor 2 1 [[Fin 2], [Fin 1]]
   \<and> GNN_node_expander_forward ((ex_expander ''learn-features'' False False id)\<lparr>gnn_node.JK := ''sum''\<rparr>)
        ex_data no_draws = Inr [[Fin 5], [Fin 2]]"
proof -
  let ?m = "ex_node True"
  let ?mx = "(ex_expander ''learn-features'' False False id)\<lparr>gnn_node.JK := ''sum''\<rparr>"
  let ?hl = "[[[Fin 1], [Fin 5]], [[Fin 2], [Fin 10]], [[Fin 4], [Fin 20]]]"
  let ?hx = "[[[Fin 1], [Fin 0]], [[Fin 2], [Fin 1]], [[Fin 2], [Fin 1]]]"
  have e: "encode ?m ex_data = Inr [[Fin 1], [Fin 5]]"
    by (simp add: encode_def ex_node_def ex_simps view_flat_def)
  have jk: "gnn_node.JK ?m = ''last''" by (simp add: ex_node_def)
  have n: "gnn_node.num_layer ?m = 2" by (simp add: ex_node_def)
  have hl: "GNN_node_h_list ?m ex_data keep_all = Inr ?hl"
    by (simp add: gnn_run_simps ex_simps)
  have ex: "encode ?mx ex_data = Inr [[Fin 1], [Fin 5]]" by (simp add: run_simps)
  have jx: "gnn_node.JK ?mx = ''sum''" by simp
  have nx: "gnn_node.num_layer ?mx = 2" by (simp add: ex_expander_def)
  have k1: "expander_mask ex_data [[Fin 1], [Fin 5]] = [[1], [0]]" by (simp add: run_simps)
  have z1: "expander_h0 ex_data [[Fin 1], [Fin 5]] = [[Fin 1], [Fin 0]]" by (simp add: run_simps)
  have hx: "GNN_node_expander_h_list ?mx ex_data no_draws = Inr ?hx"
    by (simp add: GNN_node_expander_h_list_def ex k1 z1 upt_0_2 nx expander_layer_JK ex_layers)
  have t: "is_tensor 2 1 [[Fin 1], [Fin 0]]" "is_tensor 2 1 [[Fin 2], [Fin 1]]"
    by (simp_all add: is_tensor_def)
  note T = history_and_jumping_knowledge[of ?m ex_data "[[Fin 1], [Fin 5]]" keep_all 2 1
      ?mx "[[Fin 1], [Fin 5]]"]
  have f: "GNN_node_forward ?m ex_data keep_all = Inr [[Fin 4], [Fin 20]]"
    using T e jk hl n by auto
  have s: "elementwise_sum ?hx 2 1 = [[Fin 5], [Fin 2]]"
    by (simp add: elementwise_sum_def upt_0_2 zero_fl_def)
  have g: "GNN_node_expander_forward ?mx ex_data no_draws = Inr [[Fin 5], [Fin 2]]"
  proof -
    have "\<forall>t \<in> set ?hx. is_tensor 2 1 t" using t by simp
    then have "GNN_node_expander_forward ?mx ex_data no_draws = Inr (elementwise_sum ?hx 2 1)"
      using history_and_jumping_knowledge[of ?m ex_data "[[Fin 1], [Fin 5]]" no_draws 2 1
          ?mx "[[Fin 1], [Fin 5]]"] ex jx hx
      by auto
    then show ?thesis using s by simp
  qed
  show ?thesis using e jk hl f ex jx hx t g by blast
qed

section \<open>The additive convolution against its specification\<close>

lemma scatter_add_entry:
  assumes "is_tensor n d acc" "\<forall>r \<in> set src. length r = d" "i < n" "j < d"
  shows "scatter_add idx src acc ! i ! j
       = foldl (+) (acc ! i ! j) (map (\<lambda>(t, m). m ! j) (filter (\<lambda>(t, m). t = i) (zip idx src)))"
  using assms
proof (induction idx src acc rule: scatter_add.induct)
  case (1 t idx m src acc)
  let ?acc = "acc[t := vadd (acc ! t) m]"
  have lm: "length m = d" using 1(3) by simp
  have tens: "is_tensor n d ?acc"
    using is_tensor_scatter_add[of n d acc "[m]" "[t]"] 1(2) lm by simp
  have IH: "scatter_add idx src ?acc ! i ! j
       = foldl (+) (?acc ! i ! j) (map (\<lambda>(t, m). m ! j) (filter (\<lambda>(t, m). t = i) (zip idx src)))"
    using 1(1)[OF tens] 1(3,4,5) by simp
  show ?case
  proof (cases "t = i")
    case True
    have "length (acc ! i) = d" using is_tensorD(2)[OF 1(2) 1(4)] .
    then have "?acc ! i ! j = acc ! i ! j + m ! j"
      using True 1(2,4,5) lm by (simp add: is_tensor_def vadd_def)
    then show ?thesis using IH True by simp
  next
    case False
    then have "?acc ! i = acc ! i" by simp
    then show ?thesis using IH False by simp
  qed
qed simp_all

lemma message_None: "message (index_select x (map fst ei)) None = map (\<lambda>(s, t). map fl_relu (x ! s)) ei"
  by (simp add: index_select_def relu_def split_beta)

lemma message_Some:
  "length e = length ei \<Longrightarrow>
   message (index_select x (map fst ei)) (Some e)
     = map (\<lambda>((s, t), er). map fl_relu (vadd (x ! s) er)) (zip ei e)"
  by (intro nth_equalityI) (simp_all add: index_select_def relu_def tadd_def split_beta)

lemma propagate_entry:
  assumes "is_tensor n d x" "valid_edges n ei"
    "case emb of None \<Rightarrow> True | Some e \<Rightarrow> is_tensor (length ei) d e" "i < n" "j < d"
  shows "MessagePassing_propagate ''source_to_target'' ei x emb ! i ! j
       = incoming_sum ei x emb n d ! i ! j"
proof -
  have z: "zeros (length x) (ncols x) = zeros n d"
    using zeros_ncols[OF assms(1)] is_tensorD(1)[OF assms(1)] by simp
  have z0: "zeros n d ! i ! j = 0" using assms(4,5) by (simp add: zeros_def)
  have vs: "\<And>s t. (s, t) \<in> set ei \<Longrightarrow> length (x ! s) = d"
    using assms(1,2) by (auto simp: valid_edges_def is_tensor_def)
  show ?thesis
  proof (cases emb)
    case None
    let ?src = "map (\<lambda>(s, t). map fl_relu (x ! s)) ei"
    have len: "\<forall>r \<in> set ?src. length r = d" using vs by auto
    have zp: "zip (map snd ei) ?src = map (\<lambda>(s, t). (t, map fl_relu (x ! s))) ei"
      by (induction ei) auto
    have ent0: "\<And>s t. (s, t) \<in> set ei \<Longrightarrow> map fl_relu (x ! s) ! j = fl_relu (x ! s ! j)"
      using vs assms(5) by simp
    have "map (\<lambda>(t, m). m ! j) (filter (\<lambda>(t, m). t = i) (zip (map snd ei) ?src))
        = map (\<lambda>p. map fl_relu (x ! fst p) ! j) (filter (\<lambda>p. snd p = i) ei)"
      unfolding zp by (simp add: filter_map comp_def case_prod_unfold)
    also have "\<dots> = map (\<lambda>p. fl_relu (x ! fst p ! j)) (filter (\<lambda>p. snd p = i) ei)"
      by (rule map_cong) (use ent0 in auto)
    finally have "map (\<lambda>(t, m). m ! j) (filter (\<lambda>(t, m). t = i) (zip (map snd ei) ?src))
        = map (\<lambda>(s, t). fl_relu (x ! s ! j)) (filter (\<lambda>(s, t). t = i) ei)"
      by (simp add: case_prod_unfold)
    then show ?thesis
      using scatter_add_entry[OF is_tensor_zeros len assms(4,5), of "map snd ei"] z0 assms(4,5)
      by (simp add: MessagePassing_propagate_def None message_None z incoming_sum_def
          del: message.simps)
  next
    case (Some e)
    then have le: "length e = length ei" and we: "\<forall>r \<in> set e. length r = d"
      using assms(3) by (simp_all add: is_tensor_def)
    let ?src = "map (\<lambda>((s, t), er). map fl_relu (vadd (x ! s) er)) (zip ei e)"
    have zl: "\<And>s t er. ((s, t), er) \<in> set (zip ei e) \<Longrightarrow> length (x ! s) = d \<and> length er = d"
      using vs we by (meson set_zip_leftD set_zip_rightD)
    have len: "\<forall>r \<in> set ?src. length r = d"
      using zl by (auto simp: vadd_def)
    have zp: "zip (map snd ei) ?src
        = map (\<lambda>((s, t), er). (t, map fl_relu (vadd (x ! s) er))) (zip ei e)"
      using le by (intro nth_equalityI) (simp_all add: split_beta)
    have ent: "\<And>s t er. ((s, t), er) \<in> set (zip ei e) \<Longrightarrow>
        map fl_relu (vadd (x ! s) er) ! j = fl_relu (x ! s ! j + er ! j)"
      using zl assms(5) by (simp add: vadd_def)
    have "map (\<lambda>(t, m). m ! j) (filter (\<lambda>(t, m). t = i) (zip (map snd ei) ?src))
        = map (\<lambda>p. map fl_relu (vadd (x ! fst (fst p)) (snd p)) ! j)
            (filter (\<lambda>p. snd (fst p) = i) (zip ei e))"
      unfolding zp by (simp add: filter_map comp_def case_prod_unfold)
    also have "\<dots> = map (\<lambda>p. fl_relu (x ! fst (fst p) ! j + snd p ! j))
            (filter (\<lambda>p. snd (fst p) = i) (zip ei e))"
      by (rule map_cong) (use ent in auto)
    finally have "map (\<lambda>(t, m). m ! j) (filter (\<lambda>(t, m). t = i) (zip (map snd ei) ?src))
        = map (\<lambda>((s, t), er). fl_relu (x ! s ! j + er ! j))
            (filter (\<lambda>((s, t), er). t = i) (zip ei e))"
      by (simp add: case_prod_unfold)
    then show ?thesis
      using scatter_add_entry[OF is_tensor_zeros len assms(4,5), of "map snd ei"] z0 assms(4,5) le
      by (simp add: MessagePassing_propagate_def Some message_Some z incoming_sum_def
          del: message.simps)
  qed
qed

lemma tensor_eqI:
  assumes "is_tensor n d a" "is_tensor n d b" "\<And>i j. i < n \<Longrightarrow> j < d \<Longrightarrow> a ! i ! j = b ! i ! j"
  shows "a = b"
proof (rule nth_equalityI)
  show "length a = length b" using assms(1,2) by (simp add: is_tensor_def)
next
  fix i assume "i < length a"
  then have i: "i < n" using assms(1) by (simp add: is_tensor_def)
  show "a ! i = b ! i"
    using is_tensorD(2)[OF assms(1) i] is_tensorD(2)[OF assms(2) i] assms(3)[OF i]
    by (intro nth_equalityI) simp_all
qed

lemma is_tensor_incoming_sum: "is_tensor n d (incoming_sum ei x emb n d)"
  by (auto simp: is_tensor_def incoming_sum_def)

lemma propagate_incoming_sum:
  assumes "is_tensor n d x" "valid_edges n ei"
    "case emb of None \<Rightarrow> True | Some e \<Rightarrow> is_tensor (length ei) d e"
  shows "MessagePassing_propagate ''source_to_target'' ei x emb = incoming_sum ei x emb n d"
  using tensor_eqI[OF is_tensor_propagate[OF assms] is_tensor_incoming_sum]
    propagate_entry[OF assms] by blast

lemma propagate_flow:
  "fl \<noteq> ''source_to_target'' \<Longrightarrow>
   MessagePassing_propagate fl ei x emb
     = MessagePassing_propagate ''source_to_target'' (reverse_edges ei) x emb"
  by (simp add: MessagePassing_propagate_def reverse_edges_def comp_def case_prod_unfold Let_def)

lemma length_reverse_edges: "length (reverse_edges ei) = length ei"
  by (simp add: reverse_edges_def)

lemma tmul_mask_rows:
  assumes "is_tensor n d h" "length nm = n" "binary_mask nm"
    "\<forall>i<n. nm ! i = 0 \<longrightarrow> finite_row (h ! i)"
  shows "tmul h (expand_mask nm d) = mask_rows h nm"
proof (rule nth_equalityI)
  show "length (tmul h (expand_mask nm d)) = length (mask_rows h nm)"
    using assms(1,2) by (simp add: length_tmul length_expand_mask mask_rows_def is_tensor_def)
next
  fix i assume "i < length (tmul h (expand_mask nm d))"
  then have i: "i < n" using assms(1,2) by (simp add: length_tmul length_expand_mask is_tensor_def)
  have l: "length (h ! i) = d" using is_tensorD(2)[OF assms(1) i] .
  have b: "nm ! i = 0 \<or> nm ! i = 1" using assms(2,3) i by (auto simp: binary_mask_def)
  have r: "mask_rows h nm ! i = (if nm ! i = 0 then map (\<lambda>v. 0) (h ! i) else h ! i)"
    using i assms(1,2) by (simp add: mask_rows_def is_tensor_def)
  have t: "tmul h (expand_mask nm d) ! i = map2 (*) (h ! i) (replicate d (nm ! i))"
    using i assms(1,2) by (simp add: tmul_nth length_expand_mask expand_mask_nth is_tensor_def)
  show "tmul h (expand_mask nm d) ! i = mask_rows h nm ! i"
  proof (cases "nm ! i = 0")
    case True
    then have "finite_row (h ! i)" using assms(4) i by simp
    then show ?thesis using True r t l
      by (simp add: map2_mul_replicate_0 map_replicate_const)
  next
    case False
    then have "nm ! i = 1" using b by simp
    then show ?thesis using False r t l by (simp add: map2_mul_replicate_1)
  qed
qed

text \<open>
  Claim C3, as amended. For node vectors \<open>h\<close> of shape (n, d), a mask of zeros and ones,
  an edge index over the n nodes and optional edge features whose encoding has one row
  of width d per edge, and, where the masking flag is set, finite rows of \<open>h\<close> at the
  nodes with mask 0: the output before the directional update is the feed-forward
  sublayer applied to \<open>(1 + eps) * h' + A\<close>, where \<open>h'\<close> is \<open>h\<close> with the rows of mask 0
  zeroed if the masking flag is set and \<open>h\<close> otherwise, and \<open>A\<close> gives each target node the
  sum, in edge order, over its incoming edges of \<open>relu\<close> of the source's row of \<open>h'\<close> plus
  the encoded edge row (\<open>relu\<close> of the source's row of \<open>h'\<close> without edge features). Under
  the flow source\_to\_target an edge \<open>(s, t)\<close> of the edge index has the source \<open>s\<close> and the
  target \<open>t\<close>; under the other flow it has the source \<open>t\<close> and the target \<open>s\<close>.
\<close>

theorem GINConv_out_meets_specification:
  assumes "is_tensor n d h" and "length nm = n"
    and "binary_mask nm" and "valid_edges n ei"
    and "case ea of None \<Rightarrow> True | Some a \<Rightarrow> is_tensor (length ei) d (edge_encoder c a)"
    and "masking \<longrightarrow> (\<forall>i<n. nm ! i = 0 \<longrightarrow> finite_row (h ! i))"
  shows "snd (GINConv_out c h ei ea masking (expand_mask nm d))
       = GINConv_spec c h (if flow c = ''source_to_target'' then ei else reverse_edges ei)
           ea masking nm n d"
proof -
  let ?ei = "if flow c = ''source_to_target'' then ei else reverse_edges ei"
  let ?x = "if masking then tmul h (expand_mask nm d) else h"
  let ?h' = "if masking then mask_rows h nm else h"
  let ?emb = "case ea of None \<Rightarrow> None | Some a \<Rightarrow> Some (edge_encoder c a)"
  have x: "?x = ?h'"
    using tmul_mask_rows[OF assms(1,2,3)] assms(6) by simp
  have tx: "is_tensor n d ?x"
    using assms(1,2) by (simp add: is_tensor_tmul is_tensor_expand_mask)
  have v: "valid_edges n ?ei"
    using assms(4) by (simp add: valid_edges_reverse)
  have e: "case ?emb of None \<Rightarrow> True | Some e \<Rightarrow> is_tensor (length ?ei) d e"
    using assms(5) by (cases ea) (simp_all add: length_reverse_edges)
  have "MessagePassing_propagate (flow c) ei ?x ?emb
      = MessagePassing_propagate ''source_to_target'' ?ei ?x ?emb"
    using propagate_flow[of "flow c" ei ?x ?emb] by (cases "flow c = ''source_to_target''") simp_all
  then have p: "MessagePassing_propagate (flow c) ei ?x ?emb = incoming_sum ?ei ?x ?emb n d"
    using propagate_incoming_sum[OF tx v e] by simp
  have "snd (GINConv_out c h ei ea masking (expand_mask nm d))
      = mlp c (tadd (smul (1 + eps c) ?x) (MessagePassing_propagate (flow c) ei ?x ?emb))"
    by (cases ea) (simp_all add: GINConv_out_def Let_def)
  also have "\<dots> = mlp c (tadd (smul (1 + eps c) ?h') (incoming_sum ?ei ?h' ?emb n d))"
    unfolding p unfolding x by (rule refl)
  finally show ?thesis by (simp add: GINConv_spec_def Let_def)
qed

text \<open>
  Claim C3, as stated, fails on a row of mask 0 that is not finite: the masking multiplies
  the row by zero. With the masking flag set, no edge, a sublayer that adds 1 and
  \<open>eps = 1\<close>, the node of mask 0 that holds infinity has the masked row NaN and the output
  NaN, where the sublayer applied to \<open>(1 + eps) * h' + A\<close> with the row zeroed gives 1.
\<close>

theorem GINConv_out_counterexample:
  "snd (GINConv_out ex_gin_shift [[Fin 1], [PInf]] [] None True (expand_mask [1, 0] 1))
     = [[Fin 3], [NaN]]
   \<and> GINConv_spec ex_gin_shift [[Fin 1], [PInf]] [] None True [1, 0] 2 1 = [[Fin 3], [Fin 1]]"
  by (simp add: GINConv_out_def GINConv_spec_def MessagePassing_propagate_def mask_rows_def
      incoming_sum_def upt_0_2 ex_simps Let_def)

text \<open>
  The amended claim with the masking flag set, a sublayer that adds 1, \<open>eps = 1\<close>, three
  edges with edge features, and 7 at the node of mask 0: the masked rows are 1 and 0,
  the incoming sums are 2 and 2, and the output is 5 and 3.
\<close>

theorem GINConv_out_meets_specification_witness:
  "flow ex_gin_shift = ''source_to_target''
   \<and> is_tensor 2 1 [[Fin 1], [Fin 7]] \<and> length [1, 0 :: fl] = 2 \<and> binary_mask [1, 0]
   \<and> valid_edges 2 [(0, 1), (1, 0), (0, 0)]
   \<and> is_tensor 3 1 (edge_encoder ex_gin_shift [[Fin 1], [Fin 2], [Fin (- 5)]])
   \<and> finite_row [Fin 7]
   \<and> mask_rows [[Fin 1], [Fin 7]] [1, 0] = [[Fin 1], [Fin 0]]
   \<and> incoming_sum [(0, 1), (1, 0), (0, 0)] [[Fin 1], [Fin 0]]
        (Some [[Fin 1], [Fin 2], [Fin (- 5)]]) 2 1 = [[Fin 2], [Fin 2]]
   \<and> GINConv_spec ex_gin_shift [[Fin 1], [Fin 7]] [(0, 1), (1, 0), (0, 0)]
        (Some [[Fin 1], [Fin 2], [Fin (- 5)]]) True [1, 0] 2 1 = [[Fin 5], [Fin 3]]
   \<and> snd (GINConv_out ex_gin_shift [[Fin 1], [Fin 7]] [(0, 1), (1, 0), (0, 0)]
        (Some [[Fin 1], [Fin 2], [Fin (- 5)]]) True (expand_mask [1, 0] 1)) = [[Fin 5], [Fin 3]]"
proof -
  let ?h = "[[Fin 1], [Fin 7]]" and ?ei = "[(0, 1), (1, 0), (0, 0)] :: edge_index"
  let ?ea = "[[Fin 1], [Fin 2], [Fin (- 5)]]"
  have a1: "flow ex_gin_shift = ''source_to_target''" by (simp add: ex_gin_shift_def)
  have a2: "is_tensor 2 1 ?h" by (simp add: is_tensor_def)
  have a3: "length [1, 0 :: fl] = 2" by simp
  have a4: "binary_mask [1, 0]" by (simp add: binary_mask_def)
  have a5: "valid_edges 2 ?ei" by (simp add: valid_edges_def)
  have a6': "is_tensor 3 1 (edge_encoder ex_gin_shift ?ea)"
    by (simp add: ex_gin_shift_def is_tensor_def)
  then have a6: "case Some ?ea of None \<Rightarrow> True
      | Some a \<Rightarrow> is_tensor (length ?ei) 1 (edge_encoder ex_gin_shift a)"
    by (simp add: numeral_3_eq_3)
  have a7: "True \<longrightarrow> (\<forall>i<2. [1, 0 :: fl] ! i = 0 \<longrightarrow> finite_row (?h ! i))"
    by (simp add: less_2_cases_iff finite_row_def)
  have f: "finite_row [Fin 7]" by (simp add: finite_row_def)
  have mr: "mask_rows ?h [1, 0] = [[Fin 1], [Fin 0]]"
    by (simp add: mask_rows_def fl_simps)
  have isum: "incoming_sum ?ei [[Fin 1], [Fin 0]] (Some ?ea) 2 1 = [[Fin 2], [Fin 2]]"
    by (simp add: incoming_sum_def upt_0_2 fl_simps)
  have sp: "GINConv_spec ex_gin_shift ?h ?ei (Some ?ea) True [1, 0] 2 1 = [[Fin 5], [Fin 3]]"
    by (simp add: GINConv_spec_def mask_rows_def incoming_sum_def upt_0_2 ex_simps Let_def)
  have "snd (GINConv_out ex_gin_shift ?h ?ei (Some ?ea) True (expand_mask [1, 0] 1))
      = [[Fin 5], [Fin 3]]"
    using GINConv_out_meets_specification[OF a2 a3 a4 a5 a6 a7] a1 sp by simp
  then show ?thesis using a1 a2 a3 a4 a5 a6' f mr isum sp by blast
qed

section \<open>The readout and the rows of the hub nodes\<close>

lemma same_tail_refl: "same_tail a a"
  by (simp add: same_tail_def)

lemma same_tail_nth: "same_tail a b \<Longrightarrow> i \<noteq> 0 \<Longrightarrow> a ! i = b ! i"
  by (cases a; cases b; cases i) (auto simp: same_tail_def)

lemma same_tail_list_update:
  "same_tail a b \<Longrightarrow> (i \<noteq> 0 \<Longrightarrow> u = v) \<Longrightarrow> same_tail (a[i := u]) (b[i := v])"
  by (cases a; cases b; cases i) (auto simp: same_tail_def)

lemma same_tail_map: "same_tail a b \<Longrightarrow> same_tail (map f a) (map f b)"
  by (cases a; cases b) (auto simp: same_tail_def)

lemma same_tail_map2:
  "same_tail a b \<Longrightarrow> same_tail c d \<Longrightarrow> same_tail (map2 f a c) (map2 f b d)"
  by (cases a; cases b; cases c; cases d) (auto simp: same_tail_def)

lemma same_tail_tl: "same_tail a b \<Longrightarrow> tl a = tl b"
  by (simp add: same_tail_def)

lemma agree_refl: "agree_off_zero idx a a"
  by (simp add: agree_off_zero_def)

lemma agree_length: "agree_off_zero idx a b \<Longrightarrow> length a = length b"
  by (simp add: agree_off_zero_def)

lemma agree_map: "agree_off_zero idx a b \<Longrightarrow> agree_off_zero idx (map f a) (map f b)"
  by (simp add: agree_off_zero_def)

lemma agree_map2:
  "agree_off_zero idx a b \<Longrightarrow> agree_off_zero idx c d
   \<Longrightarrow> agree_off_zero idx (map2 f a c) (map2 f b d)"
  by (simp add: agree_off_zero_def)

lemma agree_index_select:
  "same_tail q1 q2 \<Longrightarrow> agree_off_zero idx (index_select q1 idx) (index_select q2 idx)"
  by (simp add: agree_off_zero_def index_select_def same_tail_nth)

lemma agree_Cons_hd: "agree_off_zero (i # idx) (m1 # r1) (m2 # r2) \<Longrightarrow> i \<noteq> 0 \<Longrightarrow> m1 = m2"
  by (auto simp: agree_off_zero_def)

lemma agree_Cons_tl:
  assumes "agree_off_zero (i # idx) (m1 # r1) (m2 # r2)"
  shows "agree_off_zero idx r1 r2"
proof -
  have l: "length r1 = length r2" using assms by (simp add: agree_off_zero_def)
  have "r1 ! k = r2 ! k" if "k < length r1" "k < length idx" "idx ! k \<noteq> 0" for k
  proof -
    have "Suc k < length (m1 # r1) \<longrightarrow> Suc k < length (i # idx) \<longrightarrow> (i # idx) ! Suc k \<noteq> 0
          \<longrightarrow> (m1 # r1) ! Suc k = (m2 # r2) ! Suc k"
      using assms unfolding agree_off_zero_def by blast
    then show ?thesis using that by simp
  qed
  then show ?thesis using l by (simp add: agree_off_zero_def)
qed

lemma scatter_add_same_tail:
  "agree_off_zero idx s1 s2 \<Longrightarrow> same_tail a1 a2
   \<Longrightarrow> same_tail (scatter_add idx s1 a1) (scatter_add idx s2 a2)"
proof (induction idx arbitrary: s1 s2 a1 a2)
  case Nil
  then show ?case by simp
next
  case (Cons i idx)
  show ?case
  proof (cases s1)
    case Nil
    then have "s2 = []" using Cons.prems(1) by (simp add: agree_off_zero_def)
    then show ?thesis using Nil Cons.prems(2) by simp
  next
    case c1: (Cons m1 r1)
    then obtain m2 r2 where c2: "s2 = m2 # r2"
      using Cons.prems(1) by (cases s2) (auto simp: agree_off_zero_def)
    have h: "i \<noteq> 0 \<Longrightarrow> m1 = m2" and t: "agree_off_zero idx r1 r2"
      using Cons.prems(1) agree_Cons_hd[of i idx m1 r1 m2 r2] agree_Cons_tl[of i idx m1 r1 m2 r2]
      unfolding c1 c2 by simp_all
    have "same_tail (a1[i := vadd (a1 ! i) m1]) (a2[i := vadd (a2 ! i) m2])"
      using Cons.prems(2) h same_tail_nth[OF Cons.prems(2), of i]
      by (intro same_tail_list_update) simp_all
    then show ?thesis using Cons.IH[OF t] c1 c2 by simp
  qed
qed

lemma scatter_max_same_tail:
  "agree_off_zero idx s1 s2 \<Longrightarrow> same_tail a1 a2
   \<Longrightarrow> same_tail (scatter_max idx s1 a1) (scatter_max idx s2 a2)"
proof (induction idx arbitrary: s1 s2 a1 a2)
  case Nil
  then show ?case by simp
next
  case (Cons i idx)
  show ?case
  proof (cases s1)
    case Nil
    then have "s2 = []" using Cons.prems(1) by (simp add: agree_off_zero_def)
    then show ?thesis using Nil Cons.prems(2) by simp
  next
    case c1: (Cons m1 r1)
    then obtain m2 r2 where c2: "s2 = m2 # r2"
      using Cons.prems(1) by (cases s2) (auto simp: agree_off_zero_def)
    have h: "i \<noteq> 0 \<Longrightarrow> m1 = m2" and t: "agree_off_zero idx r1 r2"
      using Cons.prems(1) agree_Cons_hd[of i idx m1 r1 m2 r2] agree_Cons_tl[of i idx m1 r1 m2 r2]
      unfolding c1 c2 by simp_all
    have "same_tail (a1[i := Some (case a1 ! i of None \<Rightarrow> m1 | Some a \<Rightarrow> map2 fl_max a m1)])
                    (a2[i := Some (case a2 ! i of None \<Rightarrow> m2 | Some a \<Rightarrow> map2 fl_max a m2)])"
      using Cons.prems(2) h same_tail_nth[OF Cons.prems(2), of i]
      by (intro same_tail_list_update) (auto split: option.splits)
    then show ?thesis using Cons.IH[OF t] c1 c2 by simp
  qed
qed

lemma group_softmax_agree:
  assumes "agree_off_zero idx s1 s2" "ncols s1 = ncols s2"
  shows "agree_off_zero idx (group_softmax s1 idx n) (group_softmax s2 idx n)"
proof -
  define c where "c = ncols s2"
  have c1: "ncols s1 = c" and c2: "ncols s2 = c" using assms(2) by (simp_all add: c_def)
  let ?mx = "\<lambda>s. map (\<lambda>r. case r of None \<Rightarrow> replicate c 0 | Some v \<Rightarrow> v)
                      (scatter_max idx s (replicate n None))"
  let ?out = "\<lambda>s. map2 (map2 (\<lambda>v mx. fl_exp (v - mx))) s (index_select (?mx s) idx)"
  let ?sum = "\<lambda>s. map (map (\<lambda>v. v + Fin (1 / 10 ^ 16))) (scatter_add idx (?out s) (zeros n c))"
  have "same_tail (scatter_max idx s1 (replicate n None)) (scatter_max idx s2 (replicate n None))"
    using scatter_max_same_tail[OF assms(1) same_tail_refl] .
  then have mx: "same_tail (?mx s1) (?mx s2)"
    by (rule same_tail_map)
  have out: "agree_off_zero idx (?out s1) (?out s2)"
    using agree_map2[OF assms(1) agree_index_select[OF mx]] .
  have "same_tail (scatter_add idx (?out s1) (zeros n c)) (scatter_add idx (?out s2) (zeros n c))"
    using scatter_add_same_tail[OF out same_tail_refl] .
  then have sm: "same_tail (?sum s1) (?sum s2)" by (rule same_tail_map)
  have "agree_off_zero idx (map2 (map2 fl_div) (?out s1) (index_select (?sum s1) idx))
                           (map2 (map2 fl_div) (?out s2) (index_select (?sum s2) idx))"
    using agree_map2[OF out agree_index_select[OF sm]] .
  then show ?thesis by (simp add: group_softmax_def Let_def c1 c2)
qed

lemma is_tensor_ncols_eq: "is_tensor n d h1 \<Longrightarrow> is_tensor n d h2 \<Longrightarrow> ncols h1 = ncols h2"
  by (cases h1; cases h2) (auto simp: is_tensor_def ncols_def)

lemma ncols_map_singleton:
  "(\<And>r. length (f r) = 1) \<Longrightarrow> length a = length b \<Longrightarrow> ncols (map f a) = ncols (map f b)"
  by (cases a; cases b) (simp_all add: ncols_def)

lemma remap_batch_agree:
  assumes "same_original_rows node_mask h1 h2"
  shows "agree_off_zero (map nat (remap_batch node_mask b)) h1 h2"
proof -
  have "h1 ! k = h2 ! k"
    if "k < length h1" "k < length (map nat (remap_batch node_mask b))"
       "map nat (remap_batch node_mask b) ! k \<noteq> 0" for k
  proof -
    have k: "k < length node_mask" "k < length b" using that(2) by (simp_all add: remap_batch_def)
    have "fl_pos (node_mask ! k)"
      using that(3) k by (cases "fl_pos (node_mask ! k)") (simp_all add: remap_batch_def)
    then show ?thesis using assms that(1) by (simp add: same_original_rows_def)
  qed
  then show ?thesis using assms by (simp add: agree_off_zero_def same_original_rows_def)
qed

lemma global_add_pool_same_tail:
  assumes "agree_off_zero (map nat b) h1 h2" "ncols h1 = ncols h2"
  shows "same_tail (global_add_pool h1 b) (global_add_pool h2 b)"
  unfolding global_add_pool_def assms(2)
  by (rule scatter_add_same_tail[OF assms(1) same_tail_refl])

lemma global_mean_pool_same_tail:
  assumes "agree_off_zero (map nat b) h1 h2" "ncols h1 = ncols h2"
  shows "same_tail (global_mean_pool h1 b) (global_mean_pool h2 b)"
proof -
  have l: "length h1 = length h2" using assms(1) by (rule agree_length)
  have t: "same_tail (scatter_add (map nat b) h1 (zeros (pool_size b) (ncols h2)))
                     (scatter_add (map nat b) h2 (zeros (pool_size b) (ncols h2)))"
    by (rule scatter_add_same_tail[OF assms(1) same_tail_refl])
  show ?thesis
    unfolding global_mean_pool_def Let_def assms(2) l
    by (rule same_tail_map2[OF t same_tail_refl])
qed

lemma global_max_pool_same_tail:
  assumes "agree_off_zero (map nat b) h1 h2" "ncols h1 = ncols h2"
  shows "same_tail (global_max_pool h1 b) (global_max_pool h2 b)"
  unfolding global_max_pool_def assms(2)
  by (rule same_tail_map[OF scatter_max_same_tail[OF assms(1) same_tail_refl]])

lemma weighted_rows_same_tail:
  assumes "agree_off_zero idx g1 g2" "agree_off_zero idx h1 h2"
  shows "same_tail
     (scatter_add idx (map2 (\<lambda>g row. map (\<lambda>v. hd g * v) row) g1 h1) (zeros n c))
     (scatter_add idx (map2 (\<lambda>g row. map (\<lambda>v. hd g * v) row) g2 h2) (zeros n c))"
  by (rule scatter_add_same_tail[OF agree_map2[OF assms] same_tail_refl])

lemma GlobalAttention_same_tail:
  assumes "agree_off_zero (map nat b) h1 h2" "ncols h1 = ncols h2" "rowwise_gate g"
  shows "same_tail (GlobalAttention g h1 b) (GlobalAttention g h2 b)"
proof -
  let ?f = "\<lambda>r. hd (g [r])"
  from assms(3) have a: "\<forall>t. g t = map ?f t"
    unfolding rowwise_gate_def by (rule conjunct1)
  from assms(3) have w0: "\<forall>r. length (?f r) = 1"
    unfolding rowwise_gate_def by (rule conjunct2)
  have g: "g h1 = map ?f h1" "g h2 = map ?f h2"
    using a[THEN spec, of h1] a[THEN spec, of h2] .
  have w: "\<And>r. length (?f r) = 1" using w0 by (rule spec)
  have l: "length h1 = length h2" using assms(1) by (rule agree_length)
  have ga: "agree_off_zero (map nat b) (map ?f h1) (map ?f h2)"
    using assms(1) by (rule agree_map)
  have nc: "ncols (map ?f h1) = ncols (map ?f h2)"
    using ncols_map_singleton[of ?f, OF w l] .
  have sm: "agree_off_zero (map nat b) (group_softmax (map ?f h1) (map nat b) (pool_size b))
                                        (group_softmax (map ?f h2) (map nat b) (pool_size b))"
    using group_softmax_agree[OF ga nc] .
  show ?thesis
    unfolding GlobalAttention_def Let_def g assms(2)
    by (rule weighted_rows_same_tail[OF sm assms(1)])
qed

lemma Set2Set_step_same_tail:
  assumes "agree_off_zero idx h1 h2" "ncols h1 = ncols h2"
    "same_tail (fst st1) (fst st2)" "same_tail (snd st1) (snd st2)"
  shows "same_tail (fst (Set2Set_step cell h1 idx n st1)) (fst (Set2Set_step cell h2 idx n st2))
       \<and> same_tail (snd (Set2Set_step cell h1 idx n st1)) (snd (Set2Set_step cell h2 idx n st2))"
proof -
  let ?qh = "\<lambda>st. map2 cell (fst st) (snd st)"
  let ?q = "\<lambda>st. map fst (?qh st)"
  let ?s = "\<lambda>row. [fold (\<lambda>v acc. acc + v) row (0 :: fl)]"
  let ?e = "\<lambda>h st. map ?s (tmul h (index_select (?q st) idx))"
  let ?r = "\<lambda>h st. scatter_add idx (map2 (\<lambda>g row. map (\<lambda>v. hd g * v) row)
                       (group_softmax (?e h st) idx n) h) (zeros n (ncols h2))"
  have qh: "same_tail (?qh st1) (?qh st2)"
    using assms(3,4) by (rule same_tail_map2)
  then have q: "same_tail (?q st1) (?q st2)" by (rule same_tail_map)
  have "agree_off_zero idx (tmul h1 (index_select (?q st1) idx)) (tmul h2 (index_select (?q st2) idx))"
    unfolding tmul_def using agree_map2[OF assms(1) agree_index_select[OF q]] .
  then have e: "agree_off_zero idx (?e h1 st1) (?e h2 st2)" by (rule agree_map)
  have "length (tmul h1 (index_select (?q st1) idx)) = length (tmul h2 (index_select (?q st2) idx))"
    using agree_length[OF assms(1)] by (simp add: tmul_def index_select_def)
  then have nc: "ncols (?e h1 st1) = ncols (?e h2 st2)"
    by (intro ncols_map_singleton) simp_all
  have sm: "agree_off_zero idx (group_softmax (?e h1 st1) idx n) (group_softmax (?e h2 st2) idx n)"
    using group_softmax_agree[OF e nc] .
  have r: "same_tail (?r h1 st1) (?r h2 st2)"
    by (rule weighted_rows_same_tail[OF sm assms(1)])
  have "same_tail (map2 (@) (?q st1) (?r h1 st1)) (map2 (@) (?q st2) (?r h2 st2))"
    using q r by (rule same_tail_map2)
  moreover have "same_tail (map snd (?qh st1)) (map snd (?qh st2))"
    using qh by (rule same_tail_map)
  ultimately show ?thesis
    unfolding Set2Set_step_def Let_def assms(2) fst_conv snd_conv by (rule conjI)
qed

lemma Set2Set_fold_same_tail:
  assumes "agree_off_zero idx h1 h2" "ncols h1 = ncols h2"
  shows "same_tail (fst st1) (fst st2) \<Longrightarrow> same_tail (snd st1) (snd st2) \<Longrightarrow>
     same_tail (fst (fold (\<lambda>i st. Set2Set_step cell h1 idx n st) xs st1))
               (fst (fold (\<lambda>i st. Set2Set_step cell h2 idx n st) xs st2))"
proof (induction xs arbitrary: st1 st2)
  case Nil
  then show ?case by simp
next
  case (Cons x xs)
  note s = Set2Set_step_same_tail[OF assms Cons.prems, of cell n]
  show ?case
    unfolding fold_simps comp_apply
    by (rule Cons.IH[OF conjunct1[OF s] conjunct2[OF s]])
qed

lemma Set2Set_same_tail:
  assumes "agree_off_zero (map nat b) h1 h2" "ncols h1 = ncols h2"
  shows "same_tail (Set2Set cell k h1 b) (Set2Set cell k h2 b)"
  unfolding Set2Set_def Let_def assms(2)
  by (rule Set2Set_fold_same_tail[OF assms]) (simp_all add: same_tail_refl)

lemma pool_apply_same_tail:
  assumes "agree_off_zero (map nat b) h1 h2" "ncols h1 = ncols h2"
    "case pl of Attention_pool gate_nn \<Rightarrow> rowwise_gate gate_nn | _ \<Rightarrow> True"
  shows "same_tail (pool_apply pl h1 b) (pool_apply pl h2 b)"
  using assms
  by (cases pl)
     (simp_all add: global_add_pool_same_tail global_mean_pool_same_tail
        global_max_pool_same_tail GlobalAttention_same_tail Set2Set_same_tail)

text \<open>
  Claim C2, as amended. With expander, for the pooling kinds sum, mean, max and set2set,
  and for the attention pooling whose gate network acts on every row on its own and
  returns one value per row (as outside training, where its normalisation uses the
  running statistics): two tensors of node rows of one shape that are equal at every
  node with a positive mask have the same readout. The rows of the hub nodes may hold
  any values, infinities and NaN included.
\<close>

theorem readout_independent_of_hub_rows:
  assumes "is_tensor n d h1" and "is_tensor n d h2"
    and "same_original_rows (expander_node_mask dt) h1 h2"
    and "case pl of Attention_pool gate_nn \<Rightarrow> rowwise_gate gate_nn | _ \<Rightarrow> True"
  shows "readout pl True h1 dt = readout pl True h2 dt"
  using pool_apply_same_tail[OF remap_batch_agree[OF assms(3)] is_tensor_ncols_eq[OF assms(1,2)] assms(4)]
  by (simp add: readout_def same_tail_def)

text \<open>
  A gate network whose linear layers and whose normalisation act row by row acts row by
  row; so does the gate network of the example outside training.
\<close>

lemma Sequential_gate_rowwise:
  assumes "lin1 = map f1" "bn = map fb" "lin2 = map f2" "\<And>r. length (f2 r) = 1"
  shows "rowwise_gate (Sequential_gate lin1 bn lin2)"
  unfolding rowwise_gate_def Sequential_gate_def relu_def assms(1,2,3)
  by (simp add: assms(4))

lemma ex_gate_eval_rowwise: "rowwise_gate (ex_gate False)"
  unfolding ex_gate_def
  by (rule Sequential_gate_rowwise[of _ "\<lambda>r. [hd r, hd r]" _
        "map (\<lambda>v. fl_div (v - 0) (fl_sqrt (1 + Fin (1 / 10 ^ 5))) * 1 + 0)" _ "\<lambda>r. [hd r]"])
     (auto simp: gate_lin1_def gate_lin2_def BatchNorm1d_eval_def)

lemma gate_low:
  "ex_gate True [[Fin 0], [Fin 1], [Fin (- 1)]] = [[Fin 0], [Fin (1 / sqrt (2 / 3 + 1 / 10 ^ 5))], [Fin 0]]"
  by (simp add: ex_gate_def Sequential_gate_def gate_lin1_def gate_lin2_def
      BatchNorm1d_training_def column_mean_def column_var_def relu_def upt_0_2 fl_simps Let_def)

lemma gate_high:
  "ex_gate True [[Fin 0], [Fin 1], [Fin 5]] = [[Fin 0], [Fin 0], [Fin (3 / sqrt (14 / 3 + 1 / 10 ^ 5))]]"
  by (simp add: ex_gate_def Sequential_gate_def gate_lin1_def gate_lin2_def
      BatchNorm1d_training_def column_mean_def column_var_def relu_def upt_0_2 fl_simps Let_def)

lemma gate_eval:
  "ex_gate False [[Fin 0], [Fin 1], [Fin (- 1)]] = [[Fin 0], [Fin (1 / sqrt (1 + 1 / 10 ^ 5))], [Fin 0]]"
  by (simp add: ex_gate_def Sequential_gate_def gate_lin1_def gate_lin2_def
      BatchNorm1d_eval_def relu_def fl_simps Let_def)

lemma pos_add_exp: "0 < a \<Longrightarrow> a + exp (x :: real) \<noteq> 0"
  using exp_gt_zero[of x] by linarith

lemmas readout_simps = readout_def GlobalAttention_def group_softmax_def remap_batch_def
  ex_data_hub_def pool_size_def ncols_def index_select_def zeros_def vadd_def fl_simps Let_def
  numeral_2_eq_2 pos_add_exp

lemma readout_low:
  "readout (Attention_pool (ex_gate True)) True [[Fin 0], [Fin 1], [Fin (- 1)]] ex_data_hub
     = [[Fin (1 / (exp (- (1 / sqrt (2 / 3 + 1 / 10 ^ 5))) + 1 + 1 / 10 ^ 16))]]"
  by (simp add: gate_low readout_simps)

lemma readout_high:
  "readout (Attention_pool (ex_gate True)) True [[Fin 0], [Fin 1], [Fin 5]] ex_data_hub
     = [[Fin (1 / (2 + 1 / 10 ^ 16))]]"
  by (simp add: gate_high readout_simps)

lemma readout_eval:
  "readout (Attention_pool (ex_gate False)) True [[Fin 0], [Fin 1], [Fin (- 1)]] ex_data_hub
     = [[Fin (1 / (exp (- (1 / sqrt (1 + 1 / 10 ^ 5))) + 1 + 1 / 10 ^ 16))]]"
  by (simp add: gate_eval readout_simps)

lemma pooled_values_differ:
  "1 / (exp (- (1 / sqrt (2 / 3 + 1 / 10 ^ 5))) + 1 + 1 / 10 ^ 16) \<noteq> (1 / (2 + 1 / 10 ^ 16) :: real)"
proof
  define e :: real where "e = exp (- (1 / sqrt (2 / 3 + 1 / 10 ^ 5)))"
  define c :: real where "c = 1 / 10 ^ 16"
  assume "1 / (exp (- (1 / sqrt (2 / 3 + 1 / 10 ^ 5))) + 1 + 1 / 10 ^ 16) = (1 / (2 + 1 / 10 ^ 16) :: real)"
  then have "inverse (e + 1 + c) = inverse (2 + c)"
    unfolding e_def c_def by (simp only: inverse_eq_divide)
  then have "e + 1 + c = 2 + c" by (simp only: inverse_eq_iff_eq)
  moreover have "e < 1" unfolding e_def by simp
  ultimately show False by linarith
qed

text \<open>
  Claim C2, as stated, fails for the attention pooling in training, the mode of a
  freshly constructed model: the normalisation of the gate network standardises every
  column by the statistics of all the rows of the batch, the rows of the hub nodes
  among them. One graph has the original nodes 0 and 1 and one hub node. With \<open>-1\<close> at
  the hub node the gates of the original nodes are 0 and \<open>1 / sqrt (2/3 + 1e-5)\<close>, with 5
  at the hub node they are 0 and 0, and the pooled vectors of the graph differ.
\<close>

theorem readout_attention_training_counterexample:
  "choose_pool (ex_head_lib_gate True) 1 ''attention'' = Inr (Attention_pool (ex_gate True))
   \<and> same_original_rows (expander_node_mask ex_data_hub)
        [[Fin 0], [Fin 1], [Fin (- 1)]] [[Fin 0], [Fin 1], [Fin 5]]
   \<and> readout (Attention_pool (ex_gate True)) True [[Fin 0], [Fin 1], [Fin (- 1)]] ex_data_hub
        = [[Fin (1 / (exp (- (1 / sqrt (2 / 3 + 1 / 10 ^ 5))) + 1 + 1 / 10 ^ 16))]]
   \<and> readout (Attention_pool (ex_gate True)) True [[Fin 0], [Fin 1], [Fin 5]] ex_data_hub
        = [[Fin (1 / (2 + 1 / 10 ^ 16))]]
   \<and> readout (Attention_pool (ex_gate True)) True [[Fin 0], [Fin 1], [Fin (- 1)]] ex_data_hub
        \<noteq> readout (Attention_pool (ex_gate True)) True [[Fin 0], [Fin 1], [Fin 5]] ex_data_hub"
proof -
  have c: "choose_pool (ex_head_lib_gate True) 1 ''attention'' = Inr (Attention_pool (ex_gate True))"
    by (simp add: choose_pool_def ex_head_lib_gate_def ex_gate_def)
  have s: "same_original_rows (expander_node_mask ex_data_hub)
        [[Fin 0], [Fin 1], [Fin (- 1)]] [[Fin 0], [Fin 1], [Fin 5]]"
    by (simp add: same_original_rows_def ex_data_hub_def All_less_Suc numeral_3_eq_3 fl_simps)
  show ?thesis
    using c s pooled_values_differ by (simp add: readout_low readout_high)
qed

text \<open>
  The amended claim for the attention pooling outside training, on the same graph with
  \<open>-1\<close> and with infinity at the hub node: the pooled vector of the graph is the same.
\<close>

theorem readout_independent_of_hub_rows_witness:
  "is_tensor 3 1 [[Fin 0], [Fin 1], [Fin (- 1)]] \<and> is_tensor 3 1 [[Fin 0], [Fin 1], [PInf]]
   \<and> same_original_rows (expander_node_mask ex_data_hub)
        [[Fin 0], [Fin 1], [Fin (- 1)]] [[Fin 0], [Fin 1], [PInf]]
   \<and> choose_pool (ex_head_lib_gate False) 1 ''attention'' = Inr (Attention_pool (ex_gate False))
   \<and> rowwise_gate (ex_gate False)
   \<and> readout (Attention_pool (ex_gate False)) True [[Fin 0], [Fin 1], [Fin (- 1)]] ex_data_hub
        = [[Fin (1 / (exp (- (1 / sqrt (1 + 1 / 10 ^ 5))) + 1 + 1 / 10 ^ 16))]]
   \<and> readout (Attention_pool (ex_gate False)) True [[Fin 0], [Fin 1], [PInf]] ex_data_hub
        = [[Fin (1 / (exp (- (1 / sqrt (1 + 1 / 10 ^ 5))) + 1 + 1 / 10 ^ 16))]]"
proof -
  have a1: "is_tensor 3 1 [[Fin 0], [Fin 1], [Fin (- 1)]]" by (simp add: is_tensor_def)
  have a2: "is_tensor 3 1 [[Fin 0], [Fin 1], [PInf]]" by (simp add: is_tensor_def)
  have a3: "same_original_rows (expander_node_mask ex_data_hub)
        [[Fin 0], [Fin 1], [Fin (- 1)]] [[Fin 0], [Fin 1], [PInf]]"
    by (simp add: same_original_rows_def ex_data_hub_def All_less_Suc numeral_3_eq_3 fl_simps)
  have c: "choose_pool (ex_head_lib_gate False) 1 ''attention'' = Inr (Attention_pool (ex_gate False))"
    by (simp add: choose_pool_def ex_head_lib_gate_def ex_gate_def)
  have a4: "case Attention_pool (ex_gate False) of Attention_pool gate_nn \<Rightarrow> rowwise_gate gate_nn
            | _ \<Rightarrow> True"
    by (simp add: ex_gate_eval_rowwise)
  have "readout (Attention_pool (ex_gate False)) True [[Fin 0], [Fin 1], [PInf]] ex_data_hub
      = readout (Attention_pool (ex_gate False)) True [[Fin 0], [Fin 1], [Fin (- 1)]] ex_data_hub"
    using readout_independent_of_hub_rows[OF a1 a2 a3 a4] by simp
  then show ?thesis
    using a1 a2 a3 c ex_gate_eval_rowwise readout_eval by simp
qed

end
